(* ===== verification/Prelude.thy ===== *)
theory Prelude
  imports Complex_Main "HOL-Library.Word"
begin

text \<open>
  Shared vocabulary of the TrainSpeedometer development: the machine types of the
  Arduino target (AVR: \<open>uint8_t\<close>, \<open>uint32_t\<close>, a 32-bit \<open>long\<close>), the named
  collections of rewrite rules the component theories fill, and the generic facts on
  lists and words that several components use (the sliding window of the sample
  filter, unsigned division of a sum, narrowing casts).
\<close>

named_theorems model_simps \<open>unfolding equations of the operations of the model\<close>
named_theorems word_facts \<open>arithmetic facts on machine words used by the components\<close>

type_synonym u8 = "8 word"
type_synonym u32 = "32 word"

text \<open>
  The C \<open>long\<close> of the AVR target is 32 bits wide. The components that compute in
  \<open>long\<close> only combine values that come from \<open>uint8_t\<close>, so the model computes in
  \<open>int\<close> and proves separately that every such value stays within this range.
\<close>

type_synonym long = int

definition long_range :: "int \<Rightarrow> bool" where
  "long_range x \<longleftrightarrow> - (2 ^ 31) \<le> x \<and> x < 2 ^ 31"

lemma long_range_add_sub [word_facts]:
  fixes a b :: int
  assumes "0 \<le> a" "a < 2 ^ 30" "0 \<le> b" "b < 2 ^ 30"
  shows "long_range (a + b) \<and> long_range (a - b)"
  using assms by (simp add: long_range_def)

text \<open>The C cast \<open>(long) x\<close> of an unsigned value: reduced to 32 bits and read as two's
  complement (the value itself when the source type is narrower than \<open>long\<close>).\<close>

definition to_long :: "'a::len word \<Rightarrow> long" where
  "to_long x = sint (ucast x :: 32 word)"

lemma to_long_narrow [word_facts]:
  fixes x :: "'a::len word"
  assumes "LENGTH('a) < 32"
  shows "to_long x = uint x"
proof -
  have up: "uint (ucast x :: 32 word) = uint x"
    using assms by (simp add: uint_up_ucast is_up)
  have "uint x < 2 ^ LENGTH('a)" by simp
  also have "(2::int) ^ LENGTH('a) \<le> 2 ^ 31"
    using assms by (intro power_increasing) simp_all
  finally have "uint x < 2 ^ 31" .
  moreover have "- (2 ^ 31) \<le> uint x"
    by (rule order_trans[of _ 0]) simp_all
  ultimately show ?thesis
    unfolding to_long_def sint_uint up
    using signed_take_bit_int_eq_self[of 31 "uint x"] by simp
qed

text \<open>The last \<open>n\<close> elements of a list (all of it when it is shorter).\<close>

definition last_n :: "nat \<Rightarrow> 'a list \<Rightarrow> 'a list" where
  "last_n n xs = drop (length xs - n) xs"

lemma length_last_n [simp]: "length (last_n n xs) = min n (length xs)"
  by (simp add: last_n_def)

lemma last_n_append_single:
  "length xs = n \<Longrightarrow> 0 < n \<Longrightarrow> last_n n (xs @ [x]) = tl xs @ [x]"
  by (cases xs) (simp_all add: last_n_def)

lemma last_n_shift:
  "0 < n \<Longrightarrow> n \<le> length xs \<Longrightarrow> last_n n (xs @ [x]) = tl (last_n n xs) @ [x]"
proof -
  assume "0 < n" and n: "n \<le> length xs"
  have "last_n n (xs @ [x]) = drop (Suc (length xs - n)) xs @ [x]"
    using \<open>0 < n\<close> n by (simp add: last_n_def Suc_diff_le)
  also have "\<dots> = tl (last_n n xs) @ [x]"
    by (simp add: last_n_def drop_Suc tl_drop)
  finally show ?thesis .
qed

lemma last_n_last_n_append [simp]:
  "last_n n (last_n n ys @ zs) = last_n n (ys @ zs)"
proof (cases "n \<le> length ys")
  case True
  then show ?thesis by (simp add: last_n_def add.commute)
next
  case False
  then show ?thesis by (simp add: last_n_def)
qed

lemma last_n_append_replicate [simp]:
  "last_n n (xs @ replicate n v) = replicate n v"
  by (simp add: last_n_def)

lemma last_n_length [simp]: "last_n (length xs) xs = xs"
  by (simp add: last_n_def)

text \<open>Unsigned division of a sum that did not wrap.\<close>

lemma word_mult_div_cancel [word_facts]:
  fixes v :: "'a::len word"
  assumes "0 < n" and "n * unat v < 2 ^ LENGTH('a)"
  shows "(of_nat n * v) div of_nat n = v"
proof (cases "v = 0")
  case True
  then show ?thesis by simp
next
  case False
  then have "0 < unat v" by (simp add: unat_gt_0)
  then have "n \<le> n * unat v" by simp
  then have n: "n < 2 ^ LENGTH('a)"
    using assms(2) by linarith
  have "unat (of_nat n * v) = n * unat v"
    using assms n by (simp add: unat_word_ariths unat_of_nat)
  then have "unat ((of_nat n * v) div of_nat n) = unat v"
    using assms n by (simp add: unat_div unat_of_nat)
  then show ?thesis by (simp add: word_unat_eq_iff)
qed

lemma unat_sum_list_le [word_facts]:
  fixes xs :: "'a::len word list"
  shows "unat (sum_list xs) \<le> sum_list (map unat xs)"
proof (induction xs)
  case Nil
  then show ?case by simp
next
  case (Cons x xs)
  have "unat (x + sum_list xs) \<le> unat x + unat (sum_list xs)"
    by (simp add: unat_word_ariths)
  with Cons show ?case by simp
qed

text \<open>A sum of words that does not wrap, and the quotient of a sum of naturals by its
  length, which lies between the least and the greatest term.\<close>

lemma unat_sum_list_no_wrap [word_facts]:
  fixes xs :: "'a::len word list"
  assumes "sum_list (map unat xs) < 2 ^ LENGTH('a)"
  shows "unat (sum_list xs) = sum_list (map unat xs)"
  using assms
proof (induction xs)
  case Nil
  then show ?case by simp
next
  case (Cons x xs)
  then have "unat (sum_list xs) = sum_list (map unat xs)" by simp
  with Cons.prems show ?case by (simp add: unat_add_lem[THEN iffD1])
qed

lemma sum_list_div_between:
  fixes g :: "'b \<Rightarrow> nat"
  assumes "xs \<noteq> []"
  shows "Min (g ` set xs) \<le> sum_list (map g xs) div length xs \<and>
         sum_list (map g xs) div length xs \<le> Max (g ` set xs)"
proof -
  let ?n = "length xs"
  have "sum_list (map g xs) \<le> sum_list (map (\<lambda>_. Max (g ` set xs)) xs)"
    by (intro sum_list_mono) simp
  then have hi: "sum_list (map g xs) \<le> ?n * Max (g ` set xs)"
    by (simp add: sum_list_triv)
  have "sum_list (map (\<lambda>_. Min (g ` set xs)) xs) \<le> sum_list (map g xs)"
    by (intro sum_list_mono) simp
  then have lo: "?n * Min (g ` set xs) \<le> sum_list (map g xs)"
    by (simp add: sum_list_triv)
  have n: "0 < ?n" using assms by simp
  show ?thesis
    using div_le_mono[OF hi, of ?n] div_le_mono[OF lo, of ?n] n by simp
qed

text \<open>Time differences on a wrapping clock: the difference over two consecutive spans is
  their sum while the sum does not wrap.\<close>

lemma unat_sub_chain [word_facts]:
  fixes a b c :: "'a::len word"
  assumes "unat (a - b) + unat (b - c) < 2 ^ LENGTH('a)"
  shows "unat (a - c) = unat (a - b) + unat (b - c)"
proof -
  have "unat ((a - b) + (b - c)) = unat (a - b) + unat (b - c)"
    using assms unat_add_lem by blast
  then show ?thesis by simp
qed

text \<open>A bounded non-negative quantity scaled by a factor in \<open>[0, 1]\<close> stays in bounds.\<close>

lemma mult_unit_factor_bound:
  fixes q f B :: real
  assumes "0 \<le> q" "q \<le> B" "0 \<le> f" "f \<le> 1"
  shows "0 \<le> q * f \<and> q * f \<le> B"
  using assms by (auto intro: order_trans[OF mult_left_le])

end
