(* ===== verification/SampleFilter.thy ===== *)
theory SampleFilter
  imports Prelude "HOL-Library.While_Combinator"
begin

text \<open>
  The moving-average filter of \<open>src/Filter.h\<close> (class template \<open>Filter<T>\<close>), for an
  unsigned sample type \<open>T\<close> of any width (the program instantiates it with
  \<open>uint32_t\<close> in \<open>src/Sensor.cpp\<close>). The object holds \<open>m_nsamps\<close> and the buffer
  \<open>m_buffer\<close> of that many samples. The method \<open>filter\<close> shifts the buffer down by
  one slot in a single pointer loop that also accumulates the running sum in \<open>T\<close>
  (so the sum wraps modulo \<open>2^width\<close>), and returns the unsigned quotient of that sum by
  \<open>m_nsamps\<close>. The loop is modelled step by step (\<open>filter_loop\<close>); the lemmas show
  that it computes the obvious shift and sum, that the buffer always holds the last
  \<open>m_nsamps\<close> samples (zero-padded at start), and when the mean is exact. The
  constructor's clearing loop is modelled as the code runs it, over an uninitialised
  allocation, with \<open>while_option\<close>, and proved to stop and build \<open>Filter_new\<close>.
\<close>

record 't Filter =
  m_nsamps :: nat
  m_buffer :: "'t list"

text \<open>Constructor, lines 15--22: the buffer is allocated and cleared to zero.\<close>

definition Filter_new :: "nat \<Rightarrow> 'a::len word Filter" where
  "Filter_new nsamps = \<lparr>m_nsamps = nsamps, m_buffer = replicate nsamps 0\<rparr>"

text \<open>The constructor as the code runs it: \<open>new T[nsamps]\<close> leaves the buffer
  uninitialised (the list \<open>alloc\<close> of \<open>nsamps\<close> arbitrary values), and the loop of
  lines 17--21, \<open>while (n--) *ptr++ = 0\<close>, kept as a loop with \<open>while_option\<close> over
  the buffer, the index of \<open>ptr\<close> and \<open>n\<close> (\<open>None\<close> would be a loop that never
  stops). \<open>Filter_new\<close> is the object it builds.\<close>

definition Filter_clear_loop :: "'a::len word list \<Rightarrow> nat \<Rightarrow> ('a word list \<times> nat \<times> nat) option" where
  "Filter_clear_loop alloc nsamps =
     while_option (\<lambda>(buf, ptr, n). n \<noteq> 0) (\<lambda>(buf, ptr, n). (buf[ptr := 0], Suc ptr, n - 1)) (alloc, 0, nsamps)"

definition Filter_construct :: "'a::len word list \<Rightarrow> nat \<Rightarrow> 'a word Filter option" where
  "Filter_construct alloc nsamps =
     map_option (\<lambda>(buf, _, _). \<lparr>m_nsamps = nsamps, m_buffer = buf\<rparr>) (Filter_clear_loop alloc nsamps)"

text \<open>
  The loop of \<open>filter\<close>, lines 28--37. \<open>d\<close> is the index of \<open>dptr\<close> (\<open>sptr\<close> is always
  \<open>d + 1\<close>), \<open>n\<close> the counter before \<open>n--\<close>: the body sees \<open>n - 1\<close>, and on the last
  pass (\<open>n - 1 = 0\<close>) it stores the new sample instead of reading \<open>*sptr\<close>.
\<close>

fun filter_loop :: "'a::len word list \<Rightarrow> 'a word \<Rightarrow> nat \<Rightarrow> nat \<Rightarrow> 'a word \<Rightarrow> 'a word list \<times> 'a word" where
  "filter_loop buf samp d 0 acc = (buf, acc)"
| "filter_loop buf samp d (Suc n) acc =
     (let v = (if n = 0 then samp else buf ! Suc d)
      in filter_loop (buf[d := v]) samp (Suc d) n (acc + v))"

text \<open>The method \<open>filter\<close>, lines 25--40: run the loop, then \<open>sum / m_nsamps\<close>.\<close>

definition Filter_filter :: "'a::len word Filter \<Rightarrow> 'a word \<Rightarrow> 'a word Filter \<times> 'a word" where
  "Filter_filter f samp =
     (let (buf, acc) = filter_loop (m_buffer f) samp 0 (m_nsamps f) 0
      in (f\<lparr>m_buffer := buf\<rparr>, acc div of_nat (m_nsamps f)))"

text \<open>Feeding a sequence of samples, one call of \<open>filter\<close> each.\<close>

fun Filter_feed :: "'a::len word Filter \<Rightarrow> 'a word list \<Rightarrow> 'a word Filter" where
  "Filter_feed f [] = f"
| "Filter_feed f (x # xs) = Filter_feed (fst (Filter_filter f x)) xs"

text \<open>Well-formedness: the buffer has exactly \<open>m_nsamps\<close> slots.\<close>

definition Filter_inv :: "'a::len word Filter \<Rightarrow> bool" where
  "Filter_inv f \<longleftrightarrow> length (m_buffer f) = m_nsamps f"

text \<open>Reference definition: the mean of the last \<open>n\<close> samples, computed in \<open>T\<close>.\<close>

definition window_mean :: "nat \<Rightarrow> 'a::len word list \<Rightarrow> 'a word" where
  "window_mean n xs = sum_list (last_n n xs) div of_nat n"

subsection \<open>The constructor's loop clears the allocation\<close>

lemma clear_loop_from:
  "length buf = p + n \<Longrightarrow>
   while_option (\<lambda>(buf, ptr, n). n \<noteq> 0) (\<lambda>(buf, ptr, n). (buf[ptr := 0], Suc ptr, n - 1)) (buf, p, n) =
     Some (take p buf @ replicate n (0 :: 'a::len word), p + n, 0)"
proof (induction n arbitrary: buf p)
  case 0
  then show ?case by (simp add: while_option_unfold[of _ _ "(buf, p, 0)"])
next
  case (Suc n)
  have len: "length (buf[p := 0]) = Suc p + n" using Suc.prems by simp
  have tk: "take (Suc p) (buf[p := 0]) = take p buf @ [0]"
    using Suc.prems by (simp add: take_Suc_conv_app_nth)
  show ?case
    using Suc.IH[OF len] tk
    by (simp add: while_option_unfold[of _ _ "(buf, p, Suc n)"] replicate_app_Cons_same)
qed

subsection \<open>The loop computes a shift and a sum\<close>

lemma filter_loop_shift:
  "length buf = d + n \<Longrightarrow> 0 < n \<Longrightarrow>
   filter_loop buf samp d n acc =
     (take d buf @ drop (Suc d) buf @ [samp], acc + sum_list (drop (Suc d) buf @ [samp]))"
proof (induction buf samp d n acc rule: filter_loop.induct)
  case (1 buf samp d acc)
  then show ?case by simp
next
  case (2 buf samp d n acc)
  show ?case
  proof (cases "n = 0")
    case True
    with "2.prems" show ?thesis
      by (simp add: upd_conv_take_nth_drop)
  next
    case False
    let ?v = "buf ! Suc d"
    have len: "length (buf[d := ?v]) = Suc d + n" using "2.prems" by simp
    have lt: "Suc d < length buf" using "2.prems" False by simp
    have step: "filter_loop buf samp d (Suc n) acc = filter_loop (buf[d := ?v]) samp (Suc d) n (acc + ?v)"
      using False by (subst filter_loop.simps(2)) (simp add: Let_def del: filter_loop.simps)
    also have "\<dots> = (take (Suc d) (buf[d := ?v]) @ drop (Suc (Suc d)) (buf[d := ?v]) @ [samp],
         acc + ?v + sum_list (drop (Suc (Suc d)) (buf[d := ?v]) @ [samp]))"
      using "2.IH" len False by (simp del: filter_loop.simps)
    also have "\<dots> = (take d buf @ drop (Suc d) buf @ [samp], acc + sum_list (drop (Suc d) buf @ [samp]))"
      using lt by (simp add: take_Suc_conv_app_nth Cons_nth_drop_Suc[symmetric] add.assoc)
    finally show ?thesis .
  qed
qed

lemma Filter_filter_eq:
  assumes "Filter_inv f" and "0 < m_nsamps f"
  shows "Filter_filter f samp =
     (f\<lparr>m_buffer := tl (m_buffer f) @ [samp]\<rparr>,
      sum_list (tl (m_buffer f) @ [samp]) div of_nat (m_nsamps f))"
proof -
  have "filter_loop (m_buffer f) samp 0 (m_nsamps f) 0 =
      (tl (m_buffer f) @ [samp], sum_list (tl (m_buffer f) @ [samp]))"
    using assms by (simp add: Filter_inv_def filter_loop_shift drop_Suc)
  then show ?thesis by (simp add: Filter_filter_def)
qed

subsection \<open>Well-formedness\<close>

lemma Filter_new_inv [simp]: "Filter_inv (Filter_new n)"
  by (simp add: Filter_inv_def Filter_new_def)

lemma Filter_filter_nsamps [simp]: "m_nsamps (fst (Filter_filter f x)) = m_nsamps f"
  by (simp add: Filter_filter_def split: prod.split)

lemma Filter_filter_inv:
  assumes "Filter_inv f"
  shows "Filter_inv (fst (Filter_filter f x))"
proof (cases "m_nsamps f = 0")
  case True
  then show ?thesis using assms by (simp add: Filter_filter_def Filter_inv_def)
next
  case False
  then show ?thesis using assms by (simp add: Filter_filter_eq Filter_inv_def)
qed

subsection \<open>The buffer is the window of the last samples\<close>

lemma Filter_feed_buffer:
  assumes "Filter_inv f" and "0 < m_nsamps f"
  shows "m_buffer (Filter_feed f xs) = last_n (m_nsamps f) (m_buffer f @ xs) \<and>
         m_nsamps (Filter_feed f xs) = m_nsamps f \<and> Filter_inv (Filter_feed f xs)"
  using assms
proof (induction xs arbitrary: f)
  case Nil
  then show ?case by (simp add: Filter_inv_def last_n_def)
next
  case (Cons x xs)
  let ?f = "fst (Filter_filter f x)"
  have f': "Filter_inv ?f" "0 < m_nsamps ?f"
    using Cons.prems by (simp_all add: Filter_filter_inv)
  have "m_buffer ?f = last_n (m_nsamps f) (m_buffer f @ [x])"
    using Cons.prems by (simp add: Filter_filter_eq Filter_inv_def last_n_append_single)
  then show ?case
    using Cons.IH[OF f'] by simp
qed

lemma Filter_feed_output:
  assumes "Filter_inv f" and "0 < m_nsamps f"
  shows "snd (Filter_filter (Filter_feed f xs) x) = window_mean (m_nsamps f) (m_buffer f @ xs @ [x])"
proof -
  let ?g = "Filter_feed f xs"
  have g: "m_buffer ?g = last_n (m_nsamps f) (m_buffer f @ xs)"
    "m_nsamps ?g = m_nsamps f" "Filter_inv ?g"
    using Filter_feed_buffer[OF assms] by blast+
  have len: "m_nsamps f \<le> length (m_buffer f @ xs)"
    using assms(1) by (simp add: Filter_inv_def)
  have "snd (Filter_filter ?g x) = sum_list (tl (m_buffer ?g) @ [x]) div of_nat (m_nsamps f)"
    using g assms(2) by (simp add: Filter_filter_eq)
  also have "tl (m_buffer ?g) @ [x] = last_n (m_nsamps f) (m_buffer f @ xs @ [x])"
    using g(1) last_n_shift[OF assms(2) len, of x] by simp
  finally show ?thesis by (simp add: window_mean_def)
qed

lemma Filter_feed_nsamps [simp]: "m_nsamps (Filter_feed f xs) = m_nsamps f"
  by (induction xs arbitrary: f) simp_all

lemma Filter_feed_inv: "Filter_inv f \<Longrightarrow> Filter_inv (Filter_feed f xs)"
  by (induction xs arbitrary: f) (simp_all add: Filter_filter_inv)

lemma Filter_constant_window:
  assumes "Filter_inv f" and "m_nsamps f = n" and "0 < n"
  shows "snd (Filter_filter (Filter_feed f (replicate (n - 1) v)) v) = (of_nat n * v) div of_nat n"
proof -
  have "replicate (n - 1) v @ [v] = replicate n v"
    using assms(3) by (metis Suc_diff_1 replicate_Suc replicate_append_same)
  then show ?thesis
    using Filter_feed_output[of f "replicate (n - 1) v" v] assms
    by (simp add: window_mean_def sum_list_replicate)
qed

subsection \<open>Properties of the filter\<close>

text \<open>C25: Equivalence of the pointer loop of \<open>filter\<close> with the reference definition: on a
  well-formed filter with at least one slot, one call drops the oldest sample, appends the new
  one, and returns the mean (in \<open>T\<close>) of the new window.\<close>

theorem Filter_filter_refines_window:
  assumes "Filter_inv f" and "0 < m_nsamps f"
  shows "Filter_filter f samp =
     (f\<lparr>m_buffer := last_n (m_nsamps f) (m_buffer f @ [samp])\<rparr>,
      window_mean (m_nsamps f) (m_buffer f @ [samp]))"
  using assms
  by (simp add: Filter_filter_eq Filter_inv_def last_n_append_single window_mean_def)

theorem Filter_filter_refines_window_witness:
  "Filter_inv (Filter_new 3 :: u32 Filter) \<and> 0 < m_nsamps (Filter_new 3 :: u32 Filter) \<and>
   Filter_filter (Filter_new 3 :: u32 Filter) 9 =
     ((Filter_new 3)\<lparr>m_buffer := [0, 0, 9]\<rparr>, 3)"
proof -
  have inv: "Filter_inv (Filter_new 3 :: u32 Filter)" by simp
  have pos: "0 < m_nsamps (Filter_new 3 :: u32 Filter)" by (simp add: Filter_new_def)
  show ?thesis
    using Filter_filter_refines_window[OF inv pos, of 9] inv pos
    by (simp add: Filter_new_def last_n_def window_mean_def numeral_3_eq_3)
qed

text \<open>C23: Refinement of the filter by the specification "mean of the last \<open>N\<close> samples, missing
  samples counted as zero": after any sequence of samples \<open>xs\<close> and a new sample \<open>x\<close>, a
  fresh filter with \<open>N \<ge> 1\<close> slots returns the mean (in \<open>T\<close>) of the last \<open>N\<close> entries
  of \<open>N\<close> zeros followed by \<open>xs\<close> and \<open>x\<close>. This is also the lag of the filter on a
  ramp: the output follows the input with a delay of the filter depth.\<close>

theorem Filter_history_mean:
  assumes "0 < n"
  shows "snd (Filter_filter (Filter_feed (Filter_new n :: 'a::len word Filter) xs) x) =
         window_mean n (replicate n 0 @ xs @ [x])"
  using Filter_feed_output[of "Filter_new n" xs x] assms by (simp add: Filter_new_def Filter_inv_def)

theorem Filter_history_mean_witness:
  "0 < (3::nat) \<and> snd (Filter_filter (Filter_feed (Filter_new 3 :: u32 Filter) [3, 6]) 9) = 6"
proof -
  have "snd (Filter_filter (Filter_feed (Filter_new 3 :: u32 Filter) [3, 6]) 9) =
        window_mean 3 (replicate 3 0 @ [3, 6] @ [9])"
    by (rule Filter_history_mean) simp
  then show ?thesis by (simp add: window_mean_def last_n_def numeral_3_eq_3)
qed

text \<open>C26: A filter fed \<open>N\<close> identical values \<open>v\<close> returns \<open>v\<close>, whatever it held before,
  provided the sum \<open>N \<cdot> v\<close> does not wrap in \<open>T\<close>.\<close>

theorem Filter_constant_input:
  fixes v :: "'a::len word"
  assumes "Filter_inv f" and "m_nsamps f = n" and "0 < n" and "n * unat v < 2 ^ LENGTH('a)"
  shows "snd (Filter_filter (Filter_feed f (replicate (n - 1) v)) v) = v"
  using Filter_constant_window[OF assms(1-3)] word_mult_div_cancel[OF assms(3,4)] by simp

theorem Filter_constant_input_witness:
  "snd (Filter_filter (Filter_feed (Filter_new 10 :: u32 Filter) (replicate 9 255)) 255) = 255"
proof -
  have "Filter_inv (Filter_new 10 :: u32 Filter)" "m_nsamps (Filter_new 10 :: u32 Filter) = 10"
    by (simp_all add: Filter_new_def Filter_inv_def)
  from Filter_constant_input[OF this, of 255] show ?thesis by simp
qed

text \<open>The sum of \<open>filter\<close> is kept in \<open>T\<close> and wraps: with the program's
  \<open>Filter<uint32_t>(10)\<close>, ten samples of \<open>2^29\<close> average to 107374182, not to
  \<open>2^29\<close>. (The sensor feeds range values of at most 255 mm, far below this.)\<close>

theorem Filter_mean_wraps:
  "snd (Filter_filter (Filter_feed (Filter_new 10 :: u32 Filter) (replicate 9 (2 ^ 29))) (2 ^ 29)) = 107374182"
proof -
  have "Filter_inv (Filter_new 10 :: u32 Filter)" "m_nsamps (Filter_new 10 :: u32 Filter) = 10"
    by (simp_all add: Filter_new_def Filter_inv_def)
  from Filter_constant_window[OF this, of "2 ^ 29"] show ?thesis by simp
qed

text \<open>C27: The filter never overshoots: as long as the sum of the window does not wrap in
  \<open>T\<close>, the output of \<open>filter\<close> is the exact (rounded-down) mean of the last
  \<open>m_nsamps\<close> samples, hence lies between the least and the greatest of them.\<close>

theorem Filter_output_between:
  fixes f :: "'a::len word Filter"
  assumes "Filter_inv f" and "0 < m_nsamps f" and "m_nsamps f < 2 ^ LENGTH('a)"
    and "sum_list (map unat (tl (m_buffer f) @ [x])) < 2 ^ LENGTH('a)"
  shows "unat (snd (Filter_filter f x)) = sum_list (map unat (tl (m_buffer f) @ [x])) div m_nsamps f \<and>
         Min (unat ` set (tl (m_buffer f) @ [x])) \<le> unat (snd (Filter_filter f x)) \<and>
         unat (snd (Filter_filter f x)) \<le> Max (unat ` set (tl (m_buffer f) @ [x]))"
proof -
  let ?W = "tl (m_buffer f) @ [x]"
  have len: "length ?W = m_nsamps f" using assms(1,2) by (simp add: Filter_inv_def)
  have s: "unat (sum_list ?W) = sum_list (map unat ?W)"
    by (rule unat_sum_list_no_wrap) (rule assms(4))
  have "unat (snd (Filter_filter f x)) = unat (sum_list ?W) div m_nsamps f"
    using assms(1-3) by (simp add: Filter_filter_eq unat_div unat_of_nat del: sum_list_append)
  then have "unat (snd (Filter_filter f x)) = sum_list (map unat ?W) div m_nsamps f"
    by (simp only: s)
  moreover have "?W \<noteq> []" by simp
  ultimately show ?thesis using sum_list_div_between[of ?W unat] len by simp
qed

theorem Filter_output_between_witness:
  "Filter_inv ((Filter_new 3)\<lparr>m_buffer := [0, 3, 6 :: u32]\<rparr>) \<and>
   3 \<le> unat (snd (Filter_filter ((Filter_new 3)\<lparr>m_buffer := [0, 3, 6 :: u32]\<rparr>) 9)) \<and>
   unat (snd (Filter_filter ((Filter_new 3)\<lparr>m_buffer := [0, 3, 6 :: u32]\<rparr>) 9)) \<le> 9"
proof -
  let ?f = "(Filter_new 3)\<lparr>m_buffer := [0, 3, 6 :: u32]\<rparr>"
  have h: "Filter_inv ?f" "0 < m_nsamps ?f" "m_nsamps ?f < 2 ^ LENGTH(32)"
    "sum_list (map unat (tl (m_buffer ?f) @ [9])) < 2 ^ LENGTH(32)"
    by (simp_all add: Filter_inv_def Filter_new_def)
  show ?thesis
    using Filter_output_between[OF h] h(1) by (simp add: Filter_new_def)
qed

text \<open>C28: Termination of the constructor's clearing loop: for every initial content of the
  allocated buffer of \<open>nsamps\<close> slots the loop stops, after \<open>nsamps\<close> passes, and the
  object built is \<open>Filter_new nsamps\<close>: \<open>nsamps\<close> zeros.\<close>

theorem Filter_construct_returns:
  assumes "length alloc = nsamps"
  shows "Filter_construct alloc nsamps = Some (Filter_new nsamps)"
  using clear_loop_from[of alloc 0 nsamps] assms
  by (simp add: Filter_construct_def Filter_clear_loop_def Filter_new_def)

theorem Filter_construct_returns_witness:
  "length [7, 8, 9 :: u32] = 3 \<and> Filter_construct [7, 8, 9 :: u32] 3 = Some (Filter_new 3)"
  using Filter_construct_returns[of "[7, 8, 9 :: u32]" 3] by simp

text \<open>C24: Round trip of the sample buffer: after a well-formed filter of \<open>N\<close> slots has
  been fed at least \<open>N\<close> samples, its buffer holds exactly the last \<open>N\<close> of them, oldest
  first: what was written is what is read back.\<close>

theorem Filter_feed_roundtrip:
  fixes f :: "'a::len word Filter"
  assumes "Filter_inv f" and "0 < m_nsamps f" and "m_nsamps f \<le> length xs"
  shows "m_buffer (Filter_feed f xs) = last_n (m_nsamps f) xs"
  using Filter_feed_buffer[OF assms(1,2), of xs] assms(3) by (simp add: last_n_def)

theorem Filter_feed_roundtrip_witness:
  "m_buffer (Filter_feed (Filter_new 3) [4, 5, 6 :: u32]) = [4, 5, 6]"
proof -
  have "Filter_inv (Filter_new 3 :: u32 Filter)" "0 < m_nsamps (Filter_new 3 :: u32 Filter)"
    "m_nsamps (Filter_new 3 :: u32 Filter) \<le> length [4, 5, 6 :: u32]"
    by (simp_all add: Filter_new_def Filter_inv_def)
  from Filter_feed_roundtrip[OF this] show ?thesis by (simp add: Filter_new_def last_n_def)
qed

end
