(* ===== verification/Hysteresis.thy ===== *)
theory Hysteresis
  imports Prelude
begin

text \<open>
  The two hysteresis primitives: \<open>SchmittTrigger<T>\<close> (\<open>src/SchmittTrigger.h\<close>) and
  \<open>RangeWindow<T>\<close> (\<open>src/RangeWindow.h\<close>), for an unsigned \<open>T\<close> of any width (the
  program uses \<open>RangeWindow<uint8_t>\<close>). The trigger stores its reference and hysteresis
  converted to \<open>long\<close> (\<open>to_long\<close>) and compares \<open>(long) val\<close> against
  \<open>m_ref \<plusminus> m_hy\<close> computed in \<open>long\<close>. The window owns two triggers at
  \<open>center - hwidth\<close> and \<open>center + hwidth\<close>; these are computed in \<open>int\<close> and passed as
  parameters of type \<open>T\<close>, so they are reduced modulo \<open>2^width\<close>, which the model writes
  as word arithmetic. The pointers to the triggers are owned by the window alone, so the
  model stores the triggers by value. Lemmas: the closed form of one evaluation of the
  trigger, its three branches, the absence of \<open>long\<close> overflow, the band in which the
  window can and must report a detection, the effect of the narrowing, and the refinement
  of the abstract hysteresis relay (\<open>relay\<close>, \<open>window_spec\<close>) by any sequence of calls.
\<close>

record SchmittTrigger =
  m_ref :: long
  m_hy :: long
  m_state :: bool

text \<open>Constructor, lines 28--33.\<close>

definition SchmittTrigger_new :: "'a::len word \<Rightarrow> 'a word \<Rightarrow> bool \<Rightarrow> SchmittTrigger" where
  "SchmittTrigger_new reference hysteresis initial =
     \<lparr>m_ref = to_long reference, m_hy = to_long hysteresis, m_state = initial\<rparr>"

text \<open>The method \<open>f\<close>, lines 45--57: returns the new object and the returned state.\<close>

definition SchmittTrigger_f :: "SchmittTrigger \<Rightarrow> 'a::len word \<Rightarrow> SchmittTrigger \<times> bool" where
  "SchmittTrigger_f s val =
     (if to_long val > m_ref s + m_hy s then (s\<lparr>m_state := True\<rparr>, True)
      else if to_long val < m_ref s - m_hy s then (s\<lparr>m_state := False\<rparr>, False)
      else (s, m_state s))"

record RangeWindow =
  m_schmitt_lo :: SchmittTrigger
  m_schmitt_hi :: SchmittTrigger

text \<open>Constructor, lines 18--20: \<open>center \<plusminus> hwidth\<close> narrowed to \<open>T\<close>, initial state low.\<close>

definition RangeWindow_new :: "'a::len word \<Rightarrow> 'a word \<Rightarrow> 'a word \<Rightarrow> RangeWindow" where
  "RangeWindow_new center hwidth hysteresis =
     \<lparr>m_schmitt_lo = SchmittTrigger_new (center - hwidth) hysteresis False,
      m_schmitt_hi = SchmittTrigger_new (center + hwidth) hysteresis False\<rparr>"

text \<open>The method \<open>within\<close>, lines 24--31: both triggers are evaluated, low one first.\<close>

definition RangeWindow_within :: "RangeWindow \<Rightarrow> 'a::len word \<Rightarrow> RangeWindow \<times> bool" where
  "RangeWindow_within w val =
     (let (lo', lo) = SchmittTrigger_f (m_schmitt_lo w) val;
          (hi', hi) = SchmittTrigger_f (m_schmitt_hi w) val
      in (w\<lparr>m_schmitt_lo := lo', m_schmitt_hi := hi'\<rparr>, lo \<and> \<not> hi))"

text \<open>A sequence of evaluations, returning every answer.\<close>

fun RangeWindow_run :: "RangeWindow \<Rightarrow> 'a::len word list \<Rightarrow> bool list" where
  "RangeWindow_run w [] = []"
| "RangeWindow_run w (v # vs) =
     (let (w', d) = RangeWindow_within w v in d # RangeWindow_run w' vs)"

text \<open>A sequence of calls of \<open>f\<close> on one trigger, returning every answer.\<close>

fun SchmittTrigger_run :: "SchmittTrigger \<Rightarrow> 'a::len word list \<Rightarrow> SchmittTrigger \<times> bool list" where
  "SchmittTrigger_run s [] = (s, [])"
| "SchmittTrigger_run s (v # vs) =
     (let (s', b) = SchmittTrigger_f s v; (s'', bs) = SchmittTrigger_run s' vs in (s'', b # bs))"

subsection \<open>The trigger\<close>

text \<open>The output of one evaluation as a formula over the old state.\<close>

definition schmitt_out :: "SchmittTrigger \<Rightarrow> long \<Rightarrow> bool" where
  "schmitt_out s x \<longleftrightarrow> m_ref s + m_hy s < x \<or> (m_state s \<and> m_ref s - m_hy s \<le> x)"

text \<open>The abstract behaviour of a trigger, a hysteresis relay: with the band \<open>[lo, hi]\<close>,
  the output after a sequence of inputs is decided by the last input outside the band
  (true when it lay above), and is the initial state when every input lay inside it. A
  window detects when its low relay is on and its high relay off.\<close>

definition relay :: "long \<Rightarrow> long \<Rightarrow> bool \<Rightarrow> long list \<Rightarrow> bool" where
  "relay lo hi b xs = (case filter (\<lambda>x. x < lo \<or> hi < x) xs of [] \<Rightarrow> b | ys \<Rightarrow> hi < last ys)"

definition window_spec :: "RangeWindow \<Rightarrow> long list \<Rightarrow> bool" where
  "window_spec w xs \<longleftrightarrow>
     relay (m_ref (m_schmitt_lo w) - m_hy (m_schmitt_lo w)) (m_ref (m_schmitt_lo w) + m_hy (m_schmitt_lo w))
       (m_state (m_schmitt_lo w)) xs \<and>
     \<not> relay (m_ref (m_schmitt_hi w) - m_hy (m_schmitt_hi w)) (m_ref (m_schmitt_hi w) + m_hy (m_schmitt_hi w))
       (m_state (m_schmitt_hi w)) xs"

text \<open>Well-formedness of the stored \<open>long\<close> values: reference and hysteresis are values
  of \<open>T\<close> (of \<open>w\<close> bits), as the constructor's casts from \<open>T\<close> make them.\<close>

definition SchmittTrigger_wf :: "nat \<Rightarrow> SchmittTrigger \<Rightarrow> bool" where
  "SchmittTrigger_wf w t \<longleftrightarrow> 0 \<le> m_ref t \<and> m_ref t < 2 ^ w \<and> 0 \<le> m_hy t \<and> m_hy t < 2 ^ w"

definition RangeWindow_wf :: "nat \<Rightarrow> RangeWindow \<Rightarrow> bool" where
  "RangeWindow_wf w win \<longleftrightarrow> SchmittTrigger_wf w (m_schmitt_lo win) \<and> SchmittTrigger_wf w (m_schmitt_hi win)"

lemma SchmittTrigger_f_eq [model_simps]:
  "SchmittTrigger_f s val = (s\<lparr>m_state := schmitt_out s (to_long val)\<rparr>, schmitt_out s (to_long val))"
  by (auto simp: SchmittTrigger_f_def schmitt_out_def)

lemma SchmittTrigger_f_frame [simp]:
  "m_ref (fst (SchmittTrigger_f s val)) = m_ref s"
  "m_hy (fst (SchmittTrigger_f s val)) = m_hy s"
  "m_state (fst (SchmittTrigger_f s val)) = snd (SchmittTrigger_f s val)"
  by (simp_all add: SchmittTrigger_f_eq)

lemma SchmittTrigger_new_fields [simp]:
  "m_ref (SchmittTrigger_new r h b) = to_long r"
  "m_hy (SchmittTrigger_new r h b) = to_long h"
  "m_state (SchmittTrigger_new r h b) = b"
  by (simp_all add: SchmittTrigger_new_def)

subsection \<open>The window\<close>

lemma RangeWindow_within_eq [model_simps]:
  "RangeWindow_within w val =
     (\<lparr>m_schmitt_lo = fst (SchmittTrigger_f (m_schmitt_lo w) val),
       m_schmitt_hi = fst (SchmittTrigger_f (m_schmitt_hi w) val)\<rparr>,
      schmitt_out (m_schmitt_lo w) (to_long val) \<and> \<not> schmitt_out (m_schmitt_hi w) (to_long val))"
  by (simp add: RangeWindow_within_def SchmittTrigger_f_eq)

lemma RangeWindow_within_frame [simp]:
  "m_ref (m_schmitt_lo (fst (RangeWindow_within w v))) = m_ref (m_schmitt_lo w)"
  "m_hy (m_schmitt_lo (fst (RangeWindow_within w v))) = m_hy (m_schmitt_lo w)"
  "m_ref (m_schmitt_hi (fst (RangeWindow_within w v))) = m_ref (m_schmitt_hi w)"
  "m_hy (m_schmitt_hi (fst (RangeWindow_within w v))) = m_hy (m_schmitt_hi w)"
  by (simp_all add: RangeWindow_within_eq)

lemma RangeWindow_run_Cons_split:
  "RangeWindow_run w (v # vs) = snd (RangeWindow_within w v) # RangeWindow_run (fst (RangeWindow_within w v)) vs"
  by (simp add: case_prod_unfold Let_def)

lemma to_long_u8 [simp]: "to_long (x :: u8) = uint x"
  by (simp add: to_long_narrow)

lemma relay_Nil [simp]: "relay lo hi b [] = b"
  by (simp add: relay_def)

lemma relay_Cons:
  "relay lo hi b (x # xs) = relay lo hi (if hi < x then True else if x < lo then False else b) xs"
  by (cases "filter (\<lambda>x. x < lo \<or> hi < x) xs") (auto simp: relay_def)

lemma schmitt_out_if:
  "schmitt_out s x = (if m_ref s + m_hy s < x then True else if x < m_ref s - m_hy s then False else m_state s)"
  by (auto simp: schmitt_out_def)

lemma window_spec_Cons:
  "window_spec w (to_long v # xs) = window_spec (fst (RangeWindow_within w v)) xs"
  by (simp add: window_spec_def relay_Cons schmitt_out_if RangeWindow_within_eq SchmittTrigger_f_eq)

lemma RangeWindow_new_wf:
  fixes c h y :: "'a::len word"
  assumes "LENGTH('a) < 32"
  shows "RangeWindow_wf LENGTH('a) (RangeWindow_new c h y)"
  using assms by (simp add: RangeWindow_wf_def SchmittTrigger_wf_def RangeWindow_new_def to_long_narrow)

lemma RangeWindow_within_wf:
  "RangeWindow_wf w win \<Longrightarrow> RangeWindow_wf w (fst (RangeWindow_within win v))"
  by (simp add: RangeWindow_wf_def SchmittTrigger_wf_def)

text \<open>A window whose high edge lies below its low edge, with the low trigger never set
  unless the high one is, never reports a detection, and stays so.\<close>

lemma crossed_window_never_detects:
  assumes "0 \<le> m_hy (m_schmitt_lo w)"
    and "m_ref (m_schmitt_hi w) + m_hy (m_schmitt_hi w) < m_ref (m_schmitt_lo w) - m_hy (m_schmitt_lo w)"
    and "m_state (m_schmitt_lo w) \<longrightarrow> m_state (m_schmitt_hi w)"
  shows "True \<notin> set (RangeWindow_run w vs)"
  using assms
proof (induction vs arbitrary: w)
  case Nil
  then show ?case by simp
next
  case (Cons v vs)
  let ?w = "fst (RangeWindow_within w v)"
  have out: "\<not> snd (RangeWindow_within w v)"
    using Cons.prems by (auto simp: RangeWindow_within_eq schmitt_out_def)
  have "m_state (m_schmitt_lo ?w) \<longrightarrow> m_state (m_schmitt_hi ?w)"
    using Cons.prems by (auto simp: RangeWindow_within_eq SchmittTrigger_f_eq schmitt_out_def)
  then have "True \<notin> set (RangeWindow_run ?w vs)"
    using Cons.prems by (intro Cons.IH) simp_all
  with out show ?case by (simp only: RangeWindow_run_Cons_split) simp
qed

subsection \<open>Properties of the trigger\<close>

text \<open>C18: The three branches of the Schmitt trigger (for a sample type narrower than
  \<open>long\<close>, so that \<open>(long) val\<close> is the value itself): an input above \<open>R + H\<close> sets
  the state, an input below \<open>R - H\<close> clears it, and an input in \<open>[R - H, R + H]\<close> leaves
  the object and its output unchanged, whatever the previous state.\<close>

theorem SchmittTrigger_f_branches:
  fixes val :: "'a::len word"
  assumes "LENGTH('a) < 32"
  shows "(m_ref s + m_hy s < uint val \<longrightarrow> SchmittTrigger_f s val = (s\<lparr>m_state := True\<rparr>, True)) \<and>
         (uint val < m_ref s - m_hy s \<and> 0 \<le> m_hy s \<longrightarrow>
            SchmittTrigger_f s val = (s\<lparr>m_state := False\<rparr>, False)) \<and>
         (m_ref s - m_hy s \<le> uint val \<and> uint val \<le> m_ref s + m_hy s \<longrightarrow>
            SchmittTrigger_f s val = (s, m_state s))"
  using assms by (auto simp: SchmittTrigger_f_def to_long_narrow)

theorem SchmittTrigger_f_branches_witness:
  "SchmittTrigger_f (SchmittTrigger_new (100::u8) 5 False) (106::u8) =
     (SchmittTrigger_new (100::u8) 5 True, True) \<and>
   SchmittTrigger_f (SchmittTrigger_new (100::u8) 5 True) (94::u8) =
     (SchmittTrigger_new (100::u8) 5 False, False) \<and>
   SchmittTrigger_f (SchmittTrigger_new (100::u8) 5 True) (95::u8) =
     (SchmittTrigger_new (100::u8) 5 True, True)"
proof -
  have l: "LENGTH(8) < 32" by simp
  note b = SchmittTrigger_f_branches[OF l]
  show ?thesis
    using b[of "SchmittTrigger_new (100::u8) 5 False" "106::u8"]
      b[of "SchmittTrigger_new (100::u8) 5 True" "94::u8"]
      b[of "SchmittTrigger_new (100::u8) 5 True" "95::u8"]
    by (simp_all add: SchmittTrigger_new_def)
qed

text \<open>The comparisons of \<open>f\<close> are computed in \<open>long\<close>; for a sample type of fewer than
  31 bits, \<open>m_ref + m_hy\<close> and \<open>m_ref - m_hy\<close> never leave the 32-bit range of
  \<open>long\<close>, so the unbounded-integer model of the comparisons is exact.\<close>

lemma SchmittTrigger_no_long_overflow:
  fixes r h :: "'a::len word"
  assumes "LENGTH('a) < 31"
  shows "long_range (m_ref (SchmittTrigger_new r h b) + m_hy (SchmittTrigger_new r h b)) \<and>
         long_range (m_ref (SchmittTrigger_new r h b) - m_hy (SchmittTrigger_new r h b))"
proof -
  have p: "(2::int) ^ LENGTH('a) \<le> 2 ^ 30"
    using assms by (intro power_increasing) simp_all
  have "uint r < 2 ^ LENGTH('a)" "uint h < 2 ^ LENGTH('a)" by simp_all
  then have "uint r < 2 ^ 30" "uint h < 2 ^ 30" using p by linarith+
  then have "long_range (uint r + uint h) \<and> long_range (uint r - uint h)"
    by (intro long_range_add_sub) simp_all
  then show ?thesis
    using assms by (simp add: to_long_narrow)
qed

subsection \<open>Properties of the window\<close>

text \<open>C19: Safety of the window: whatever its history, a window whose low trigger has a
  non-negative hysteresis reports a detection only for inputs in the band
  \<open>[R_lo - H, R_hi + H]\<close>.\<close>

theorem RangeWindow_detect_in_band:
  assumes "0 \<le> m_hy (m_schmitt_lo w)" and "snd (RangeWindow_within w val)"
  shows "m_ref (m_schmitt_lo w) - m_hy (m_schmitt_lo w) \<le> to_long val \<and>
         to_long val \<le> m_ref (m_schmitt_hi w) + m_hy (m_schmitt_hi w)"
  using assms by (auto simp: RangeWindow_within_eq schmitt_out_def)

theorem RangeWindow_detect_in_band_witness:
  "snd (RangeWindow_within (RangeWindow_new (100::u8) 50 5) (100::u8)) \<and>
   45 \<le> to_long (100::u8) \<and> to_long (100::u8) \<le> (155::int)"
proof -
  let ?w = "RangeWindow_new (100::u8) 50 5"
  have h: "0 \<le> m_hy (m_schmitt_lo ?w)" by (simp add: RangeWindow_new_def)
  have d: "snd (RangeWindow_within ?w (100::u8))"
    by (simp add: RangeWindow_within_eq RangeWindow_new_def schmitt_out_def)
  show ?thesis
    using RangeWindow_detect_in_band[OF h d] d by (simp add: RangeWindow_new_def)
qed

text \<open>C20: Liveness of the window: an input strictly inside \<open>(R_lo + H, R_hi - H)\<close> is
  reported as a detection, whatever the history of the two triggers.\<close>

theorem RangeWindow_inner_detects:
  assumes "0 \<le> m_hy (m_schmitt_hi w)"
    and "m_ref (m_schmitt_lo w) + m_hy (m_schmitt_lo w) < to_long val"
    and "to_long val < m_ref (m_schmitt_hi w) - m_hy (m_schmitt_hi w)"
  shows "snd (RangeWindow_within w val)"
  using assms by (auto simp: RangeWindow_within_eq schmitt_out_def)

theorem RangeWindow_inner_detects_witness:
  "snd (RangeWindow_within
          \<lparr>m_schmitt_lo = SchmittTrigger_new (50::u8) 5 False,
           m_schmitt_hi = SchmittTrigger_new (150::u8) 5 True\<rparr> (100::u8))"
  by (rule RangeWindow_inner_detects) simp_all

text \<open>C34: The edges \<open>center \<plusminus> hwidth\<close> are narrowed to \<open>T\<close>: a
  \<open>RangeWindow<uint8_t>\<close> built with center 10 and half-width 20 gets its low edge at
  246, not at -10, and then reports no detection for any sequence of inputs, although
  inputs such as 15 lie inside \<open>(center - hwidth, center + hwidth)\<close>.\<close>

theorem RangeWindow_edge_wraps:
  "m_ref (m_schmitt_lo (RangeWindow_new (10::u8) 20 2)) = 246 \<and>
   (\<forall>vs :: u8 list. True \<notin> set (RangeWindow_run (RangeWindow_new (10::u8) 20 2) vs))"
proof -
  have "True \<notin> set (RangeWindow_run (RangeWindow_new (10::u8) 20 2) vs)" for vs :: "u8 list"
    by (rule crossed_window_never_detects) (simp_all add: RangeWindow_new_def)
  then show ?thesis by (simp add: RangeWindow_new_def)
qed

text \<open>C21: Refinement of the hysteresis relay by \<open>SchmittTrigger::f\<close>: after any sequence
  of calls the state of the trigger, and each answer it returned, is the relay's output on
  the inputs so far: the last input outside \<open>[R - H, R + H]\<close> decides, and the initial
  state stands while there is none.\<close>

theorem SchmittTrigger_run_relay:
  "m_state (fst (SchmittTrigger_run s vs)) =
     relay (m_ref s - m_hy s) (m_ref s + m_hy s) (m_state s) (map to_long vs) \<and>
   snd (SchmittTrigger_run s vs) =
     map (\<lambda>i. relay (m_ref s - m_hy s) (m_ref s + m_hy s) (m_state s) (map to_long (take (Suc i) vs)))
       [0..<length vs]"
proof (induction vs arbitrary: s)
  case Nil
  then show ?case by simp
next
  case (Cons v vs)
  let ?s' = "s\<lparr>m_state := schmitt_out s (to_long v)\<rparr>"
  have r: "SchmittTrigger_run s (v # vs) =
      (fst (SchmittTrigger_run ?s' vs), schmitt_out s (to_long v) # snd (SchmittTrigger_run ?s' vs))"
    by (auto simp: SchmittTrigger_f_def schmitt_out_def case_prod_unfold Let_def)
  have o: "schmitt_out s (to_long v) =
      relay (m_ref s - m_hy s) (m_ref s + m_hy s) (m_state s) [to_long v]"
    by (simp add: relay_Cons schmitt_out_if)
  show ?case
    using Cons[of ?s'] unfolding r o
    by (simp add: relay_Cons schmitt_out_if map_upt_Suc del: upt_Suc)
qed

text \<open>C22: Refinement of the two-relay window by \<open>RangeWindow::within\<close>: the answers of
  any sequence of calls are, call by call, the abstract window on the inputs so far: the
  low relay on and the high relay off.\<close>

theorem RangeWindow_run_relay:
  "RangeWindow_run w vs = map (\<lambda>i. window_spec w (map to_long (take (Suc i) vs))) [0..<length vs]"
proof (induction vs arbitrary: w)
  case Nil
  then show ?case by simp
next
  case (Cons v vs)
  have h: "snd (RangeWindow_within w v) = window_spec w [to_long v]"
    by (simp add: window_spec_def relay_Cons schmitt_out_if RangeWindow_within_eq)
  show ?case
    using Cons[of "fst (RangeWindow_within w v)"]
    by (simp only: RangeWindow_run_Cons_split h) (simp add: window_spec_Cons map_upt_Suc del: upt_Suc)
qed

end
