(* ===== verification/RangeSensor.thy ===== *)
theory RangeSensor
  imports SampleFilter
begin

text \<open>
  One range sensor channel: class \<open>Sensor\<close> of \<open>src/Sensor.h\<close> and
  \<open>src/Sensor.cpp\<close>, with the interrupt routines \<open>isr_A\<close>/\<open>isr_B\<close> of
  \<open>src/Speedometer.cpp\<close> that set its ready flag. The object points to a global
  \<open>volatile bool\<close> (\<open>readyA\<close> or \<open>readyB\<close>) that only its own interrupt routine
  and itself write, so the model keeps the flag's value as the field \<open>m_ready\<close>. The
  VL6180X driver is external: the return code of \<open>RangeStartSingleShot\<close>, the result
  of \<open>RangeGetMeasurementIfReady\<close> (\<open>meas\<close>: a range, already converted from the
  driver's \<open>int32_t\<close> to \<open>uint32_t\<close> as the call \<open>filter(data.range_mm)\<close> does, or a
  non-zero return code) and the return codes of the configuration calls of \<open>begin\<close>
  are inputs of the operations. The hardware constants (I2C address, pins) are not
  modelled: they only parametrise driver calls.
\<close>

text \<open>\<open>NO_READING\<close>, \<open>src/Sensor.h\<close> line 11.\<close>

definition NO_READING :: u32 where
  "NO_READING = 0xFFFFFFFF"

datatype meas = Meas u32 | NoMeas

record Sensor =
  m_filter :: "u32 Filter"
  m_ready :: bool
  m_dist :: u32

text \<open>Constructor, \<open>Sensor.cpp\<close> lines 6--20: a 10-sample filter, no distance yet; the
  flag it points to starts false (\<open>Speedometer.cpp\<close> lines 35--36).\<close>

definition Sensor_new :: Sensor where
  "Sensor_new = \<lparr>m_filter = Filter_new 10, m_ready = False, m_dist = NO_READING\<rparr>"

text \<open>\<open>trigger\<close>, lines 92--99; \<open>rc\<close> is the driver's \<open>RangeStartSingleShot()\<close>.\<close>

definition Sensor_trigger :: "Sensor \<Rightarrow> int \<Rightarrow> Sensor \<times> int" where
  "Sensor_trigger s rc =
     (if \<not> m_ready s then (s, -1)
      else (s\<lparr>m_ready := False, m_dist := NO_READING\<rparr>, rc))"

text \<open>\<open>is_ready\<close>, lines 102--104.\<close>

definition Sensor_is_ready :: "Sensor \<Rightarrow> bool" where
  "Sensor_is_ready s = m_ready s"

text \<open>\<open>get_distance\<close>, lines 110--119.\<close>

definition Sensor_get_distance :: "Sensor \<Rightarrow> meas \<Rightarrow> Sensor \<times> u32" where
  "Sensor_get_distance s r =
     (case r of
        Meas mm \<Rightarrow>
          (let (f', d) = Filter_filter (m_filter s) mm in (s\<lparr>m_filter := f', m_dist := d\<rparr>, d))
      | NoMeas \<Rightarrow> (s, NO_READING))"

text \<open>The interrupt routines \<open>isr_A\<close>, \<open>isr_B\<close> (\<open>Speedometer.cpp\<close> lines 39--44).\<close>

definition Sensor_isr :: "Sensor \<Rightarrow> Sensor" where
  "Sensor_isr s = s\<lparr>m_ready := True\<rparr>"

text \<open>\<open>begin\<close>, lines 33--89: the driver's \<open>begin\<close> and \<open>VL6180x_On\<close>, whose
  results are ignored, then eight configuration calls in order, each with the return code
  it must give (\<open>Present\<close> must return 1, the others 0); the first call that does not
  makes \<open>begin\<close> return false without making the later ones.\<close>

datatype init_call = DevBegin | VL6180x_On | InitSensor | Present | Prepare | SetupGPIO1 | RangeConfigInterrupt
  | RangeSetMaxConvergenceTime | FilterSetState | DMaxSetState

definition init_sequence :: "init_call list" where
  "init_sequence = [InitSensor, Present, Prepare, SetupGPIO1, RangeConfigInterrupt,
     RangeSetMaxConvergenceTime, FilterSetState, DMaxSetState]"

fun expected_rc :: "init_call \<Rightarrow> int" where
  "expected_rc Present = 1"
| "expected_rc _ = 0"

fun run_init :: "(init_call \<Rightarrow> int) \<Rightarrow> init_call list \<Rightarrow> bool \<times> init_call list" where
  "run_init rc [] = (True, [])"
| "run_init rc (c # cs) =
     (if rc c \<noteq> expected_rc c then (False, [c])
      else (let (ok, made) = run_init rc cs in (ok, c # made)))"

definition Sensor_begin :: "(init_call \<Rightarrow> int) \<Rightarrow> bool \<times> init_call list" where
  "Sensor_begin rc = (let (ok, made) = run_init rc init_sequence in (ok, [DevBegin, VL6180x_On] @ made))"

text \<open>The operations of one channel, for runs of the object on its own.\<close>

datatype sensor_op = OpTrigger int | OpGetDistance meas | OpIsr

fun Sensor_op :: "Sensor \<Rightarrow> sensor_op \<Rightarrow> Sensor \<times> int option" where
  "Sensor_op s (OpTrigger rc) = (let (s', r) = Sensor_trigger s rc in (s', Some r))"
| "Sensor_op s (OpGetDistance r) = (fst (Sensor_get_distance s r), None)"
| "Sensor_op s OpIsr = (Sensor_isr s, None)"

text \<open>A run returns the return values of the triggers it made.\<close>

fun Sensor_run :: "Sensor \<Rightarrow> sensor_op list \<Rightarrow> Sensor \<times> int list" where
  "Sensor_run s [] = (s, [])"
| "Sensor_run s (op # ops) =
     (let (s', r) = Sensor_op s op; (s'', rs) = Sensor_run s' ops
      in (s'', (case r of Some x \<Rightarrow> x # rs | None \<Rightarrow> rs)))"

text \<open>The successful readings of a run, in order: what reaches the filter.\<close>

fun readings :: "sensor_op list \<Rightarrow> u32 list" where
  "readings [] = []"
| "readings (OpGetDistance (Meas mm) # ops) = mm # readings ops"
| "readings (_ # ops) = readings ops"

text \<open>Well-formedness of a channel: its filter has the 10 slots the constructor gives it.\<close>

definition Sensor_wf :: "Sensor \<Rightarrow> bool" where
  "Sensor_wf a \<longleftrightarrow> Filter_inv (m_filter a) \<and> m_nsamps (m_filter a) = 10"

subsection \<open>Lemmas\<close>

lemma Sensor_get_distance_Meas [model_simps]:
  "Sensor_get_distance s (Meas mm) =
     (s\<lparr>m_filter := fst (Filter_filter (m_filter s) mm), m_dist := snd (Filter_filter (m_filter s) mm)\<rparr>,
      snd (Filter_filter (m_filter s) mm))"
  by (simp add: Sensor_get_distance_def case_prod_unfold Let_def)

lemma Sensor_get_distance_NoMeas [model_simps]: "Sensor_get_distance s NoMeas = (s, NO_READING)"
  by (simp add: Sensor_get_distance_def)

lemma Sensor_get_distance_ready [simp]: "m_ready (fst (Sensor_get_distance s r)) = m_ready s"
  by (cases r) (simp_all add: model_simps)

lemma Sensor_trigger_filter [simp]: "m_filter (fst (Sensor_trigger s rc)) = m_filter s"
  by (simp add: Sensor_trigger_def)

lemma Sensor_run_Cons [simp]:
  "Sensor_run s (op # ops) =
     (fst (Sensor_run (fst (Sensor_op s op)) ops),
      (case snd (Sensor_op s op) of Some x \<Rightarrow> x # snd (Sensor_run (fst (Sensor_op s op)) ops)
       | None \<Rightarrow> snd (Sensor_run (fst (Sensor_op s op)) ops)))"
  by (simp add: case_prod_unfold Let_def)

declare Sensor_run.simps(2) [simp del]

lemma Sensor_op_trigger [simp]:
  "Sensor_op s (OpTrigger rc) = (fst (Sensor_trigger s rc), Some (snd (Sensor_trigger s rc)))"
  by (simp add: case_prod_unfold Let_def)

declare Sensor_op.simps(1) [simp del]

lemma Sensor_run_filter:
  "m_filter (fst (Sensor_run s ops)) = Filter_feed (m_filter s) (readings ops)"
proof (induction ops arbitrary: s)
  case Nil
  then show ?case by simp
next
  case (Cons op ops)
  show ?case
  proof (cases op)
    case (OpGetDistance r)
    then show ?thesis
      using Cons.IH by (cases r) (simp_all add: Sensor_run_Cons model_simps)
  qed (simp_all add: Sensor_run_Cons Cons.IH case_prod_unfold Sensor_isr_def)
qed

lemma Sensor_run_no_isr:
  "\<not> m_ready s \<Longrightarrow> OpIsr \<notin> set ops \<Longrightarrow> set (snd (Sensor_run s ops)) \<subseteq> {-1}"
proof (induction ops arbitrary: s)
  case Nil
  then show ?case by simp
next
  case (Cons op ops)
  then show ?case
    by (cases op) (auto simp: Sensor_run_Cons Sensor_trigger_def case_prod_unfold)
qed

lemma run_init_result:
  "run_init rc cs =
     (list_all (\<lambda>c. rc c = expected_rc c) cs,
      takeWhile (\<lambda>c. rc c = expected_rc c) cs @ take 1 (dropWhile (\<lambda>c. rc c = expected_rc c) cs))"
  by (induction cs) auto

lemma Sensor_new_wf: "Sensor_wf Sensor_new"
  by (simp add: Sensor_wf_def Sensor_new_def Filter_new_def Filter_inv_def)

lemma Sensor_ops_wf:
  assumes "Sensor_wf a"
  shows "Sensor_wf (fst (Sensor_trigger a rc))" "Sensor_wf (fst (Sensor_get_distance a r))"
    "Sensor_wf (Sensor_isr a)"
  using assms
  by (cases r; simp add: Sensor_wf_def Sensor_isr_def model_simps Filter_filter_inv)+

subsection \<open>Properties of a sensor channel\<close>

text \<open>C29: The ready-flag handshake: after \<open>trigger\<close> the flag is down whatever happened,
  so \<open>is_ready\<close> next reports only a completion signalled by a later interrupt. With
  the flag up, \<open>trigger\<close> starts a measurement (returning the driver's code) and
  discards the stale distance; with the flag down it returns -1 and changes nothing.\<close>

theorem Sensor_trigger_handshake:
  "\<not> Sensor_is_ready (fst (Sensor_trigger s rc)) \<and>
   (Sensor_is_ready s \<longrightarrow> snd (Sensor_trigger s rc) = rc \<and> m_dist (fst (Sensor_trigger s rc)) = NO_READING) \<and>
   (\<not> Sensor_is_ready s \<longrightarrow> Sensor_trigger s rc = (s, -1))"
  by (simp add: Sensor_trigger_def Sensor_is_ready_def)

theorem Sensor_trigger_handshake_witness:
  "\<not> Sensor_is_ready (fst (Sensor_trigger (Sensor_isr Sensor_new) 0)) \<and>
   snd (Sensor_trigger (Sensor_isr Sensor_new) 0) = 0 \<and>
   Sensor_trigger Sensor_new 0 = (Sensor_new, -1)"
  using Sensor_trigger_handshake[of "Sensor_isr Sensor_new" 0] Sensor_trigger_handshake[of Sensor_new 0]
  by (simp add: Sensor_is_ready_def Sensor_isr_def Sensor_new_def)

text \<open>C32: The ready flag starts false and only the interrupt routine sets it, so a
  fresh sensor refuses every \<open>trigger\<close> (returns -1, starts nothing) until an interrupt
  has occurred, whatever triggers and reads are made before.\<close>

theorem Sensor_no_start_before_interrupt:
  assumes "OpIsr \<notin> set ops"
  shows "set (snd (Sensor_run Sensor_new ops)) \<subseteq> {-1}"
  using Sensor_run_no_isr[OF _ assms] by (simp add: Sensor_new_def)

theorem Sensor_no_start_before_interrupt_witness:
  "OpIsr \<notin> set [OpTrigger 0, OpGetDistance NoMeas, OpTrigger 0] \<and>
   snd (Sensor_run Sensor_new [OpTrigger 0, OpGetDistance NoMeas, OpTrigger 0]) = [-1, -1]"
proof -
  have "set (snd (Sensor_run Sensor_new [OpTrigger 0, OpGetDistance NoMeas, OpTrigger 0])) \<subseteq> {-1}"
    by (rule Sensor_no_start_before_interrupt) simp
  moreover have "length (snd (Sensor_run Sensor_new [OpTrigger 0, OpGetDistance NoMeas, OpTrigger 0])) = 2"
    by (simp add: Sensor_run_Cons case_prod_unfold)
  ultimately show ?thesis
    by (cases "snd (Sensor_run Sensor_new [OpTrigger 0, OpGetDistance NoMeas, OpTrigger 0])"
        rule: list.exhaust[case_product list.exhaust]) (auto simp: length_Suc_conv)
qed

text \<open>C31: What \<open>get_distance\<close> returns: after any run of a fresh sensor, a successful
  reading \<open>x\<close> returns the mean of the last 10 successful readings of the run followed by
  \<open>x\<close> (zero-padded); triggers, interrupts and failed reads never reach the filter, and a
  failed read returns \<open>NO_READING\<close> and leaves the sensor unchanged.\<close>

theorem Sensor_get_distance_filtered:
  "snd (Sensor_get_distance (fst (Sensor_run Sensor_new ops)) (Meas x)) =
     window_mean 10 (replicate 10 0 @ readings ops @ [x]) \<and>
   Sensor_get_distance s NoMeas = (s, NO_READING)"
proof -
  have "m_filter (fst (Sensor_run Sensor_new ops)) = Filter_feed (Filter_new 10) (readings ops)"
    by (simp add: Sensor_run_filter Sensor_new_def)
  then show ?thesis
    using Filter_feed_output[of "Filter_new 10 :: u32 Filter" "readings ops" x]
    by (simp add: model_simps Filter_new_def Filter_inv_def)
qed

text \<open>C36: \<open>begin\<close> powers the device on unconditionally (\<open>begin\<close>, \<open>VL6180x_On\<close>),
  then makes the configuration calls in the order of lines 38--85, each of which must
  return 0 except \<open>Present\<close>, which must return 1; it succeeds exactly when all eight
  return their code, and stops after the first that does not (the later calls are not made).
  The calls and codes are written out here, as the code has them.\<close>

theorem Sensor_begin_result:
  "Sensor_begin rc =
     (rc InitSensor = 0 \<and> rc Present = 1 \<and> rc Prepare = 0 \<and> rc SetupGPIO1 = 0 \<and>
      rc RangeConfigInterrupt = 0 \<and> rc RangeSetMaxConvergenceTime = 0 \<and> rc FilterSetState = 0 \<and>
      rc DMaxSetState = 0,
      [DevBegin, VL6180x_On] @
      (let cs = [(InitSensor, 0), (Present, 1), (Prepare, 0), (SetupGPIO1, 0), (RangeConfigInterrupt, 0),
                 (RangeSetMaxConvergenceTime, 0), (FilterSetState, 0), (DMaxSetState, 0)]
       in map fst (takeWhile (\<lambda>(c, v). rc c = v) cs @ take 1 (dropWhile (\<lambda>(c, v). rc c = v) cs))))"
  by (simp add: Sensor_begin_def init_sequence_def case_prod_unfold)

theorem Sensor_begin_result_witness:
  "Sensor_begin (\<lambda>c. if c = Present then 1 else if c = Prepare then 5 else 0) =
     (False, [DevBegin, VL6180x_On, InitSensor, Present, Prepare])"
  using Sensor_begin_result[of "\<lambda>c. if c = Present then 1 else if c = Prepare then 5 else 0"]
  by simp

end
