(* ===== verification/TransitTimer.thy ===== *)
theory TransitTimer
  imports Hysteresis RangeSensor
begin

text \<open>
  The transit timer: class \<open>Speedometer\<close> of \<open>src/Speedometer.h\<close> and
  \<open>src/Speedometer.cpp\<close>. It derives from \<open>StateMachine\<close> (an external library, not
  under \<open>src/\<close>): the base class is modelled from the spec as the record
  \<open>StateMachine\<close>, a period and the time of the last tick, and \<open>Speedometer\<close> extends
  it, as the C++ object extends its base. The two sensors are the globals \<open>sensA\<close>,
  \<open>sensB\<close>; every operation that uses them takes and returns them. \<open>millis()\<close> is read
  twice per call of \<open>update\<close>: by the tick gate (the input \<open>t_now\<close>) and, after the
  sensing phase, by the branch of the state machine (the input \<open>t_clock\<close>); the driver
  results of one call are the other fields of \<open>tick_in\<close>. \<open>double\<close> is modelled by \<open>dbl\<close>: a real number
  (rounding is not modelled) or the \<open>+inf\<close> that \<open>m_spacing / 0.0\<close> gives. A null
  \<open>m_window\<close> dereferenced is the error \<open>NullWindow\<close>. The field \<open>m_state\<close> is
  named \<open>m_fsm_state\<close> (the trigger record already has a field \<open>m_state\<close>).
\<close>

subsection \<open>The base class \<open>StateMachine\<close> (from the spec)\<close>

record StateMachine =
  sm_period :: u32
  sm_last :: u32

text \<open>\<open>StateMachine::update()\<close>: true iff the period has elapsed since the last tick,
  which then becomes the current time; otherwise nothing changes.\<close>

definition StateMachine_update :: "'a StateMachine_scheme \<Rightarrow> u32 \<Rightarrow> 'a StateMachine_scheme \<times> bool" where
  "StateMachine_update s now =
     (if sm_period s \<le> now - sm_last s then (s\<lparr>sm_last := now\<rparr>, True) else (s, False))"

subsection \<open>Data of \<open>Speedometer\<close>\<close>

datatype E_Scale = eUK | eJP | eUS

text \<open>The enumerators' values, \<open>Speedometer.h\<close> lines 17--19.\<close>

fun scale_value :: "E_Scale \<Rightarrow> nat" where
  "scale_value eUK = 148"
| "scale_value eJP = 150"
| "scale_value eUS = 160"

datatype E_State = eClear | eSenseA | eSenseB | eUpdated | eActive | eClearing

datatype dbl = Num real | PosInf

datatype error = NullWindow

record Speedometer = StateMachine +
  m_spacing :: int
  m_sense_when :: u32
  m_speed :: dbl
  m_scale :: E_Scale
  m_window :: "RangeWindow option"
  m_metric :: bool
  m_fsm_state :: E_State
  m_detA :: bool
  m_detB :: bool
  m_triggered :: bool
  m_updated :: bool

text \<open>The inputs of one call of \<open>update\<close>: the \<open>millis()\<close> of the tick gate in
  \<open>StateMachine::update()\<close> (\<open>t_now\<close>), the \<open>millis()\<close> that the branch of the state
  machine reads after the sensing phase and its I2C transfers (\<open>t_clock\<close>, lines 137,
  151, 169, 211, 279 and 299; every branch reads it at most once, the reads under
  \<open>TRACE\<close> being compiled out), the return codes of the two
  \<open>RangeStartSingleShot\<close> calls, the two results of \<open>RangeGetMeasurementIfReady\<close>.\<close>

record tick_in =
  t_now :: u32
  t_clock :: u32
  t_startA :: int
  t_startB :: int
  t_measA :: meas
  t_measB :: meas

text \<open>Constants, \<open>Speedometer.cpp\<close> lines 28--32.\<close>

definition MI_PER_KM :: real where "MI_PER_KM = 0.62137119224"
definition TIMEOUT_2ND :: u32 where "TIMEOUT_2ND = 45455"
definition TIMEOUT_CLEAR :: u32 where "TIMEOUT_CLEAR = 1500"

text \<open>Constructor, lines 47--60 (a 5 ms period; the time of the last tick, which the
  spec leaves open, is 0).\<close>

definition Speedometer_new :: "E_Scale \<Rightarrow> Speedometer" where
  "Speedometer_new s =
     \<lparr>sm_period = 5, sm_last = 0,
      m_spacing = 127, m_sense_when = 0, m_speed = Num 0, m_scale = s, m_window = None,
      m_metric = (s = eJP), m_fsm_state = eClear, m_detA = False, m_detB = False,
      m_triggered = False, m_updated = False\<rparr>"

subsection \<open>Operations\<close>

text \<open>\<open>calcScaleSpeed\<close>, lines 365--370 (\<open>m_spacing\<close> is the constant 127, so a zero
  interval gives \<open>+inf\<close>).\<close>

definition Speedometer_calcScaleSpeed :: "('a) Speedometer_scheme \<Rightarrow> u32 \<Rightarrow> dbl" where
  "Speedometer_calcScaleSpeed s dt =
     (if dt = 0 then PosInf
      else Num (real_of_int (m_spacing s) / real (unat dt) * real (scale_value (m_scale s)) * 3.6
                * (if m_metric s then 1 else MI_PER_KM)))"

text \<open>The sensing phase of \<open>update\<close>, lines 80--112.\<close>

definition Speedometer_sense ::
  "Speedometer \<Rightarrow> Sensor \<Rightarrow> Sensor \<Rightarrow> tick_in \<Rightarrow> error + Speedometer \<times> Sensor \<times> Sensor" where
  "Speedometer_sense s a b t =
     (if \<not> m_triggered s then
        Inr (s\<lparr>m_triggered := True\<rparr>,
             fst (Sensor_trigger a (t_startA t)), fst (Sensor_trigger b (t_startB t)))
      else if Sensor_is_ready a \<and> Sensor_is_ready b then
        (let (a', distA) = Sensor_get_distance a (t_measA t);
             (b', distB) = Sensor_get_distance b (t_measB t)
         in case m_window s of
              None \<Rightarrow> Inl NullWindow
            | Some w \<Rightarrow>
                (let (w1, dA) = RangeWindow_within w (ucast distA :: u8);
                     (w2, dB) = RangeWindow_within w1 (ucast distB :: u8)
                 in Inr (s\<lparr>m_triggered := False, m_window := Some w2, m_detA := dA, m_detB := dB\<rparr>,
                         a', b')))
      else Inr (s, a, b))"

text \<open>The state machine of \<open>update\<close>, lines 114--316: one branch per state, each a
  definition below; \<open>now\<close> is \<open>millis()\<close>. The branch for Clear, lines 118--163.\<close>

definition Speedometer_onClear :: "Speedometer \<Rightarrow> u32 \<Rightarrow> Speedometer" where
  "Speedometer_onClear s now =
     (if m_detA s \<and> m_detB s then s\<lparr>m_fsm_state := eClearing\<rparr>
      else if m_detA s \<and> \<not> m_detB s then s\<lparr>m_sense_when := now, m_fsm_state := eSenseA\<rparr>
      else if \<not> m_detA s \<and> m_detB s then s\<lparr>m_sense_when := now, m_fsm_state := eSenseB\<rparr>
      else s)"

text \<open>SenseA, lines 164--205.\<close>

definition Speedometer_onSenseA :: "Speedometer \<Rightarrow> u32 \<Rightarrow> Speedometer" where
  "Speedometer_onSenseA s now =
     (let elapsed = now - m_sense_when s in
      if m_detB s then
        s\<lparr>m_speed := Speedometer_calcScaleSpeed s elapsed, m_updated := True,
          m_sense_when := now, m_fsm_state := eUpdated\<rparr>
      else if elapsed > TIMEOUT_2ND then s\<lparr>m_speed := Num 0, m_fsm_state := eActive\<rparr>
      else s)"

text \<open>SenseB, lines 206--247.\<close>

definition Speedometer_onSenseB :: "Speedometer \<Rightarrow> u32 \<Rightarrow> Speedometer" where
  "Speedometer_onSenseB s now =
     (let elapsed = now - m_sense_when s in
      if m_detA s then
        s\<lparr>m_speed := Speedometer_calcScaleSpeed s elapsed, m_updated := True,
          m_sense_when := now, m_fsm_state := eUpdated\<rparr>
      else if elapsed > TIMEOUT_2ND then s\<lparr>m_speed := Num 0, m_fsm_state := eActive\<rparr>
      else s)"

text \<open>Updated, lines 248--272.\<close>

definition Speedometer_onUpdated :: "Speedometer \<Rightarrow> Speedometer" where
  "Speedometer_onUpdated s = (if \<not> m_updated s then s\<lparr>m_fsm_state := eActive\<rparr> else s)"

text \<open>Active, lines 273--294.\<close>

definition Speedometer_onActive :: "Speedometer \<Rightarrow> u32 \<Rightarrow> Speedometer" where
  "Speedometer_onActive s now =
     (if \<not> m_detA s \<and> \<not> m_detB s then s\<lparr>m_sense_when := now, m_fsm_state := eClearing\<rparr> else s)"

text \<open>Clearing, lines 295--316.\<close>

definition Speedometer_onClearing :: "Speedometer \<Rightarrow> u32 \<Rightarrow> Speedometer" where
  "Speedometer_onClearing s now =
     (if m_detA s \<or> m_detB s then s\<lparr>m_fsm_state := eActive\<rparr>
      else if now - m_sense_when s > TIMEOUT_CLEAR then s\<lparr>m_fsm_state := eClear\<rparr>
      else s)"

text \<open>The dispatch on \<open>m_state\<close>, lines 118--316.\<close>

definition Speedometer_fsm :: "Speedometer \<Rightarrow> u32 \<Rightarrow> Speedometer" where
  "Speedometer_fsm s now =
     (case m_fsm_state s of
        eClear \<Rightarrow> Speedometer_onClear s now
      | eSenseA \<Rightarrow> Speedometer_onSenseA s now
      | eSenseB \<Rightarrow> Speedometer_onSenseB s now
      | eUpdated \<Rightarrow> Speedometer_onUpdated s
      | eActive \<Rightarrow> Speedometer_onActive s now
      | eClearing \<Rightarrow> Speedometer_onClearing s now)"

text \<open>The LED output, lines 319--320.\<close>

definition Speedometer_led :: "Speedometer \<Rightarrow> bool" where
  "Speedometer_led s \<longleftrightarrow> m_fsm_state s = eSenseA \<or> m_fsm_state s = eSenseB"

text \<open>\<open>update\<close>, lines 75--328: the tick gate, then the sensing phase and the state
  machine; returns whether it ran.\<close>

definition Speedometer_update ::
  "Speedometer \<Rightarrow> Sensor \<Rightarrow> Sensor \<Rightarrow> tick_in \<Rightarrow> error + Speedometer \<times> Sensor \<times> Sensor \<times> bool" where
  "Speedometer_update s a b t =
     (let (s1, due) = StateMachine_update s (t_now t) in
      if \<not> due then Inr (s1, a, b, False)
      else (case Speedometer_sense s1 a b t of
              Inl e \<Rightarrow> Inl e
            | Inr (s2, a2, b2) \<Rightarrow> Inr (Speedometer_fsm s2 (t_clock t), a2, b2, True)))"

text \<open>\<open>begin\<close>, lines 331--338: both sensors are initialised (the operator is the
  bitwise \<open>|\<close>, so neither call is skipped); the result is -1 or 0.\<close>

definition Speedometer_begin ::
  "(init_call \<Rightarrow> int) \<Rightarrow> (init_call \<Rightarrow> int) \<Rightarrow> int \<times> init_call list \<times> init_call list" where
  "Speedometer_begin rcA rcB =
     (let (okA, madeA) = Sensor_begin rcA; (okB, madeB) = Sensor_begin rcB
      in (if okA \<or> okB then -1 else 0, madeA, madeB))"

text \<open>The setters, lines 341--353, and \<open>inWindow\<close>, lines 356--358.\<close>

definition Speedometer_setScale :: "Speedometer \<Rightarrow> E_Scale \<Rightarrow> Speedometer" where
  "Speedometer_setScale s sc = s\<lparr>m_scale := sc\<rparr>"

definition Speedometer_setMetric :: "Speedometer \<Rightarrow> bool \<Rightarrow> Speedometer" where
  "Speedometer_setMetric s m = s\<lparr>m_metric := m\<rparr>"

definition Speedometer_setWindow :: "Speedometer \<Rightarrow> RangeWindow option \<Rightarrow> Speedometer" where
  "Speedometer_setWindow s w = s\<lparr>m_window := w\<rparr>"

definition Speedometer_inWindow :: "Speedometer \<Rightarrow> u8 \<Rightarrow> error + Speedometer \<times> bool" where
  "Speedometer_inWindow s rng =
     (case m_window s of
        None \<Rightarrow> Inl NullWindow
      | Some w \<Rightarrow> (let (w', d) = RangeWindow_within w rng in Inr (s\<lparr>m_window := Some w'\<rparr>, d)))"

text \<open>\<open>isUpdated\<close>, lines 373--380, and \<open>getSpeed\<close>, lines 383--386.\<close>

definition Speedometer_isUpdated :: "Speedometer \<Rightarrow> Speedometer \<times> bool" where
  "Speedometer_isUpdated s =
     (if m_updated s then (s\<lparr>m_updated := False\<rparr>, True) else (s, False))"

definition Speedometer_getSpeed :: "Speedometer \<Rightarrow> Speedometer \<times> dbl" where
  "Speedometer_getSpeed s = (s\<lparr>m_updated := False\<rparr>, m_speed s)"

subsection \<open>Lemmas on the state machine\<close>

text \<open>The machine unfolded into its branches.\<close>

lemmas Speedometer_fsm_defs = Speedometer_fsm_def Speedometer_onClear_def Speedometer_onSenseA_def
  Speedometer_onSenseB_def Speedometer_onUpdated_def Speedometer_onActive_def Speedometer_onClearing_def

text \<open>Fields the state machine never writes.\<close>

lemma Speedometer_fsm_frame [simp]:
  "m_detA (Speedometer_fsm s now) = m_detA s"
  "m_detB (Speedometer_fsm s now) = m_detB s"
  "m_window (Speedometer_fsm s now) = m_window s"
  "m_triggered (Speedometer_fsm s now) = m_triggered s"
  "m_spacing (Speedometer_fsm s now) = m_spacing s"
  "m_scale (Speedometer_fsm s now) = m_scale s"
  "m_metric (Speedometer_fsm s now) = m_metric s"
  "sm_period (Speedometer_fsm s now) = sm_period s"
  "sm_last (Speedometer_fsm s now) = sm_last s"
  by (simp_all add: Speedometer_fsm_defs Let_def split: E_State.split)

lemma Speedometer_update_not_due_eq:
  "\<not> sm_period s \<le> t_now t - sm_last s \<Longrightarrow> Speedometer_update s a b t = Inr (s, a, b, False)"
  by (simp add: Speedometer_update_def StateMachine_update_def)

lemma Speedometer_update_due:
  assumes "sm_period s \<le> t_now t - sm_last s"
  shows "Speedometer_update s a b t =
     (case Speedometer_sense (s\<lparr>sm_last := t_now t\<rparr>) a b t of
        Inl e \<Rightarrow> Inl e
      | Inr (s2, a2, b2) \<Rightarrow> Inr (Speedometer_fsm s2 (t_clock t), a2, b2, True))"
  using assms by (simp add: Speedometer_update_def StateMachine_update_def)

text \<open>The speed computed from an interval of at least one tick period is a number between
  0 and the speed of a pass over 127 mm in 5 ms at the largest scale, in km/h.\<close>

lemma scale_value_le: "scale_value sc \<le> 160"
  by (cases sc) simp_all

lemma Speedometer_calcScaleSpeed_bounded:
  assumes "5 \<le> unat dt" and "m_spacing s = 127"
  shows "\<exists>r. Speedometer_calcScaleSpeed s dt = Num r \<and> 0 \<le> r \<and> r \<le> 127 / 5 * 160 * 3.6"
proof -
  have dt: "dt \<noteq> 0" using assms(1) by (auto simp: unat_eq_zero)
  let ?q = "127 / real (unat dt) * real (scale_value (m_scale s)) * 3.6"
  let ?f = "if m_metric s then 1 else MI_PER_KM"
  have n: "real 5 \<le> real (unat dt)" using assms(1) by (simp only: of_nat_le_iff)
  have d: "127 / real (unat dt) \<le> 127 / 5"
    using n by (intro divide_left_mono) (simp_all del: of_nat_unat)
  have "0 \<le> ?q" by (simp del: of_nat_unat)
  moreover have "?q \<le> 127 / 5 * 160 * 3.6"
    using d scale_value_le[of "m_scale s"] by (intro mult_right_mono mult_mono) simp_all
  moreover have "0 \<le> ?f" "?f \<le> 1" by (simp_all add: MI_PER_KM_def)
  ultimately have "0 \<le> ?q * ?f \<and> ?q * ?f \<le> 127 / 5 * 160 * 3.6"
    by (rule mult_unit_factor_bound)
  then show ?thesis using dt assms(2) by (simp add: Speedometer_calcScaleSpeed_def)
qed

subsection \<open>Properties of the transit timer\<close>

text \<open>The tick gate: when the period has not elapsed, \<open>update\<close> returns false and
  changes neither the speedometer nor either sensor (no trigger, no read, no transition).\<close>

theorem Speedometer_update_not_due:
  assumes "\<not> sm_period s \<le> t_now t - sm_last s"
  shows "Speedometer_update s a b t = Inr (s, a, b, False)"
  using assms by (simp add: Speedometer_update_def StateMachine_update_def)

theorem Speedometer_update_not_due_witness:
  "Speedometer_update (Speedometer_new eJP) Sensor_new Sensor_new
     \<lparr>t_now = 3, t_clock = 3, t_startA = 0, t_startB = 0, t_measA = NoMeas, t_measB = NoMeas\<rparr> =
   Inr (Speedometer_new eJP, Sensor_new, Sensor_new, False)"
  by (rule Speedometer_update_not_due) (simp add: Speedometer_new_def)

text \<open>C10: Scenario 1: a detection on both channels at once in state Clear is rejected:
  the machine goes to Clearing without starting a timing interval.\<close>

theorem Speedometer_fsm_double_detect:
  assumes "m_fsm_state s = eClear" and "m_detA s" and "m_detB s"
  shows "Speedometer_fsm s now = s\<lparr>m_fsm_state := eClearing\<rparr>"
  using assms by (auto simp: Speedometer_fsm_defs Let_def)

theorem Speedometer_fsm_double_detect_witness:
  "Speedometer_fsm ((Speedometer_new eJP)\<lparr>m_detA := True, m_detB := True\<rparr>) 42 =
     (Speedometer_new eJP)\<lparr>m_detA := True, m_detB := True, m_fsm_state := eClearing\<rparr>"
  by (rule Speedometer_fsm_double_detect) (simp_all add: Speedometer_new_def)

text \<open>C9: The second detection: in SenseA a detection on B (in SenseB one on A) computes the
  speed from the interval since the first detection (in wrapping 32-bit arithmetic), raises
  the update flag, restarts the time mark and goes to Updated.\<close>

theorem Speedometer_fsm_second_detect:
  assumes "(m_fsm_state s = eSenseA \<and> m_detB s) \<or> (m_fsm_state s = eSenseB \<and> m_detA s)"
  shows "Speedometer_fsm s now =
     s\<lparr>m_speed := Speedometer_calcScaleSpeed s (now - m_sense_when s), m_updated := True,
       m_sense_when := now, m_fsm_state := eUpdated\<rparr>"
  using assms by (auto simp: Speedometer_fsm_defs Let_def)

theorem Speedometer_fsm_second_detect_witness:
  "Speedometer_fsm ((Speedometer_new eJP)\<lparr>m_fsm_state := eSenseA, m_sense_when := 100, m_detB := True\<rparr>) 300 =
     (Speedometer_new eJP)\<lparr>m_fsm_state := eUpdated, m_sense_when := 300, m_detB := True,
        m_speed := Num (127 / 200 * 150 * 3.6), m_updated := True\<rparr>"
proof -
  let ?s = "(Speedometer_new eJP)\<lparr>m_fsm_state := eSenseA, m_sense_when := 100, m_detB := True\<rparr>"
  have "(m_fsm_state ?s = eSenseA \<and> m_detB ?s) \<or> (m_fsm_state ?s = eSenseB \<and> m_detA ?s)" by simp
  from Speedometer_fsm_second_detect[OF this, of 300] show ?thesis
    by (simp add: Speedometer_new_def Speedometer_calcScaleSpeed_def)
qed

text \<open>C14: Scenario 3: when the second channel has not detected within \<open>TIMEOUT_2ND\<close>, the
  interval is abandoned: the speed is reset to zero and the machine goes to Active,
  without raising the update flag.\<close>

theorem Speedometer_fsm_second_timeout:
  assumes "(m_fsm_state s = eSenseA \<and> \<not> m_detB s) \<or> (m_fsm_state s = eSenseB \<and> \<not> m_detA s)"
    and "TIMEOUT_2ND < now - m_sense_when s"
  shows "Speedometer_fsm s now = s\<lparr>m_speed := Num 0, m_fsm_state := eActive\<rparr>"
  using assms by (auto simp: Speedometer_fsm_defs Let_def)

theorem Speedometer_fsm_second_timeout_witness:
  "Speedometer_fsm ((Speedometer_new eJP)\<lparr>m_fsm_state := eSenseA, m_sense_when := 100, m_detA := True\<rparr>) 45556 =
     (Speedometer_new eJP)\<lparr>m_fsm_state := eActive, m_sense_when := 100, m_detA := True, m_speed := Num 0\<rparr>"
  by (rule trans[OF Speedometer_fsm_second_timeout]) (simp_all add: TIMEOUT_2ND_def Speedometer_new_def)

text \<open>C15: Scenario 4: a detection on either channel during the settle time of Clearing sends
  the machine back to Active, keeping the time mark (the settle time restarts when both
  channels clear again).\<close>

theorem Speedometer_fsm_clearing_redetect:
  assumes "m_fsm_state s = eClearing" and "m_detA s \<or> m_detB s"
  shows "Speedometer_fsm s now = s\<lparr>m_fsm_state := eActive\<rparr>"
  using assms by (auto simp: Speedometer_fsm_defs Let_def)

theorem Speedometer_fsm_clearing_redetect_witness:
  "Speedometer_fsm ((Speedometer_new eJP)\<lparr>m_fsm_state := eClearing, m_detB := True\<rparr>) 7 =
     (Speedometer_new eJP)\<lparr>m_fsm_state := eActive, m_detB := True\<rparr>"
  by (rule trans[OF Speedometer_fsm_clearing_redetect]) (simp_all add: Speedometer_new_def)

text \<open>The update flag is consumed once: \<open>isUpdated\<close> reports it and clears it, so an
  immediate second call reports false; \<open>getSpeed\<close> returns the speed and clears it too.\<close>

theorem Speedometer_update_flag_consumed_once:
  "snd (Speedometer_isUpdated s) = m_updated s \<and>
   \<not> snd (Speedometer_isUpdated (fst (Speedometer_isUpdated s))) \<and>
   snd (Speedometer_getSpeed s) = m_speed s \<and>
   \<not> snd (Speedometer_isUpdated (fst (Speedometer_getSpeed s)))"
  by (simp add: Speedometer_isUpdated_def Speedometer_getSpeed_def)

text \<open>C33: \<open>begin\<close> returns -1 as soon as one sensor initialises successfully, and 0 only
  when both fail: the result is the opposite of success (\<open>Sensor::begin\<close> returns true
  on success).\<close>

theorem Speedometer_begin_inverted:
  "fst (Speedometer_begin rcA rcB) = 0 \<longleftrightarrow> \<not> fst (Sensor_begin rcA) \<and> \<not> fst (Sensor_begin rcB)"
  by (simp add: Speedometer_begin_def case_prod_unfold Let_def)

text \<open>C35: A tick that reads the sensors with no window installed (\<open>setWindow\<close> never
  called, \<open>m_window\<close> still null) dereferences the null pointer.\<close>

theorem Speedometer_update_null_window:
  assumes "sm_period s \<le> t_now t - sm_last s" and "m_triggered s"
    and "Sensor_is_ready a" and "Sensor_is_ready b" and "m_window s = None"
  shows "Speedometer_update s a b t = Inl NullWindow"
  using assms
  by (simp add: Speedometer_update_due Speedometer_sense_def case_prod_unfold Let_def)

theorem Speedometer_update_null_window_witness:
  "Speedometer_update ((Speedometer_new eJP)\<lparr>m_triggered := True\<rparr>) (Sensor_isr Sensor_new) (Sensor_isr Sensor_new)
     \<lparr>t_now = 5, t_clock = 5, t_startA = 0, t_startB = 0, t_measA = NoMeas, t_measB = NoMeas\<rparr> = Inl NullWindow"
  by (rule Speedometer_update_null_window)
     (simp_all add: Speedometer_new_def Sensor_is_ready_def Sensor_isr_def)

text \<open>C16: Recovery of the state machine: with no detection on either channel and the update
  flag consumed, three ticks spaced beyond the timeouts (the first more than \<open>TIMEOUT_2ND\<close>
  after the time mark, the next two each more than \<open>TIMEOUT_CLEAR\<close> after the previous)
  bring the machine back to Clear from any state.\<close>

theorem Speedometer_fsm_recovers:
  assumes "\<not> m_detA s" and "\<not> m_detB s" and "\<not> m_updated s"
    and "TIMEOUT_2ND < t1 - m_sense_when s" and "TIMEOUT_CLEAR < t2 - t1" and "TIMEOUT_CLEAR < t3 - t2"
  shows "m_fsm_state (Speedometer_fsm (Speedometer_fsm (Speedometer_fsm s t1) t2) t3) = eClear"
proof -
  have "TIMEOUT_CLEAR < t1 - m_sense_when s"
    using assms(4) by (simp add: TIMEOUT_2ND_def TIMEOUT_CLEAR_def word_less_nat_alt)
  then show ?thesis
    using assms by (cases "m_fsm_state s") (simp_all add: Speedometer_fsm_defs Let_def)
qed

theorem Speedometer_fsm_recovers_witness:
  "m_fsm_state (Speedometer_fsm (Speedometer_fsm (Speedometer_fsm
      ((Speedometer_new eJP)\<lparr>m_fsm_state := eSenseA, m_sense_when := 100\<rparr>) 50000) 52000) 54000) = eClear"
  by (rule Speedometer_fsm_recovers) (simp_all add: Speedometer_new_def TIMEOUT_2ND_def TIMEOUT_CLEAR_def)

end
