(* ===== verification/TransitSpec.thy ===== *)
theory TransitSpec
  imports TransitTimer
begin

text \<open>
  The abstract contract of the transit timer, written from the spec (section 4.4) as an
  inductive relation over the six states: \<open>transit_spec q dA dB pending late q'\<close> says
  that from state \<open>q\<close>, with detections \<open>dA\<close>, \<open>dB\<close> on the two channels, the update
  flag still \<open>pending\<close> (not yet consumed by a reader) and the timeout of the current
  state \<open>late\<close> (elapsed), the machine may go to \<open>q'\<close>. The concrete state machine
  \<open>Speedometer_fsm\<close> refines it through the abstraction \<open>fsm_late\<close>, which reads the
  timeout of the current state from the time mark; since the relation is deterministic,
  the concrete machine is exactly the contract.
\<close>

inductive transit_spec :: "E_State \<Rightarrow> bool \<Rightarrow> bool \<Rightarrow> bool \<Rightarrow> bool \<Rightarrow> E_State \<Rightarrow> bool" where
  clear_idle: "\<not> dA \<Longrightarrow> \<not> dB \<Longrightarrow> transit_spec eClear dA dB p l eClear"
| clear_double: "dA \<Longrightarrow> dB \<Longrightarrow> transit_spec eClear dA dB p l eClearing"
| clear_A: "dA \<Longrightarrow> \<not> dB \<Longrightarrow> transit_spec eClear dA dB p l eSenseA"
| clear_B: "\<not> dA \<Longrightarrow> dB \<Longrightarrow> transit_spec eClear dA dB p l eSenseB"
| senseA_done: "dB \<Longrightarrow> transit_spec eSenseA dA dB p l eUpdated"
| senseA_late: "\<not> dB \<Longrightarrow> l \<Longrightarrow> transit_spec eSenseA dA dB p l eActive"
| senseA_wait: "\<not> dB \<Longrightarrow> \<not> l \<Longrightarrow> transit_spec eSenseA dA dB p l eSenseA"
| senseB_done: "dA \<Longrightarrow> transit_spec eSenseB dA dB p l eUpdated"
| senseB_late: "\<not> dA \<Longrightarrow> l \<Longrightarrow> transit_spec eSenseB dA dB p l eActive"
| senseB_wait: "\<not> dA \<Longrightarrow> \<not> l \<Longrightarrow> transit_spec eSenseB dA dB p l eSenseB"
| updated_wait: "p \<Longrightarrow> transit_spec eUpdated dA dB p l eUpdated"
| updated_read: "\<not> p \<Longrightarrow> transit_spec eUpdated dA dB p l eActive"
| active_wait: "dA \<or> dB \<Longrightarrow> transit_spec eActive dA dB p l eActive"
| active_clear: "\<not> dA \<Longrightarrow> \<not> dB \<Longrightarrow> transit_spec eActive dA dB p l eClearing"
| clearing_redetect: "dA \<or> dB \<Longrightarrow> transit_spec eClearing dA dB p l eActive"
| clearing_done: "\<not> dA \<Longrightarrow> \<not> dB \<Longrightarrow> l \<Longrightarrow> transit_spec eClearing dA dB p l eClear"
| clearing_wait: "\<not> dA \<Longrightarrow> \<not> dB \<Longrightarrow> \<not> l \<Longrightarrow> transit_spec eClearing dA dB p l eClearing"

code_pred transit_spec .

inductive_simps transit_spec_simps [simp]:
  "transit_spec eClear dA dB p l q'"
  "transit_spec eSenseA dA dB p l q'"
  "transit_spec eSenseB dA dB p l q'"
  "transit_spec eUpdated dA dB p l q'"
  "transit_spec eActive dA dB p l q'"
  "transit_spec eClearing dA dB p l q'"

inductive_cases transit_spec_to_Updated: "transit_spec q dA dB p l eUpdated"

text \<open>The abstraction: whether the timeout of the current state has elapsed.\<close>

definition fsm_late :: "Speedometer \<Rightarrow> u32 \<Rightarrow> bool" where
  "fsm_late s now =
     (case m_fsm_state s of
        eSenseA \<Rightarrow> TIMEOUT_2ND < now - m_sense_when s
      | eSenseB \<Rightarrow> TIMEOUT_2ND < now - m_sense_when s
      | eClearing \<Rightarrow> TIMEOUT_CLEAR < now - m_sense_when s
      | _ \<Rightarrow> False)"

lemma transit_spec_deterministic:
  "transit_spec q dA dB p l q1 \<Longrightarrow> transit_spec q dA dB p l q2 \<Longrightarrow> q1 = q2"
  by (cases q) auto

lemma transit_spec_total: "\<exists>q'. transit_spec q dA dB p l q'"
  by (cases q) auto

lemma Speedometer_fsm_in_spec:
  "transit_spec (m_fsm_state s) (m_detA s) (m_detB s) (m_updated s) (fsm_late s now)
                (m_fsm_state (Speedometer_fsm s now))"
  by (cases "m_fsm_state s") (simp_all add: Speedometer_fsm_defs fsm_late_def Let_def)

subsection \<open>Properties\<close>

text \<open>C1: Refinement of the six-state contract of the spec by the code: for every state of
  the speedometer and every time, the transition made by the state machine of
  \<open>update\<close> is the one the contract prescribes for the current detections, the update
  flag and the timeout of the current state, and no other transition is allowed.\<close>

theorem Speedometer_fsm_refines_spec:
  "transit_spec (m_fsm_state s) (m_detA s) (m_detB s) (m_updated s) (fsm_late s now) q' \<longleftrightarrow>
   q' = m_fsm_state (Speedometer_fsm s now)"
proof -
  have "transit_spec (m_fsm_state s) (m_detA s) (m_detB s) (m_updated s) (fsm_late s now)
                     (m_fsm_state (Speedometer_fsm s now))"
    by (cases "m_fsm_state s") (simp_all add: Speedometer_fsm_defs fsm_late_def Let_def)
  then show ?thesis using transit_spec_deterministic by metis
qed

text \<open>C17: The speed and the update flag are written only on the way into Updated, which
  the machine enters only from SenseA or SenseB (a completed two-channel interval) or
  stays in while the flag is pending.\<close>

theorem Speedometer_fsm_updated_only_after_interval:
  assumes "m_fsm_state (Speedometer_fsm s now) = eUpdated"
  shows "m_fsm_state s \<in> {eSenseA, eSenseB} \<or> (m_fsm_state s = eUpdated \<and> m_updated s)"
proof -
  have "transit_spec (m_fsm_state s) (m_detA s) (m_detB s) (m_updated s) (fsm_late s now) eUpdated"
    using Speedometer_fsm_in_spec[of s now] assms by simp
  then show ?thesis by (rule transit_spec_to_Updated) auto
qed

theorem Speedometer_fsm_updated_only_after_interval_witness:
  "m_fsm_state (Speedometer_fsm ((Speedometer_new eUS)\<lparr>m_fsm_state := eSenseB, m_detA := True\<rparr>) 9) = eUpdated \<and>
   m_fsm_state ((Speedometer_new eUS)\<lparr>m_fsm_state := eSenseB, m_detA := True\<rparr>) \<in> {eSenseA, eSenseB}"
proof -
  let ?s = "(Speedometer_new eUS)\<lparr>m_fsm_state := eSenseB, m_detA := True\<rparr>"
  have u: "m_fsm_state (Speedometer_fsm ?s 9) = eUpdated"
    by (simp add: Speedometer_fsm_defs)
  show ?thesis
    using Speedometer_fsm_updated_only_after_interval[OF u] u by simp
qed

end
