(* ===== verification/System.thy ===== *)
theory System
  imports TransitTimer
begin

text \<open>
  The whole program as a state machine: the speedometer object and the two global
  sensors \<open>sensA\<close>, \<open>sensB\<close>. Its events are the ones the code reacts to: a call of
  \<open>update\<close> from the sketch's loop (with that call's clock reading and driver results),
  the interrupt routine of either sensor, and the reader's calls \<open>isUpdated\<close> and
  \<open>getSpeed\<close>. An interrupt routine runs between two calls of the loop: an interrupt
  inside \<open>update\<close> has the effect of one just before or just after it (theory
  \<open>Interleaving\<close>).
  The start state is the constructor followed by \<open>setWindow\<close>, as the spec's caller
  does before the first tick. Lemmas: an induction rule over the reachable states for
  properties of the speedometer object, and with it the invariants of the running program
  (a window always installed, hence no error; well-formed sensors and window). The
  reachable states are taken under an environment that admits events
  (\<open>reachable_under\<close>; \<open>reachable\<close> admits all). Finally, a run without an interrupt
  from sensor A never reads a distance, while one in which both sensors answer each tick
  reads them within two ticks. Properties that need the clock to run forward are in
  theory \<open>Clock\<close>.
\<close>

record Sys =
  sys_speedo :: Speedometer
  sys_sensA :: Sensor
  sys_sensB :: Sensor

datatype event = Tick tick_in | IsrA | IsrB | ReadUpdated | ReadSpeed

definition Sys_init :: "E_Scale \<Rightarrow> RangeWindow \<Rightarrow> Sys" where
  "Sys_init sc w =
     \<lparr>sys_speedo = Speedometer_setWindow (Speedometer_new sc) (Some w),
      sys_sensA = Sensor_new, sys_sensB = Sensor_new\<rparr>"

fun Sys_step :: "Sys \<Rightarrow> event \<Rightarrow> error + Sys" where
  "Sys_step s (Tick t) =
     (case Speedometer_update (sys_speedo s) (sys_sensA s) (sys_sensB s) t of
        Inl e \<Rightarrow> Inl e
      | Inr (p, a, b, _) \<Rightarrow> Inr \<lparr>sys_speedo = p, sys_sensA = a, sys_sensB = b\<rparr>)"
| "Sys_step s IsrA = Inr (s\<lparr>sys_sensA := Sensor_isr (sys_sensA s)\<rparr>)"
| "Sys_step s IsrB = Inr (s\<lparr>sys_sensB := Sensor_isr (sys_sensB s)\<rparr>)"
| "Sys_step s ReadUpdated = Inr (s\<lparr>sys_speedo := fst (Speedometer_isUpdated (sys_speedo s))\<rparr>)"
| "Sys_step s ReadSpeed = Inr (s\<lparr>sys_speedo := fst (Speedometer_getSpeed (sys_speedo s))\<rparr>)"

fun Sys_run :: "Sys \<Rightarrow> event list \<Rightarrow> error + Sys" where
  "Sys_run s [] = Inr s"
| "Sys_run s (e # es) = (case Sys_step s e of Inl err \<Rightarrow> Inl err | Inr s' \<Rightarrow> Sys_run s' es)"

text \<open>The states reached from a start state by events that the environment \<open>ok\<close> admits;
  \<open>reachable\<close> admits every event.\<close>

inductive reachable_under :: "(Speedometer \<Rightarrow> event \<Rightarrow> bool) \<Rightarrow> Sys \<Rightarrow> bool" for ok where
  init: "reachable_under ok (Sys_init sc w)"
| step: "reachable_under ok s \<Longrightarrow> ok (sys_speedo s) e \<Longrightarrow> Sys_step s e = Inr s' \<Longrightarrow>
         reachable_under ok s'"

abbreviation reachable :: "Sys \<Rightarrow> bool" where
  "reachable \<equiv> reachable_under (\<lambda>_ _. True)"

text \<open>Well-formedness of the program state: both filters have their 10 slots, a window is
  installed whose triggers hold values of \<open>uint8_t\<close>, and the constants of the
  speedometer (tick period, sensor spacing) have their constructor's values.\<close>

definition Sys_wf :: "Sys \<Rightarrow> bool" where
  "Sys_wf S \<longleftrightarrow> Sensor_wf (sys_sensA S) \<and> Sensor_wf (sys_sensB S) \<and>
     (\<exists>w. m_window (sys_speedo S) = Some w \<and> RangeWindow_wf 8 w) \<and>
     sm_period (sys_speedo S) = 5 \<and> m_spacing (sys_speedo S) = 127"

subsection \<open>Induction over the running program\<close>

text \<open>The sensing phase writes only the trigger flag, the window and the detections.\<close>

lemma Speedometer_sense_frame:
  assumes "Speedometer_sense p a b t = Inr (p2, a2, b2)"
  shows "m_updated p2 = m_updated p \<and> m_fsm_state p2 = m_fsm_state p \<and>
         m_sense_when p2 = m_sense_when p \<and> m_spacing p2 = m_spacing p \<and>
         sm_period p2 = sm_period p \<and> sm_last p2 = sm_last p \<and> m_speed p2 = m_speed p \<and>
         m_scale p2 = m_scale p \<and> m_metric p2 = m_metric p \<and>
         (m_window p \<noteq> None \<longrightarrow> m_window p2 \<noteq> None)"
  using assms
  by (auto simp: Speedometer_sense_def case_prod_unfold Let_def split: if_splits option.splits)

lemma Speedometer_sense_total:
  "m_window p \<noteq> None \<Longrightarrow> \<exists>r. Speedometer_sense p a b t = Inr r"
  by (auto simp: Speedometer_sense_def case_prod_unfold Let_def)

lemma Speedometer_sense_wf:
  assumes "Speedometer_sense p a b t = Inr (p2, a2, b2)" and "Sensor_wf a" and "Sensor_wf b"
    and "\<exists>w. m_window p = Some w \<and> RangeWindow_wf 8 w"
  shows "Sensor_wf a2 \<and> Sensor_wf b2 \<and> (\<exists>w. m_window p2 = Some w \<and> RangeWindow_wf 8 w)"
  using assms
  by (auto simp: Speedometer_sense_def case_prod_unfold Let_def Sensor_ops_wf RangeWindow_within_wf
      split: if_splits option.splits)

text \<open>A tick either is not due and changes nothing, or runs the sensing phase on the
  speedometer with the new tick time and then the state machine.\<close>

lemma Sys_step_Tick_cases:
  assumes "Sys_step s (Tick t) = Inr s'"
  obtains "s' = s"
  | p2 a2 b2 where "sm_period (sys_speedo s) \<le> t_now t - sm_last (sys_speedo s)"
      "Speedometer_sense ((sys_speedo s)\<lparr>sm_last := t_now t\<rparr>) (sys_sensA s) (sys_sensB s) t = Inr (p2, a2, b2)"
      "s' = \<lparr>sys_speedo = Speedometer_fsm p2 (t_clock t), sys_sensA = a2, sys_sensB = b2\<rparr>"
proof (cases "sm_period (sys_speedo s) \<le> t_now t - sm_last (sys_speedo s)")
  case False
  with assms have "s' = s" by (cases s) (auto simp: Speedometer_update_not_due_eq)
  then show ?thesis by (rule that(1))
next
  case True
  with assms show ?thesis
    by (auto simp: Speedometer_update_due split: sum.splits intro: that(2))
qed

text \<open>Induction over the reachable states for a property of the speedometer object: it
  must hold after the constructor and \<open>setWindow\<close>, survive a due tick (the sensing
  phase followed by the state machine) and the two reader calls; interrupts and ticks that
  are not due leave the object alone.\<close>

lemma reachable_speedo_induct:
  assumes "reachable_under ok s"
    and init: "\<And>sc w. P (Speedometer_setWindow (Speedometer_new sc) (Some w))"
    and tick: "\<And>p a b t p2 a2 b2. P p \<Longrightarrow> sm_period p \<le> t_now t - sm_last p \<Longrightarrow>
        ok p (Tick t) \<Longrightarrow>
        Speedometer_sense (p\<lparr>sm_last := t_now t\<rparr>) a b t = Inr (p2, a2, b2) \<Longrightarrow>
        P (Speedometer_fsm p2 (t_clock t))"
    and read: "\<And>p. P p \<Longrightarrow> P (fst (Speedometer_isUpdated p))"
    and speed: "\<And>p. P p \<Longrightarrow> P (fst (Speedometer_getSpeed p))"
  shows "P (sys_speedo s)"
  using assms(1)
proof (induction rule: reachable_under.induct)
  case (init sc w)
  then show ?case using assms(2) by (simp add: Sys_init_def)
next
  case (step s e s')
  show ?case
  proof (cases e)
    case (Tick t)
    from step.hyps(2) Tick have ok: "ok (sys_speedo s) (Tick t)" by simp
    from step.hyps(3) Tick have "Sys_step s (Tick t) = Inr s'" by simp
    then show ?thesis
    proof (rule Sys_step_Tick_cases)
      assume "s' = s"
      then show ?thesis using step.IH by simp
    next
      fix p2 a2 b2
      assume "sm_period (sys_speedo s) \<le> t_now t - sm_last (sys_speedo s)"
        and "Speedometer_sense ((sys_speedo s)\<lparr>sm_last := t_now t\<rparr>) (sys_sensA s) (sys_sensB s) t =
             Inr (p2, a2, b2)"
        and "s' = \<lparr>sys_speedo = Speedometer_fsm p2 (t_clock t), sys_sensA = a2, sys_sensB = b2\<rparr>"
      then show ?thesis using tick[OF step.IH _ ok] by simp
    qed
  qed (use step read speed in auto)
qed

lemma reachable_run: "Sys_run s es = Inr s' \<Longrightarrow> reachable s \<Longrightarrow> reachable s'"
proof (induction es arbitrary: s)
  case Nil
  then show ?case by simp
next
  case (Cons e es)
  then show ?case by (auto split: sum.splits intro: reachable_under.step)
qed

text \<open>The rewrite rules that evaluate a run of the system on concrete inputs (the filter
  through its proved closed form, not its loop).\<close>

lemmas Sys_eval_simps = Sys_init_def Speedometer_new_def Speedometer_setWindow_def
  Speedometer_update_def StateMachine_update_def Speedometer_sense_def Sensor_trigger_def
  Sensor_is_ready_def Sensor_isr_def Sensor_new_def Sensor_get_distance_Meas
  Sensor_get_distance_NoMeas Filter_new_def Filter_filter_eq Filter_inv_def sum_list_replicate
  RangeWindow_new_def RangeWindow_within_eq SchmittTrigger_f_eq schmitt_out_def Speedometer_fsm_defs Let_def
  Speedometer_calcScaleSpeed_def TIMEOUT_2ND_def NO_READING_def

text \<open>The spec's second scenario as events: a window from 10 to 190 mm, channel A reads
  100 mm at 100 ms and channel B at 300 ms (each distance the first non-zero sample of its
  10-sample filter, so the raw range is ten times the distance).\<close>

definition scenario_window :: RangeWindow where
  "scenario_window = RangeWindow_new (100::u8) 90 2"

definition tick :: "u32 \<Rightarrow> meas \<Rightarrow> meas \<Rightarrow> event" where
  "tick n a b = Tick \<lparr>t_now = n, t_clock = n, t_startA = 0, t_startB = 0, t_measA = a, t_measB = b\<rparr>"

definition scenario_A_first :: "event list" where
  "scenario_A_first = [tick 95 NoMeas NoMeas, IsrA, IsrB, tick 100 (Meas 1000) (Meas 0)]"

definition scenario_B_second :: "event list" where
  "scenario_B_second = [tick 105 NoMeas NoMeas, IsrA, IsrB, tick 300 (Meas 0) (Meas 1000)]"

lemma scenario_A_first_run:
  "\<exists>S. Sys_run (Sys_init eJP scenario_window) scenario_A_first = Inr S \<and>
       m_fsm_state (sys_speedo S) = eSenseA \<and> m_sense_when (sys_speedo S) = 100 \<and>
       sm_last (sys_speedo S) = 100"
  by (simp add: scenario_A_first_def scenario_window_def tick_def Sys_eval_simps)

lemma scenario_run:
  "\<exists>S. Sys_run (Sys_init eJP scenario_window) (scenario_A_first @ scenario_B_second) = Inr S \<and>
       m_fsm_state (sys_speedo S) = eUpdated \<and> m_updated (sys_speedo S) \<and>
       m_speed (sys_speedo S) = Num 342.9"
  by (simp add: scenario_A_first_def scenario_B_second_def scenario_window_def tick_def Sys_eval_simps)

subsection \<open>Properties of the running program\<close>

text \<open>C3: Once a window is installed, no event of the program fails: every tick, interrupt
  and reader call from a reachable state succeeds (the window pointer is never null).\<close>

theorem reachable_no_error:
  assumes "reachable s"
  shows "\<exists>s'. Sys_step s e = Inr s'"
proof (cases e)
  case (Tick t)
  have inv: "m_window (sys_speedo s) \<noteq> None"
    using assms
  proof (rule reachable_speedo_induct)
    fix sc w
    show "m_window (Speedometer_setWindow (Speedometer_new sc) (Some w)) \<noteq> None"
      by (simp add: Speedometer_setWindow_def)
  next
    fix p a b t p2 a2 b2
    assume "m_window p \<noteq> None" and "Speedometer_sense (p\<lparr>sm_last := t_now t\<rparr>) a b t = Inr (p2, a2, b2)"
    then show "m_window (Speedometer_fsm p2 (t_clock t)) \<noteq> None"
      using Speedometer_sense_frame by fastforce
  qed (simp_all add: Speedometer_isUpdated_def Speedometer_getSpeed_def)
  show ?thesis
  proof (cases "sm_period (sys_speedo s) \<le> t_now t - sm_last (sys_speedo s)")
    case True
    have "m_window ((sys_speedo s)\<lparr>sm_last := t_now t\<rparr>) \<noteq> None" using inv by simp
    from Speedometer_sense_total[OF this] obtain r where
      sense: "Speedometer_sense ((sys_speedo s)\<lparr>sm_last := t_now t\<rparr>) (sys_sensA s) (sys_sensB s) t = Inr r"
      by blast
    then show ?thesis using Tick True by (cases r) (auto simp: Speedometer_update_due)
  next
    case False
    then show ?thesis using Tick by (simp add: Speedometer_update_not_due_eq)
  qed
qed simp_all

theorem reachable_no_error_witness:
  "reachable (Sys_init eJP scenario_window) \<and>
   (\<exists>s'. Sys_step (Sys_init eJP scenario_window) (tick 100 (Meas 1000) NoMeas) = Inr s')"
  using reachable_no_error[OF reachable_under.init] reachable_under.init by blast

text \<open>C8: Without an interrupt from sensor A the program never measures: the ready flag of A
  starts false and only its interrupt routine sets it, so \<open>trigger\<close> never starts a
  measurement on A, \<open>update\<close> never finds both sensors ready, no distance is read, nothing
  is detected, and the machine stays in Clear, whatever ticks, interrupts of B and reader
  calls occur.\<close>

theorem Sys_no_interrupt_no_detection:
  assumes "Sys_run (Sys_init sc w) es = Inr S" and "IsrA \<notin> set es"
  shows "sys_sensA S = Sensor_new \<and> \<not> m_detA (sys_speedo S) \<and> \<not> m_detB (sys_speedo S) \<and>
     m_fsm_state (sys_speedo S) = eClear"
proof -
  define no_isr_inv :: "Sys \<Rightarrow> bool" where
    "no_isr_inv S \<longleftrightarrow> sys_sensA S = Sensor_new \<and> \<not> m_detA (sys_speedo S) \<and> \<not> m_detB (sys_speedo S) \<and>
       m_fsm_state (sys_speedo S) = eClear" for S
  have "Sys_run s es = Inr S \<Longrightarrow> no_isr_inv s \<Longrightarrow> no_isr_inv S" if "IsrA \<notin> set es" for s
    using that
  proof (induction es arbitrary: s)
    case Nil
    then show ?case by simp
  next
    case (Cons e es)
    obtain s' where st: "Sys_step s e = Inr s'" and run: "Sys_run s' es = Inr S"
      using Cons.prems(1) by (auto split: sum.splits)
    have "no_isr_inv s'"
    proof (cases e)
      case (Tick t)
      have "\<not> Sensor_is_ready (sys_sensA s)"
        using Cons.prems(2) by (simp add: no_isr_inv_def Sensor_new_def Sensor_is_ready_def)
      then show ?thesis
        using st Cons.prems(2) Tick
        by (auto simp: no_isr_inv_def Speedometer_update_def StateMachine_update_def
            Speedometer_sense_def Sensor_trigger_def Sensor_new_def Speedometer_fsm_defs
            split: if_splits sum.splits)
    qed (use st Cons.prems in \<open>auto simp: no_isr_inv_def Speedometer_isUpdated_def Speedometer_getSpeed_def split: if_splits\<close>)
    then show ?case using Cons.IH[OF run] Cons.prems(3) by simp
  qed
  moreover have "no_isr_inv (Sys_init sc w)"
    by (simp add: no_isr_inv_def Sys_init_def Speedometer_new_def Speedometer_setWindow_def)
  ultimately show ?thesis using assms by (simp add: no_isr_inv_def)
qed
theorem Sys_no_interrupt_no_detection_witness:
  "\<exists>S. Sys_run (Sys_init eJP scenario_window)
          [tick 95 NoMeas NoMeas, IsrB, tick 100 (Meas 1000) (Meas 1000), tick 105 (Meas 1000) (Meas 1000)] = Inr S \<and>
       IsrA \<notin> set [tick 95 NoMeas NoMeas, IsrB, tick 100 (Meas 1000) (Meas 1000), tick 105 (Meas 1000) (Meas 1000)] \<and>
       sys_sensA S = Sensor_new \<and> m_fsm_state (sys_speedo S) = eClear"
proof -
  let ?es = "[tick 95 NoMeas NoMeas, IsrB, tick 100 (Meas 1000) (Meas 1000), tick 105 (Meas 1000) (Meas 1000)]"
  obtain S where run: "Sys_run (Sys_init eJP scenario_window) ?es = Inr S"
    by (simp add: scenario_window_def tick_def Sys_eval_simps)
  have n: "IsrA \<notin> set ?es" by (simp add: tick_def)
  show ?thesis using run n Sys_no_interrupt_no_detection[OF run n] by blast
qed

text \<open>Type soundness of the program state: the start state built with a window of
  \<open>uint8_t\<close> values is well-formed, and from a well-formed state every event (tick,
  interrupt, reader call) succeeds and leads to a well-formed state.\<close>

theorem Sys_type_sound:
  "(RangeWindow_wf 8 w \<longrightarrow> Sys_wf (Sys_init sc w)) \<and>
   (Sys_wf s \<longrightarrow> (\<exists>s'. Sys_step s e = Inr s' \<and> Sys_wf s'))"
proof (intro conjI impI)
  assume "RangeWindow_wf 8 w"
  then show "Sys_wf (Sys_init sc w)"
    by (simp add: Sys_wf_def Sys_init_def Sensor_new_wf Speedometer_setWindow_def Speedometer_new_def)
next
  assume wf: "Sys_wf s"
  let ?p = "sys_speedo s"
  show "\<exists>s'. Sys_step s e = Inr s' \<and> Sys_wf s'"
  proof (cases e)
    case (Tick t)
    show ?thesis
    proof (cases "sm_period ?p \<le> t_now t - sm_last ?p")
      case True
      have "m_window (?p\<lparr>sm_last := t_now t\<rparr>) \<noteq> None" using wf by (auto simp: Sys_wf_def)
      from Speedometer_sense_total[OF this] obtain r where
        r: "Speedometer_sense (?p\<lparr>sm_last := t_now t\<rparr>) (sys_sensA s) (sys_sensB s) t = Inr r"
        by blast
      obtain p2 a2 b2 where "r = (p2, a2, b2)" by (cases r)
      with r have sense:
        "Speedometer_sense (?p\<lparr>sm_last := t_now t\<rparr>) (sys_sensA s) (sys_sensB s) t = Inr (p2, a2, b2)"
        by simp
      have "Sensor_wf a2 \<and> Sensor_wf b2 \<and> (\<exists>w. m_window p2 = Some w \<and> RangeWindow_wf 8 w)"
        using Speedometer_sense_wf[OF sense] wf by (simp add: Sys_wf_def)
      moreover have "sm_period p2 = 5 \<and> m_spacing p2 = 127"
        using Speedometer_sense_frame[OF sense] wf by (simp add: Sys_wf_def)
      ultimately show ?thesis
        using Tick True sense by (simp add: Speedometer_update_due Sys_wf_def)
    next
      case False
      then show ?thesis using Tick wf by (simp add: Speedometer_update_not_due_eq Sys_wf_def)
    qed
  qed (use wf in \<open>auto simp: Sys_wf_def Sensor_ops_wf Speedometer_isUpdated_def Speedometer_getSpeed_def\<close>)
qed

theorem Sys_type_sound_witness:
  "RangeWindow_wf 8 scenario_window \<and> Sys_wf (Sys_init eJP scenario_window) \<and>
   (\<exists>s'. Sys_step (Sys_init eJP scenario_window) IsrA = Inr s' \<and> Sys_wf s')"
proof -
  have w: "RangeWindow_wf 8 scenario_window"
    using RangeWindow_new_wf[of "100 :: u8" 90 2] by (simp add: scenario_window_def)
  then have i: "Sys_wf (Sys_init eJP scenario_window)"
    using Sys_type_sound[of scenario_window eJP] by blast
  then show ?thesis
    using w Sys_type_sound[of scenario_window eJP "Sys_init eJP scenario_window" IsrA] by blast
qed

text \<open>C11: The sensing handshake makes progress when the sensors answer: from a state with a
  window installed, if a due tick is followed by the interrupts of both sensors, then the
  reading branch of \<open>update\<close> (triggered, both sensors ready) is taken at that tick or
  at the next due one: the program never waits more than two ticks for a reading.\<close>

theorem Sys_reads_within_two_ticks:
  assumes "m_window (sys_speedo s) \<noteq> None"
    and "sm_period (sys_speedo s) \<le> t_now t - sm_last (sys_speedo s)"
    and "Sys_run s [Tick t, IsrA, IsrB] = Inr s1"
  shows "(m_triggered (sys_speedo s) \<and> Sensor_is_ready (sys_sensA s) \<and> Sensor_is_ready (sys_sensB s)) \<or>
         (m_triggered (sys_speedo s1) \<and> Sensor_is_ready (sys_sensA s1) \<and> Sensor_is_ready (sys_sensB s1))"
proof (cases "m_triggered (sys_speedo s) \<and> Sensor_is_ready (sys_sensA s) \<and> Sensor_is_ready (sys_sensB s)")
  case True
  then show ?thesis by blast
next
  case False
  let ?p = "(sys_speedo s)\<lparr>sm_last := t_now t\<rparr>"
  have "m_window ?p \<noteq> None" using assms(1) by simp
  from Speedometer_sense_total[OF this] obtain r where
    r: "Speedometer_sense ?p (sys_sensA s) (sys_sensB s) t = Inr r"
    by blast
  obtain p2 a2 b2 where r2: "r = (p2, a2, b2)" by (cases r)
  have trig: "m_triggered p2"
    using r r2 False by (auto simp: Speedometer_sense_def split: if_splits)
  have "s1 = \<lparr>sys_speedo = Speedometer_fsm p2 (t_clock t), sys_sensA = Sensor_isr a2,
              sys_sensB = Sensor_isr b2\<rparr>"
    using assms(2,3) r r2 by (simp add: Speedometer_update_due)
  then show ?thesis using trig by (simp add: Sensor_isr_def Sensor_is_ready_def)
qed
theorem Sys_reads_within_two_ticks_witness:
  "m_window (sys_speedo (Sys_init eJP scenario_window)) \<noteq> None \<and>
   sm_period (sys_speedo (Sys_init eJP scenario_window)) \<le> 95 - sm_last (sys_speedo (Sys_init eJP scenario_window)) \<and>
   (\<exists>s1. Sys_run (Sys_init eJP scenario_window) [tick 95 NoMeas NoMeas, IsrA, IsrB] = Inr s1 \<and>
      m_triggered (sys_speedo s1) \<and> Sensor_is_ready (sys_sensA s1) \<and> Sensor_is_ready (sys_sensB s1))"
proof -
  let ?s = "Sys_init eJP scenario_window"
  let ?t = "\<lparr>t_now = 95, t_clock = 95, t_startA = 0, t_startB = 0, t_measA = NoMeas, t_measB = NoMeas\<rparr>"
  have w: "m_window (sys_speedo ?s) \<noteq> None" and d: "sm_period (sys_speedo ?s) \<le> t_now ?t - sm_last (sys_speedo ?s)"
    by (simp_all add: Sys_init_def Speedometer_setWindow_def Speedometer_new_def)
  obtain s1 where run: "Sys_run ?s [Tick ?t, IsrA, IsrB] = Inr s1"
    by (simp add: scenario_window_def Sys_eval_simps)
  have nt: "\<not> m_triggered (sys_speedo ?s)"
    by (simp add: Sys_init_def Speedometer_setWindow_def Speedometer_new_def)
  show ?thesis
    using Sys_reads_within_two_ticks[OF w d run] nt w d run by (auto simp: tick_def)
qed

end
