(* ===== verification/Wiring.thy ===== *)
theory Wiring
  imports System
begin

text \<open>
  The hardware wiring that the constructor of \<open>Speedometer\<close> sets up
  (\<open>src/Speedometer.cpp\<close> lines 11--44 and 62--70, \<open>src/Sensor.cpp\<close> lines 6--29):
  the I2C addresses and pins of the two sensors, the two \<open>volatile\<close> ready flags
  \<open>readyA\<close>, \<open>readyB\<close>, the sensor objects that point to them, and the interrupt
  routines attached to the sensors' interrupt pins. The flags form an explicit store
  (\<open>flag \<Rightarrow> bool\<close>) so that which object writes and which reads each flag is a fact of
  the model, not an assumption. The table of attached interrupt routines is indexed by
  interrupt number; \<open>digitalPinToInterrupt\<close> is the board's map from pins to interrupt
  numbers, a parameter \<open>d2i\<close>. The theorem shows that the events \<open>IsrA\<close>, \<open>IsrB\<close> of
  \<open>System\<close> are exactly the interrupts of the two sensors' pins as wired here.
\<close>

definition SENS_A :: u8 where "SENS_A = 0x2A"
definition SENS_B :: u8 where "SENS_B = 0x2B"
definition ENA_A :: u8 where "ENA_A = 5"
definition ENA_B :: u8 where "ENA_B = 4"
definition INTR_A :: u8 where "INTR_A = 3"
definition INTR_B :: u8 where "INTR_B = 2"

text \<open>The global flags \<open>readyA\<close>, \<open>readyB\<close> (lines 34--36) as addresses of a store.\<close>

datatype flag = readyA | readyB

type_synonym flags = "flag \<Rightarrow> bool"

text \<open>The interrupt routines \<open>isr_A\<close>, \<open>isr_B\<close> (lines 39--44) and the flag each sets.\<close>

datatype isr_routine = isr_A | isr_B

fun isr_flag :: "isr_routine \<Rightarrow> flag" where
  "isr_flag isr_A = readyA"
| "isr_flag isr_B = readyB"

datatype irq_mode = RISING | FALLING | CHANGE

type_synonym irq_table = "u8 \<Rightarrow> (isr_routine \<times> irq_mode) option"

text \<open>\<open>attachInterrupt(digitalPinToInterrupt(pin), f, mode)\<close>.\<close>

definition attachInterrupt :: "(u8 \<Rightarrow> u8) \<Rightarrow> u8 \<Rightarrow> isr_routine \<Rightarrow> irq_mode \<Rightarrow> irq_table \<Rightarrow> irq_table" where
  "attachInterrupt d2i pin f mode tbl = tbl(d2i pin \<mapsto> (f, mode))"

text \<open>An interrupt with number \<open>n\<close> runs the routine attached to it, if any.\<close>

definition irq_fire :: "irq_table \<Rightarrow> u8 \<Rightarrow> flags \<Rightarrow> flags" where
  "irq_fire tbl n fl = (case tbl n of Some (f, _) \<Rightarrow> fl(isr_flag f := True) | None \<Rightarrow> fl)"

text \<open>The constant members of \<open>Sensor\<close> (\<open>src/Sensor.h\<close> lines 16--19): the flag
  \<open>m_ready\<close> points to, the I2C address, the enable and the interrupt pin; the
  constructor's initialisers, \<open>src/Sensor.cpp\<close> lines 6--20.\<close>

record Sensor_conf =
  sc_ready :: flag
  sc_addr :: u8
  sc_gpio0 :: u8
  sc_gpio1 :: u8

definition Sensor_conf_new :: "u8 \<Rightarrow> u8 \<Rightarrow> u8 \<Rightarrow> flag \<Rightarrow> Sensor_conf" where
  "Sensor_conf_new addr ena_pin intr_pin ready_flag =
     \<lparr>sc_ready = ready_flag, sc_addr = addr, sc_gpio0 = ena_pin, sc_gpio1 = intr_pin\<rparr>"

text \<open>\<open>Sensor::setupInterruptHandler\<close>, \<open>src/Sensor.cpp\<close> lines 22--29 (never called by the
  program; the constructor of \<open>Speedometer\<close> attaches the routines itself).\<close>

definition Sensor_setupInterruptHandler ::
  "(u8 \<Rightarrow> u8) \<Rightarrow> u8 \<Rightarrow> isr_routine \<Rightarrow> irq_mode \<Rightarrow> irq_table \<Rightarrow> irq_table" where
  "Sensor_setupInterruptHandler d2i irq_pin irq_func value tbl = attachInterrupt d2i irq_pin irq_func value tbl"

text \<open>The wiring: the pins set to \<open>INPUT_PULLUP\<close>, the two sensors' configurations (the
  globals \<open>sensA\<close>, \<open>sensB\<close>, lines 23--25) and the interrupt table.\<close>

record Wiring =
  w_pullup :: "u8 set"
  w_sensA :: Sensor_conf
  w_sensB :: Sensor_conf
  w_irq :: irq_table

text \<open>The body of the constructor of \<open>Speedometer\<close>, lines 62--70, in the code's order,
  from no interrupt attached.\<close>

definition Speedometer_wiring :: "(u8 \<Rightarrow> u8) \<Rightarrow> Wiring" where
  "Speedometer_wiring d2i =
     (let pull1 = {INTR_A};
          confA = Sensor_conf_new SENS_A ENA_A INTR_A readyA;
          irq1 = attachInterrupt d2i INTR_A isr_A RISING Map.empty;
          pull2 = insert INTR_B pull1;
          confB = Sensor_conf_new SENS_B ENA_B INTR_B readyB;
          irq2 = attachInterrupt d2i INTR_B isr_B RISING irq1
      in \<lparr>w_pullup = pull2, w_sensA = confA, w_sensB = confB, w_irq = irq2\<rparr>)"

text \<open>The flags as the program state of \<open>System\<close> holds them: each sensor object's ready
  flag.\<close>

definition flags_of :: "Sys \<Rightarrow> flags" where
  "flags_of S = (\<lambda>f. case f of readyA \<Rightarrow> m_ready (sys_sensA S) | readyB \<Rightarrow> m_ready (sys_sensB S))"

text \<open>\<open>digitalPinToInterrupt\<close> of the Arduino Uno: pins 2 and 3 carry interrupts 0 and 1;
  any other pin gives \<open>NOT_AN_INTERRUPT\<close>.\<close>

definition uno_d2i :: "u8 \<Rightarrow> u8" where
  "uno_d2i p = (if p = 2 then 0 else if p = 3 then 1 else 255)"

text \<open>C12: Refinement of the hardware interrupts by the events of \<open>System\<close>: as the
  constructor wires them (whenever the board gives the two interrupt pins different
  interrupt numbers), sensor A reads the flag \<open>readyA\<close> and sensor B \<open>readyB\<close>; the
  interrupt of each sensor's own pin changes the flags exactly as the event \<open>IsrA\<close>
  (\<open>IsrB\<close>) of the program changes that sensor's ready flag; every other interrupt
  changes nothing; and the two sensors share no I2C address or enable pin, their interrupt
  pins being pulled up.\<close>

theorem Speedometer_wiring_isr_refinement:
  fixes d2i :: "u8 \<Rightarrow> u8"
  assumes "d2i INTR_A \<noteq> d2i INTR_B"
  shows "sc_ready (w_sensA (Speedometer_wiring d2i)) = readyA \<and>
         sc_ready (w_sensB (Speedometer_wiring d2i)) = readyB \<and>
         (\<forall>S S'. Sys_step S IsrA = Inr S' \<longrightarrow>
            flags_of S' = irq_fire (w_irq (Speedometer_wiring d2i))
                            (d2i (sc_gpio1 (w_sensA (Speedometer_wiring d2i)))) (flags_of S)) \<and>
         (\<forall>S S'. Sys_step S IsrB = Inr S' \<longrightarrow>
            flags_of S' = irq_fire (w_irq (Speedometer_wiring d2i))
                            (d2i (sc_gpio1 (w_sensB (Speedometer_wiring d2i)))) (flags_of S)) \<and>
         (\<forall>n fl. n \<noteq> d2i (sc_gpio1 (w_sensA (Speedometer_wiring d2i))) \<longrightarrow>
                 n \<noteq> d2i (sc_gpio1 (w_sensB (Speedometer_wiring d2i))) \<longrightarrow>
                 irq_fire (w_irq (Speedometer_wiring d2i)) n fl = fl) \<and>
         sc_addr (w_sensA (Speedometer_wiring d2i)) \<noteq> sc_addr (w_sensB (Speedometer_wiring d2i)) \<and>
         sc_gpio0 (w_sensA (Speedometer_wiring d2i)) \<noteq> sc_gpio0 (w_sensB (Speedometer_wiring d2i)) \<and>
         {sc_gpio1 (w_sensA (Speedometer_wiring d2i)), sc_gpio1 (w_sensB (Speedometer_wiring d2i))}
           \<subseteq> w_pullup (Speedometer_wiring d2i)"
  using assms
  by (auto simp: Speedometer_wiring_def Sensor_conf_new_def attachInterrupt_def irq_fire_def
      flags_of_def Sensor_isr_def SENS_A_def SENS_B_def ENA_A_def ENA_B_def fun_eq_iff split: flag.split)

theorem Speedometer_wiring_isr_refinement_witness:
  "uno_d2i INTR_A \<noteq> uno_d2i INTR_B \<and>
   Sys_step (Sys_init eJP scenario_window) IsrA =
     Inr ((Sys_init eJP scenario_window)\<lparr>sys_sensA := Sensor_isr Sensor_new\<rparr>) \<and>
   flags_of ((Sys_init eJP scenario_window)\<lparr>sys_sensA := Sensor_isr Sensor_new\<rparr>) =
     irq_fire (w_irq (Speedometer_wiring uno_d2i)) 1 (flags_of (Sys_init eJP scenario_window))"
proof -
  let ?S = "Sys_init eJP scenario_window"
  let ?S' = "?S\<lparr>sys_sensA := Sensor_isr Sensor_new\<rparr>"
  have d: "uno_d2i INTR_A \<noteq> uno_d2i INTR_B" by (simp add: uno_d2i_def INTR_A_def INTR_B_def)
  have st: "Sys_step ?S IsrA = Inr ?S'" by (simp add: Sys_init_def)
  have p: "uno_d2i (sc_gpio1 (w_sensA (Speedometer_wiring uno_d2i))) = 1"
    by (simp add: Speedometer_wiring_def Sensor_conf_new_def uno_d2i_def INTR_A_def)
  have "\<forall>S S'. Sys_step S IsrA = Inr S' \<longrightarrow>
          flags_of S' = irq_fire (w_irq (Speedometer_wiring uno_d2i))
                          (uno_d2i (sc_gpio1 (w_sensA (Speedometer_wiring uno_d2i)))) (flags_of S)"
    using Speedometer_wiring_isr_refinement[OF d] by (elim conjE)
  then have "flags_of ?S' = irq_fire (w_irq (Speedometer_wiring uno_d2i)) 1 (flags_of ?S)"
    using st unfolding p by blast
  then show ?thesis using d st by simp
qed

end
