(* ===== verification/Interleaving.thy ===== *)
theory Interleaving
  imports System
begin

text \<open>
  Interrupts inside \<open>update\<close>. The interrupt routines run asynchronously, so one may
  arrive in the middle of the sensing phase of \<open>Speedometer::update\<close>
  (\<open>src/Speedometer.cpp\<close> lines 80--112). This theory gives the sensing phase a second,
  finer model at the granularity of the accesses to the two ready flags, proves it equal to
  \<open>Speedometer_sense\<close> when no interrupt arrives, and proves that one interrupt at any
  point of it has the effect of an interrupt just before or just after the call: the
  events of \<open>System\<close>, which place interrupts between calls, cover every interleaving.
\<close>

text \<open>The program points of the sensing phase, lines 80--112, at which a flag is read or
  written: \<open>sensA->trigger()\<close> reads the flag (\<open>TrigA\<close>) and, if it was up, clears it
  (\<open>ClearA\<close>); likewise for B; then \<open>m_triggered = true\<close>. Otherwise
  \<open>sensA->is_ready() && sensB->is_ready()\<close> reads A's flag, then B's if A's was up,
  and the reading branch (\<open>Read\<close>) touches no flag.\<close>

datatype sense_pc = TrigA | ClearA | TrigB | ClearB | SetTriggered | ReadyA | ReadyB | Read | Done

type_synonym sense_st = "Speedometer \<times> Sensor \<times> Sensor"

text \<open>The branch on \<open>m_triggered\<close>, line 81.\<close>

definition sense_start :: "Speedometer \<Rightarrow> sense_pc" where
  "sense_start p = (if \<not> m_triggered p then TrigA else ReadyA)"

text \<open>One atomic step of the sensing phase.\<close>

fun sense_micro :: "tick_in \<Rightarrow> sense_pc \<Rightarrow> sense_st \<Rightarrow> error + sense_pc \<times> sense_st" where
  "sense_micro t TrigA (p, a, b) = Inr (if m_ready a then ClearA else TrigB, p, a, b)"
| "sense_micro t ClearA (p, a, b) = Inr (TrigB, p, a\<lparr>m_ready := False, m_dist := NO_READING\<rparr>, b)"
| "sense_micro t TrigB (p, a, b) = Inr (if m_ready b then ClearB else SetTriggered, p, a, b)"
| "sense_micro t ClearB (p, a, b) = Inr (SetTriggered, p, a, b\<lparr>m_ready := False, m_dist := NO_READING\<rparr>)"
| "sense_micro t SetTriggered (p, a, b) = Inr (Done, p\<lparr>m_triggered := True\<rparr>, a, b)"
| "sense_micro t ReadyA (p, a, b) = Inr (if Sensor_is_ready a then ReadyB else Done, p, a, b)"
| "sense_micro t ReadyB (p, a, b) = Inr (if Sensor_is_ready b then Read else Done, p, a, b)"
| "sense_micro t Read (p, a, b) =
     (let (a', distA) = Sensor_get_distance a (t_measA t);
          (b', distB) = Sensor_get_distance b (t_measB t)
      in case m_window p of
           None \<Rightarrow> Inl NullWindow
         | Some w \<Rightarrow>
             (let (w1, dA) = RangeWindow_within w (ucast distA :: u8);
                  (w2, dB) = RangeWindow_within w1 (ucast distB :: u8)
              in Inr (Done, p\<lparr>m_triggered := False, m_window := Some w2, m_detA := dA, m_detB := dB\<rparr>,
                      a', b')))"
| "sense_micro t Done st = Inr (Done, st)"

text \<open>An interrupt of sensor A or B raises that sensor's ready flag (\<open>isr_A\<close>,
  \<open>isr_B\<close>, lines 39--44).\<close>

datatype chan = ChA | ChB

fun isr_on :: "chan \<Rightarrow> sense_st \<Rightarrow> sense_st" where
  "isr_on ChA (p, a, b) = (p, Sensor_isr a, b)"
| "isr_on ChB (p, a, b) = (p, a, Sensor_isr b)"

text \<open>Running the steps, and running them with one interrupt before the \<open>k\<close>-th step
  (after the last one when \<open>k\<close> is past the end). Five steps finish every path.\<close>

fun sense_run :: "tick_in \<Rightarrow> nat \<Rightarrow> sense_pc \<Rightarrow> sense_st \<Rightarrow> error + sense_st" where
  "sense_run t 0 pc st = Inr st"
| "sense_run t (Suc n) pc st =
     (case sense_micro t pc st of Inl e \<Rightarrow> Inl e | Inr (pc', st') \<Rightarrow> sense_run t n pc' st')"

fun sense_run_isr :: "tick_in \<Rightarrow> chan \<Rightarrow> nat \<Rightarrow> nat \<Rightarrow> sense_pc \<Rightarrow> sense_st \<Rightarrow> error + sense_st" where
  "sense_run_isr t c k 0 pc st = Inr (isr_on c st)"
| "sense_run_isr t c k (Suc n) pc st =
     (if k = 0 then sense_run t (Suc n) pc (isr_on c st)
      else (case sense_micro t pc st of
              Inl e \<Rightarrow> Inl e
            | Inr (pc', st') \<Rightarrow> sense_run_isr t c (k - 1) n pc' st'))"

subsection \<open>Lemmas\<close>

text \<open>Without interrupts the steps compute the sensing phase of \<open>update\<close>.\<close>

lemma sense_run_equiv:
  "sense_run t 5 (sense_start p) (p, a, b) = Speedometer_sense p a b t"
  by (simp add: numeral_eq_Suc sense_start_def Speedometer_sense_def Sensor_trigger_def Sensor_is_ready_def
      case_prod_unfold Let_def split: option.split)

text \<open>With an interrupt before any step, the steps end as if it came before the first
  step or after the last one.\<close>

lemma sense_run_isr_ends:
  "sense_run_isr t c k 5 (sense_start p) (p, a, b) = sense_run t 5 (sense_start p) (isr_on c (p, a, b)) \<or>
   sense_run_isr t c k 5 (sense_start p) (p, a, b) = map_sum id (isr_on c) (sense_run t 5 (sense_start p) (p, a, b))"
proof -
  have "k = 0 \<or> k = 1 \<or> k = 2 \<or> k = 3 \<or> k = 4 \<or> 5 \<le> k" by arith
  then show ?thesis
    by (cases c; elim disjE)
       (auto simp: numeral_eq_Suc sense_start_def Sensor_is_ready_def Sensor_isr_def case_prod_unfold
          Let_def split: option.split)
qed

subsection \<open>Properties\<close>

text \<open>C13: Linearizability of interrupts during \<open>update\<close>: an interrupt of either sensor
  arriving at any point of the sensing phase (between any two flag accesses) has the effect
  of the same interrupt arriving just before \<open>update\<close> or just after it. Each flag is
  touched at one point only (and \<open>trigger\<close>'s check-then-clear loses nothing, the flag
  being up already when it is cleared), so the program's model, in which interrupts occur
  between calls of the loop, loses no behaviour.\<close>

theorem sense_isr_linearizable:
  "sense_run_isr t c k 5 (sense_start p) (p, a, b) = Speedometer_sense p (fst (snd (isr_on c (p, a, b)))) (snd (snd (isr_on c (p, a, b)))) t \<or>
   sense_run_isr t c k 5 (sense_start p) (p, a, b) = map_sum id (isr_on c) (Speedometer_sense p a b t)"
  using sense_run_isr_ends[of t c k p a b] by (cases c) (simp_all add: sense_run_equiv)

end
