(* ===== verification/Api.thy ===== *)
theory Api
  imports System
begin

text \<open>
  The public interface of the program's objects, as a client sees it. The member functions
  that \<open>src/Speedometer.h\<close> declares public (lines 48--59) are the constructors of
  \<open>sp_call\<close>, and \<open>Speedometer_call\<close> dispatches a call to the operation of theory
  \<open>TransitTimer\<close> that models its body; the declared but undefined \<open>within\<close> has no
  call (a program that calls it does not link). Together with the two interrupt routines
  this gives the program under an arbitrary client (\<open>Api_step\<close>, \<open>Api_run\<close>): calls in
  any order, including \<open>setWindow\<close> with a null pointer, \<open>setScale\<close> and
  \<open>setMetric\<close> at any time, and ticks before any window is installed. The states a
  client reaches from the constructor are \<open>Api_reachable\<close>; the sketch's program of
  theory \<open>System\<close> is one such client. The public interface of \<open>Sensor\<close>
  (\<open>src/Sensor.h\<close> lines 31--34) is \<open>sn_call\<close> with its dispatch \<open>Sensor_call\<close>.
  Lemmas: the events of \<open>System\<close> as calls, an induction rule over the client-reachable
  states, and that the control projection \<open>Sys_ctrl\<close> (all but the speed and the
  units) commutes with every step. Properties: the update-flag invariant under any client,
  the inclusion of the sketch's states, the exact error condition of a call, the
  non-interference of the unit setters, and that a sensor is re-armed only by its
  interrupt.
\<close>

subsection \<open>The interface of \<open>Speedometer\<close>\<close>

text \<open>The constructor's default argument, \<open>Speedometer.h\<close> line 49.\<close>

definition Speedometer_default :: Speedometer where
  "Speedometer_default = Speedometer_new eJP"

datatype sp_call = Update tick_in | Begin "init_call \<Rightarrow> int" "init_call \<Rightarrow> int"
  | SetScale E_Scale | SetMetric bool | SetWindow "RangeWindow option" | InWindow u8
  | CalcScaleSpeed u32 | IsUpdated | GetSpeed

datatype sp_ret = RBool bool | RInt int | RDouble dbl | RVoid

text \<open>One call on the object and the two global sensors it uses; \<open>begin\<close> only drives
  the sensors' configuration calls, which do not change the modelled state.\<close>

fun Speedometer_call :: "Sys \<Rightarrow> sp_call \<Rightarrow> error + Sys \<times> sp_ret" where
  "Speedometer_call S (Update t) =
     (case Speedometer_update (sys_speedo S) (sys_sensA S) (sys_sensB S) t of
        Inl e \<Rightarrow> Inl e
      | Inr (p, a, b, due) \<Rightarrow> Inr (\<lparr>sys_speedo = p, sys_sensA = a, sys_sensB = b\<rparr>, RBool due))"
| "Speedometer_call S (Begin rcA rcB) = Inr (S, RInt (fst (Speedometer_begin rcA rcB)))"
| "Speedometer_call S (SetScale sc) =
     Inr (S\<lparr>sys_speedo := Speedometer_setScale (sys_speedo S) sc\<rparr>, RVoid)"
| "Speedometer_call S (SetMetric m) =
     Inr (S\<lparr>sys_speedo := Speedometer_setMetric (sys_speedo S) m\<rparr>, RVoid)"
| "Speedometer_call S (SetWindow w) =
     Inr (S\<lparr>sys_speedo := Speedometer_setWindow (sys_speedo S) w\<rparr>, RVoid)"
| "Speedometer_call S (InWindow r) =
     (case Speedometer_inWindow (sys_speedo S) r of
        Inl e \<Rightarrow> Inl e
      | Inr (p, d) \<Rightarrow> Inr (S\<lparr>sys_speedo := p\<rparr>, RBool d))"
| "Speedometer_call S (CalcScaleSpeed dt) =
     Inr (S, RDouble (Speedometer_calcScaleSpeed (sys_speedo S) dt))"
| "Speedometer_call S IsUpdated =
     (let (p, u) = Speedometer_isUpdated (sys_speedo S) in Inr (S\<lparr>sys_speedo := p\<rparr>, RBool u))"
| "Speedometer_call S GetSpeed =
     (let (p, v) = Speedometer_getSpeed (sys_speedo S) in Inr (S\<lparr>sys_speedo := p\<rparr>, RDouble v))"

text \<open>The program under a client: its calls and the two interrupt routines.\<close>

datatype api_event = Call sp_call | IrqA | IrqB

fun Api_step :: "Sys \<Rightarrow> api_event \<Rightarrow> error + Sys \<times> sp_ret" where
  "Api_step S (Call c) = Speedometer_call S c"
| "Api_step S IrqA = Inr (S\<lparr>sys_sensA := Sensor_isr (sys_sensA S)\<rparr>, RVoid)"
| "Api_step S IrqB = Inr (S\<lparr>sys_sensB := Sensor_isr (sys_sensB S)\<rparr>, RVoid)"

fun Api_run :: "Sys \<Rightarrow> api_event list \<Rightarrow> error + Sys \<times> sp_ret list" where
  "Api_run S [] = Inr (S, [])"
| "Api_run S (e # es) =
     (case Api_step S e of
        Inl err \<Rightarrow> Inl err
      | Inr (S', r) \<Rightarrow> (case Api_run S' es of Inl err \<Rightarrow> Inl err | Inr (S'', rs) \<Rightarrow> Inr (S'', r # rs)))"

text \<open>The state right after the constructor: no window yet.\<close>

definition Sys_new :: "E_Scale \<Rightarrow> Sys" where
  "Sys_new sc = \<lparr>sys_speedo = Speedometer_new sc, sys_sensA = Sensor_new, sys_sensB = Sensor_new\<rparr>"

inductive Api_reachable :: "Sys \<Rightarrow> bool" where
  init: "Api_reachable (Sys_new sc)"
| step: "Api_reachable S \<Longrightarrow> Api_step S e = Inr (S', r) \<Longrightarrow> Api_reachable S'"

text \<open>The events of the sketch's program (theory \<open>System\<close>) as calls of the interface.\<close>

fun sys_event_call :: "event \<Rightarrow> api_event" where
  "sys_event_call (Tick t) = Call (Update t)"
| "sys_event_call IsrA = IrqA"
| "sys_event_call IsrB = IrqB"
| "sys_event_call ReadUpdated = Call IsUpdated"
| "sys_event_call ReadSpeed = Call GetSpeed"

text \<open>The fields of the object that decide what it does next: all but the speed it
  reports and the two unit settings, which the projection sets to fixed values.\<close>

definition Speedometer_ctrl :: "Speedometer \<Rightarrow> Speedometer" where
  "Speedometer_ctrl p = p\<lparr>m_speed := Num 0, m_scale := eJP, m_metric := True\<rparr>"

definition Sys_ctrl :: "Sys \<Rightarrow> Sys" where
  "Sys_ctrl S = S\<lparr>sys_speedo := Speedometer_ctrl (sys_speedo S)\<rparr>"

fun units_call :: "api_event \<Rightarrow> bool" where
  "units_call (Call (SetScale _)) = True"
| "units_call (Call (SetMetric _)) = True"
| "units_call _ = False"

text \<open>A client that reconfigures the units in the middle of the spec's second scenario.\<close>

definition api_scenario :: "api_event list" where
  "api_scenario =
     [Call (SetWindow (Some scenario_window)), Call (SetScale eUS)] @ map sys_event_call scenario_A_first @
     [Call (SetMetric False)] @ map sys_event_call scenario_B_second"

subsection \<open>The interface of \<open>Sensor\<close>\<close>

text \<open>The public member functions \<open>begin\<close>, \<open>trigger\<close>, \<open>is_ready\<close> and
  \<open>get_distance\<close>, \<open>Sensor.h\<close> lines 31--34 (the constructor and
  \<open>setupInterruptHandler\<close> only wire the hardware: theory \<open>Wiring\<close>). A run
  returns the final object and the answers of the calls.\<close>

datatype sn_call = SnBegin "init_call \<Rightarrow> int" | SnTrigger int | SnIsReady | SnGetDistance meas

datatype sn_ret = SnBool bool | SnInt int | SnDist u32

fun Sensor_call :: "Sensor \<Rightarrow> sn_call \<Rightarrow> Sensor \<times> sn_ret" where
  "Sensor_call s (SnBegin rc) = (s, SnBool (fst (Sensor_begin rc)))"
| "Sensor_call s (SnTrigger rc) = (let (s', r) = Sensor_trigger s rc in (s', SnInt r))"
| "Sensor_call s SnIsReady = (s, SnBool (Sensor_is_ready s))"
| "Sensor_call s (SnGetDistance r) = (let (s', d) = Sensor_get_distance s r in (s', SnDist d))"

fun Sensor_calls :: "Sensor \<Rightarrow> sn_call list \<Rightarrow> Sensor \<times> sn_ret list" where
  "Sensor_calls s [] = (s, [])"
| "Sensor_calls s (c # cs) =
     (let (s', r) = Sensor_call s c; (s'', rs) = Sensor_calls s' cs in (s'', r # rs))"

subsection \<open>Lemmas\<close>

lemma Sys_step_as_call: "Sys_step S e = map_sum id fst (Api_step S (sys_event_call e))"
  by (cases e) (auto simp: case_prod_unfold Let_def split: sum.split)

lemma Api_step_Update_Tick:
  "Api_step S (Call (Update t)) = Inr (S', r) \<Longrightarrow> Sys_step S (Tick t) = Inr S'"
  using Sys_step_as_call[of S "Tick t"] by simp

lemma Sys_init_as_call:
  "Api_step (Sys_new sc) (Call (SetWindow (Some w))) = Inr (Sys_init sc w, RVoid)"
  by (simp add: Sys_new_def Sys_init_def)

lemma Api_step_Call_Update_cases:
  assumes "Api_step S (Call (Update t)) = Inr (S', r)"
  obtains "S' = S"
  | p2 a2 b2 where "sm_period (sys_speedo S) \<le> t_now t - sm_last (sys_speedo S)"
      "Speedometer_sense ((sys_speedo S)\<lparr>sm_last := t_now t\<rparr>) (sys_sensA S) (sys_sensB S) t = Inr (p2, a2, b2)"
      "S' = \<lparr>sys_speedo = Speedometer_fsm p2 (t_clock t), sys_sensA = a2, sys_sensB = b2\<rparr>"
  using Api_step_Update_Tick[OF assms] by (rule Sys_step_Tick_cases) (blast intro: that)+

text \<open>Induction over the states a client reaches, for a property of the speedometer
  object: it must hold after the constructor and survive a due tick, the setters,
  \<open>inWindow\<close> and the two reader calls; the other calls and the interrupts leave the
  object alone.\<close>

lemma Api_speedo_induct:
  assumes "Api_reachable S"
    and init: "\<And>sc. P (Speedometer_new sc)"
    and tick: "\<And>p a b t p2 a2 b2. P p \<Longrightarrow> sm_period p \<le> t_now t - sm_last p \<Longrightarrow>
        Speedometer_sense (p\<lparr>sm_last := t_now t\<rparr>) a b t = Inr (p2, a2, b2) \<Longrightarrow>
        P (Speedometer_fsm p2 (t_clock t))"
    and set: "\<And>p sc m w. P p \<Longrightarrow>
        P (Speedometer_setScale p sc) \<and> P (Speedometer_setMetric p m) \<and> P (Speedometer_setWindow p w)"
    and inwin: "\<And>p r p' d. P p \<Longrightarrow> Speedometer_inWindow p r = Inr (p', d) \<Longrightarrow> P p'"
    and read: "\<And>p. P p \<Longrightarrow> P (fst (Speedometer_isUpdated p))"
    and speed: "\<And>p. P p \<Longrightarrow> P (fst (Speedometer_getSpeed p))"
  shows "P (sys_speedo S)"
  using assms(1)
proof (induction rule: Api_reachable.induct)
  case (init sc)
  then show ?case using assms(2) by (simp add: Sys_new_def)
next
  case (step S e S' r)
  show ?case
  proof (cases e)
    case (Call c)
    show ?thesis
    proof (cases c)
      case (Update t)
      from step.hyps(2) Call Update have "Api_step S (Call (Update t)) = Inr (S', r)" by simp
      then show ?thesis
      proof (rule Api_step_Call_Update_cases)
        assume "S' = S"
        then show ?thesis using step.IH by simp
      next
        fix p2 a2 b2
        assume "sm_period (sys_speedo S) \<le> t_now t - sm_last (sys_speedo S)"
          and "Speedometer_sense ((sys_speedo S)\<lparr>sm_last := t_now t\<rparr>) (sys_sensA S) (sys_sensB S) t =
               Inr (p2, a2, b2)"
          and "S' = \<lparr>sys_speedo = Speedometer_fsm p2 (t_clock t), sys_sensA = a2, sys_sensB = b2\<rparr>"
        then show ?thesis using tick[OF step.IH] by simp
      qed
    next
      case (InWindow rng)
      with step.hyps(2) Call show ?thesis
        by (auto split: sum.splits intro: inwin[OF step.IH])
    qed (use step.hyps(2) step.IH Call set read speed in \<open>auto simp: case_prod_unfold Let_def\<close>)
  qed (use step in auto)
qed

lemma Api_run_reachable: "Api_run S es = Inr (S', rs) \<Longrightarrow> Api_reachable S \<Longrightarrow> Api_reachable S'"
proof (induction es arbitrary: S rs)
  case Nil
  then show ?case by simp
next
  case (Cons e es)
  then obtain S1 r1 rs1 where "Api_step S e = Inr (S1, r1)" and "Api_run S1 es = Inr (S', rs1)"
    by (auto split: sum.splits)
  with Cons.IH Cons.prems(2) show ?case by (blast intro: Api_reachable.step)
qed

lemma api_scenario_run:
  "\<exists>S rs. Api_run (Sys_new eJP) api_scenario = Inr (S, rs) \<and>
     m_fsm_state (sys_speedo S) = eUpdated \<and> m_updated (sys_speedo S)"
  by (simp add: api_scenario_def Sys_new_def scenario_A_first_def scenario_B_second_def
      scenario_window_def tick_def Speedometer_setScale_def Speedometer_setMetric_def Sys_eval_simps)

text \<open>The fields outside the control projection do not steer a step: a step from
  the projection of a state has the projection of its result.\<close>

lemma Speedometer_ctrl_idem [simp]: "Speedometer_ctrl (Speedometer_ctrl p) = Speedometer_ctrl p"
  by (simp add: Speedometer_ctrl_def)

lemma Speedometer_ctrl_clock [simp]:
  "sm_period (Speedometer_ctrl p) = sm_period p" "sm_last (Speedometer_ctrl p) = sm_last p"
  "(Speedometer_ctrl p)\<lparr>sm_last := n\<rparr> = Speedometer_ctrl (p\<lparr>sm_last := n\<rparr>)"
  by (simp_all add: Speedometer_ctrl_def)

lemma Speedometer_ctrl_fsm:
  "Speedometer_ctrl (Speedometer_fsm (Speedometer_ctrl p) now) = Speedometer_ctrl (Speedometer_fsm p now)"
  by (cases "m_fsm_state p") (simp_all add: Speedometer_ctrl_def Speedometer_fsm_defs Let_def)

lemma Speedometer_ctrl_sense:
  "Speedometer_sense (Speedometer_ctrl p) a b t =
   map_sum id (\<lambda>(p2, a2, b2). (Speedometer_ctrl p2, a2, b2)) (Speedometer_sense p a b t)"
  by (simp add: Speedometer_ctrl_def Speedometer_sense_def Let_def case_prod_unfold split: option.split)

lemma Speedometer_ctrl_update:
  "map_sum id (\<lambda>(p2, a2, b2, d). (Speedometer_ctrl p2, a2, b2, d)) (Speedometer_update (Speedometer_ctrl p) a b t) =
   map_sum id (\<lambda>(p2, a2, b2, d). (Speedometer_ctrl p2, a2, b2, d)) (Speedometer_update p a b t)"
  by (auto simp: Speedometer_update_def StateMachine_update_def Speedometer_ctrl_sense
      Speedometer_ctrl_fsm split: sum.split)

lemma Sys_ctrl_Api_step:
  "\<not> units_call e \<Longrightarrow>
   map_sum id (\<lambda>(S', r). Sys_ctrl S') (Api_step (Sys_ctrl S) e) =
   map_sum id (\<lambda>(S', r). Sys_ctrl S') (Api_step S e)"
proof (cases e)
  case (Call c)
  moreover assume "\<not> units_call e"
  ultimately show ?thesis
  proof (cases c)
    case (Update t)
    have "map_sum id (\<lambda>(p2, a2, b2, d). (Speedometer_ctrl p2, a2, b2, d))
            (Speedometer_update (Speedometer_ctrl (sys_speedo S)) (sys_sensA S) (sys_sensB S) t) =
          map_sum id (\<lambda>(p2, a2, b2, d). (Speedometer_ctrl p2, a2, b2, d))
            (Speedometer_update (sys_speedo S) (sys_sensA S) (sys_sensB S) t)"
      by (rule Speedometer_ctrl_update)
    with Call Update show ?thesis
      by (auto simp: Sys_ctrl_def split: sum.splits)
  qed (auto simp: Sys_ctrl_def Speedometer_ctrl_def Speedometer_setWindow_def Speedometer_inWindow_def
         Speedometer_isUpdated_def Speedometer_getSpeed_def Let_def case_prod_unfold split: option.split)
qed (simp_all add: Sys_ctrl_def)

subsection \<open>Properties of the program under any client\<close>

text \<open>C2: Whatever a client calls, in whatever order (setters, \<open>setWindow\<close> with any
  pointer, \<open>inWindow\<close>, \<open>begin\<close>, ticks before any window), the update flag is raised
  only in state Updated.\<close>

theorem Api_updated_only_in_Updated:
  assumes "Api_reachable S" and "m_updated (sys_speedo S)"
  shows "m_fsm_state (sys_speedo S) = eUpdated"
proof -
  have "m_updated (sys_speedo S) \<longrightarrow> m_fsm_state (sys_speedo S) = eUpdated"
    using assms(1)
  proof (rule Api_speedo_induct)
    fix p a b t p2 a2 b2
    assume IH: "m_updated p \<longrightarrow> m_fsm_state p = eUpdated"
      and sense: "Speedometer_sense (p\<lparr>sm_last := t_now t\<rparr>) a b t = Inr (p2, a2, b2)"
    then have "m_updated p2 \<longrightarrow> m_fsm_state p2 = eUpdated"
      using Speedometer_sense_frame[OF sense] by simp
    then show "m_updated (Speedometer_fsm p2 (t_clock t)) \<longrightarrow>
               m_fsm_state (Speedometer_fsm p2 (t_clock t)) = eUpdated"
      by (cases "m_fsm_state p2") (auto simp: Speedometer_fsm_defs Let_def)
  qed (auto simp: Speedometer_new_def Speedometer_setScale_def Speedometer_setMetric_def
         Speedometer_setWindow_def Speedometer_inWindow_def Speedometer_isUpdated_def
         Speedometer_getSpeed_def case_prod_unfold Let_def split: option.splits)
  with assms(2) show ?thesis by simp
qed

theorem Api_updated_only_in_Updated_witness:
  "\<exists>S rs. Api_run (Sys_new eJP) api_scenario = Inr (S, rs) \<and> Api_reachable S \<and>
     m_updated (sys_speedo S) \<and> m_fsm_state (sys_speedo S) = eUpdated"
proof -
  obtain S rs where run: "Api_run (Sys_new eJP) api_scenario = Inr (S, rs)"
    and u: "m_updated (sys_speedo S)"
    using api_scenario_run by blast
  have r: "Api_reachable S" using Api_run_reachable[OF run Api_reachable.init] .
  show ?thesis using run r u Api_updated_only_in_Updated[OF r u] by blast
qed

text \<open>Every state of the sketch's program (theory \<open>System\<close>) is a state a client of
  the interface reaches: the sketch is one client, which calls \<open>setWindow\<close> once and
  then only \<open>update\<close>, \<open>isUpdated\<close> and \<open>getSpeed\<close>, each event of it being the
  call of the interface that it names.\<close>

theorem reachable_under_Api_reachable:
  assumes "reachable_under ok S"
  shows "Api_reachable S"
  using assms
proof (induction rule: reachable_under.induct)
  case (init sc w)
  show ?case using Api_reachable.step[OF Api_reachable.init Sys_init_as_call] .
next
  case (step S e S')
  then obtain r where "Api_step S (sys_event_call e) = Inr (S', r)"
    using Sys_step_as_call[of S e] by (cases "Api_step S (sys_event_call e)") auto
  with step.IH show ?case by (rule Api_reachable.step)
qed

theorem reachable_under_Api_reachable_witness:
  "reachable (Sys_init eJP scenario_window) \<and> Api_reachable (Sys_init eJP scenario_window)"
  using reachable_under_Api_reachable[OF reachable_under.init] reachable_under.init by blast

text \<open>C4: The only failure of a call is the null window: a call fails exactly when no window
  is installed and it is \<open>inWindow\<close>, or a due \<open>update\<close> that finds a measurement
  started and both sensors ready, so that it dereferences \<open>m_window\<close>.\<close>

theorem Speedometer_call_error:
  "isl (Speedometer_call S c) \<longleftrightarrow> m_window (sys_speedo S) = None \<and>
     ((\<exists>r. c = InWindow r) \<or>
      (\<exists>t. c = Update t \<and> sm_period (sys_speedo S) \<le> t_now t - sm_last (sys_speedo S) \<and>
           m_triggered (sys_speedo S) \<and> m_ready (sys_sensA S) \<and> m_ready (sys_sensB S)))"
  by (cases c) (auto simp: Speedometer_update_def StateMachine_update_def Speedometer_sense_def
      Sensor_is_ready_def Speedometer_inWindow_def Let_def case_prod_unfold
      split: option.split sum.split)

text \<open>C6: Changing the units does not change what the program does: removing every
  \<open>setScale\<close> and \<open>setMetric\<close> call from any sequence of calls and interrupts
  leaves the outcome the same (the same error, or the same final state up to the
  reported speed and the unit settings). The state machine, the detections and the
  sensors never read the units.\<close>

theorem Api_units_noninterference:
  "map_sum id (\<lambda>(S', rs). Sys_ctrl S') (Api_run S es) =
   map_sum id (\<lambda>(S', rs). Sys_ctrl S') (Api_run S (filter (\<lambda>e. \<not> units_call e) es))"
proof -
  have "Sys_ctrl S1 = Sys_ctrl S2 \<Longrightarrow>
    map_sum id (\<lambda>(S', rs). Sys_ctrl S') (Api_run S1 es) =
    map_sum id (\<lambda>(S', rs). Sys_ctrl S') (Api_run S2 (filter (\<lambda>e. \<not> units_call e) es))" for S1 S2
  proof (induction es arbitrary: S1 S2)
    case Nil
    then show ?case by simp
  next
    case (Cons e es)
    show ?case
    proof (cases "units_call e")
      case True
      then obtain S1' where step: "Api_step S1 e = Inr (S1', RVoid)" and "Sys_ctrl S1' = Sys_ctrl S2"
        using Cons.prems
        by (cases e rule: units_call.cases)
          (auto simp: Sys_ctrl_def Speedometer_ctrl_def Speedometer_setScale_def Speedometer_setMetric_def)
      with Cons.IH[of S1' S2] True show ?thesis by (auto split: sum.splits)
    next
      case False
      have "map_sum id (\<lambda>(S', r). Sys_ctrl S') (Api_step S1 e) =
            map_sum id (\<lambda>(S', r). Sys_ctrl S') (Api_step S2 e)"
        using Sys_ctrl_Api_step[OF False, of S1] Sys_ctrl_Api_step[OF False, of S2] Cons.prems by simp
      then consider err where "Api_step S1 e = Inl err" "Api_step S2 e = Inl err"
        | S1' r1 S2' r2 where "Api_step S1 e = Inr (S1', r1)" "Api_step S2 e = Inr (S2', r2)"
            "Sys_ctrl S1' = Sys_ctrl S2'"
        by (cases "Api_step S1 e"; cases "Api_step S2 e") auto
      then show ?thesis
      proof cases
        case 1
        with False show ?thesis by simp
      next
        case (2 S1' r1 S2' r2)
        with False Cons.IH[of S1' S2'] show ?thesis by (auto split: sum.splits)
      qed
    qed
  qed
  then show ?thesis by simp
qed

text \<open>C30: Through its own interface a sensor cannot be re-armed: after a trigger,
  whatever calls of \<open>begin\<close>, \<open>trigger\<close>, \<open>is_ready\<close> and \<open>get_distance\<close>
  follow, \<open>is_ready\<close> answers false and \<open>trigger\<close> starts no measurement
  (returns -1 and changes nothing); only the interrupt routine raises the flag again.\<close>

theorem Sensor_calls_rearm_only_by_isr:
  "let s' = fst (Sensor_calls (fst (Sensor_call s (SnTrigger rc))) cs) in
   snd (Sensor_call s' SnIsReady) = SnBool False \<and> Sensor_call s' (SnTrigger rc') = (s', SnInt (-1))"
proof -
  have "\<not> m_ready s0 \<Longrightarrow> \<not> m_ready (fst (Sensor_calls s0 cs))" for s0
  proof (induction cs arbitrary: s0)
    case Nil
    then show ?case by simp
  next
    case (Cons c cs)
    have "\<not> m_ready (fst (Sensor_call s0 c))"
      using Cons.prems by (cases c) (auto simp: Sensor_trigger_def case_prod_unfold Let_def)
    with Cons.IH show ?case by (simp add: case_prod_unfold Let_def)
  qed
  moreover have "\<not> m_ready (fst (Sensor_call s (SnTrigger rc)))"
    by (simp add: Sensor_trigger_def)
  ultimately have "\<not> m_ready (fst (Sensor_calls (fst (Sensor_call s (SnTrigger rc))) cs))" .
  then show ?thesis by (simp add: Sensor_is_ready_def Sensor_trigger_def)
qed

end
