(* ===== verification/Clock.thy ===== *)
theory Clock
  imports System
begin

text \<open>
  The program against a clock that runs forward. \<open>update\<close> reads \<open>millis()\<close> twice:
  the tick gate reads \<open>t_now\<close>, and the branch of the state machine reads \<open>t_clock\<close>
  after the sensing phase, whose I2C transfers take time, so a time mark \<open>m_sense_when\<close>
  can lie well after the tick it belongs to. The environment assumption
  \<open>clock_forward\<close>: the readings of a run, in the order the program makes them, never
  decrease and do not wrap (the run lasts less than \<open>2^32\<close> ms, about 49.7 days, from
  the constructor, whose last tick is 0). Nothing bounds the duration of an I2C
  transfer. The invariant \<open>clock_inv\<close> then shows why no interval is shorter than a tick
  period: a detection changes only on a tick that reads the sensors, a reading is always
  preceded by a tick that triggers them, so between the marks of the first and the second
  detection lies a whole tick period between two gates.
\<close>

text \<open>The clock readings of a run: the two of each tick, in order.\<close>

fun tick_readings :: "event list \<Rightarrow> u32 list" where
  "tick_readings [] = []"
| "tick_readings (Tick t # es) = t_now t # t_clock t # tick_readings es"
| "tick_readings (_ # es) = tick_readings es"

definition clock_forward :: "event list \<Rightarrow> bool" where
  "clock_forward es \<longleftrightarrow> sorted (map unat (tick_readings es))"

text \<open>The invariant, relative to the last clock reading \<open>c\<close>: the constants, the last
  tick not after \<open>c\<close>; no detection pending in Clear; in SenseA no detection on B (in
  SenseB none on A); an open interval's mark not after \<open>c\<close>, and not after the last tick
  once the sensors have been triggered since; the stored speed between 0 and its largest
  finite value.\<close>

definition clock_inv :: "u32 \<Rightarrow> Speedometer \<Rightarrow> bool" where
  "clock_inv c p \<longleftrightarrow> sm_period p = 5 \<and> m_spacing p = 127 \<and> unat (sm_last p) \<le> unat c \<and>
     (m_fsm_state p = eClear \<longrightarrow> \<not> m_detA p \<and> \<not> m_detB p) \<and>
     (m_fsm_state p = eSenseA \<longrightarrow> \<not> m_detB p) \<and> (m_fsm_state p = eSenseB \<longrightarrow> \<not> m_detA p) \<and>
     (m_fsm_state p \<in> {eSenseA, eSenseB} \<longrightarrow> unat (m_sense_when p) \<le> unat c \<and>
        (m_triggered p \<longrightarrow> unat (m_sense_when p) \<le> unat (sm_last p))) \<and>
     (\<exists>r. m_speed p = Num r \<and> 0 \<le> r \<and> r \<le> 127 / 5 * 160 * 3.6)"

text \<open>A run in which every I2C transfer takes a few milliseconds: the branch reads the
  clock 3 or 4 ms after the tick gate.\<close>

definition tick2 :: "u32 \<Rightarrow> u32 \<Rightarrow> meas \<Rightarrow> meas \<Rightarrow> event" where
  "tick2 n m a b = Tick \<lparr>t_now = n, t_clock = m, t_startA = 0, t_startB = 0, t_measA = a, t_measB = b\<rparr>"

definition slow_run :: "event list" where
  "slow_run = [tick2 95 98 NoMeas NoMeas, IsrA, IsrB, tick2 100 104 (Meas 1000) (Meas 0),
     tick2 105 109 NoMeas NoMeas, IsrA, IsrB]"

definition slow_second :: tick_in where
  "slow_second = \<lparr>t_now = 300, t_clock = 303, t_startA = 0, t_startB = 0, t_measA = Meas 0,
     t_measB = Meas 1000\<rparr>"

subsection \<open>Lemmas\<close>

lemma unat_sub_le: "unat a \<le> unat b \<Longrightarrow> unat (b - a) = unat b - unat a"
  by (simp add: unat_sub word_le_nat_alt)

lemma clock_inv_mono: "clock_inv c p \<Longrightarrow> unat c \<le> unat c' \<Longrightarrow> clock_inv c' p"
  unfolding clock_inv_def by auto

text \<open>The sensing phase either leaves the detections alone and the sensors triggered, or
  reads them, which it does only when they were triggered.\<close>

lemma Speedometer_sense_dets:
  assumes "Speedometer_sense p a b t = Inr (p2, a2, b2)"
  shows "(m_detA p2 = m_detA p \<and> m_detB p2 = m_detB p \<and> m_triggered p2) \<or>
         (m_triggered p \<and> \<not> m_triggered p2)"
  using assms
  by (auto simp: Speedometer_sense_def case_prod_unfold Let_def split: if_splits option.splits)

text \<open>One due tick keeps the invariant: \<open>p\<close> before the tick, \<open>p2\<close> after the sensing
  phase, the state machine run at the branch's reading \<open>now\<close>.\<close>

lemma fsm_clock_inv:
  assumes inv: "clock_inv c p"
    and fr: "m_fsm_state p2 = m_fsm_state p" "m_sense_when p2 = m_sense_when p"
      "m_speed p2 = m_speed p" "m_spacing p2 = 127" "sm_period p2 = 5" "sm_last p2 = g"
    and dets: "(m_detA p2 = m_detA p \<and> m_detB p2 = m_detB p \<and> m_triggered p2) \<or>
         (m_triggered p \<and> \<not> m_triggered p2)"
    and clk: "unat c \<le> unat g" "unat g \<le> unat now" "5 \<le> unat g - unat (sm_last p)"
  shows "clock_inv now (Speedometer_fsm p2 now)"
proof -
  have sw: "m_fsm_state p \<in> {eSenseA, eSenseB} \<Longrightarrow> unat (m_sense_when p) \<le> unat c"
    using inv by (simp add: clock_inv_def)
  have read: "m_fsm_state p \<in> {eSenseA, eSenseB} \<Longrightarrow> m_triggered p \<Longrightarrow>
      5 \<le> unat (now - m_sense_when p)"
    using inv clk sw by (auto simp: clock_inv_def unat_sub_le)
  have sp: "\<exists>r. Speedometer_calcScaleSpeed p2 (now - m_sense_when p2) = Num r \<and> 0 \<le> r \<and>
      r \<le> 127 / 5 * 160 * 3.6"
    if "m_fsm_state p \<in> {eSenseA, eSenseB}" "m_triggered p"
    using Speedometer_calcScaleSpeed_bounded read[OF that] fr by simp
  show ?thesis
  proof (cases "m_fsm_state p")
    case eClear
    then show ?thesis using inv fr dets clk
      by (auto simp: clock_inv_def Speedometer_fsm_defs)
  next
    case eSenseA
    then show ?thesis using inv fr dets clk sw sp
      by (auto simp: clock_inv_def Speedometer_fsm_defs Let_def)
  next
    case eSenseB
    then show ?thesis using inv fr dets clk sw sp
      by (auto simp: clock_inv_def Speedometer_fsm_defs Let_def)
  next
    case eUpdated
    then show ?thesis using inv fr clk by (auto simp: clock_inv_def Speedometer_fsm_defs)
  next
    case eActive
    then show ?thesis using inv fr clk by (auto simp: clock_inv_def Speedometer_fsm_defs)
  next
    case eClearing
    then show ?thesis using inv fr clk by (auto simp: clock_inv_def Speedometer_fsm_defs)
  qed
qed

lemma sorted_last_append:
  "sorted (map f (c # xs @ ys)) \<Longrightarrow> sorted (map f (last (c # xs) # ys))"
proof -
  assume s: "sorted (map f (c # xs @ ys))"
  have "last (c # xs) \<in> set (c # xs)" by (rule last_in_set) simp
  with s show ?thesis by (auto simp: sorted_append simp del: last.simps)
qed

lemma tick_readings_Cons: "tick_readings (e # es) = tick_readings [e] @ tick_readings es"
  by (cases e) simp_all


lemma tick_readings_Tick_sorted: "sorted (map unat (c # tick_readings [Tick t])) \<Longrightarrow> unat c \<le> unat (t_now t) \<and> unat (t_now t) \<le> unat (t_clock t)"
  by auto

lemma due_tick_gap: "clock_inv c p \<Longrightarrow> unat c \<le> unat (t_now t) \<Longrightarrow> sm_period p \<le> t_now t - sm_last p \<Longrightarrow>
   5 \<le> unat (t_now t) - unat (sm_last p)"
proof -
  assume inv: "clock_inv c p" and o: "unat c \<le> unat (t_now t)" and due: "sm_period p \<le> t_now t - sm_last p"
  have g: "unat (sm_last p) \<le> unat (t_now t)" using inv o by (simp add: clock_inv_def)
  have "sm_period p = 5" using inv by (simp add: clock_inv_def)
  with due have "5 \<le> unat (t_now t - sm_last p)" by (simp add: word_le_nat_alt)
  with g show ?thesis by (simp add: unat_sub_le)
qed


lemma clock_inv_isUpdated: "clock_inv c p \<Longrightarrow> clock_inv c (fst (Speedometer_isUpdated p))"
  by (simp add: Speedometer_isUpdated_def clock_inv_def)

lemma clock_inv_getSpeed: "clock_inv c p \<Longrightarrow> clock_inv c (fst (Speedometer_getSpeed p))"
  by (simp add: Speedometer_getSpeed_def clock_inv_def)

lemma clock_inv_tick:
  assumes inv: "clock_inv c p" and o: "unat c \<le> unat (t_now t)" "unat (t_now t) \<le> unat (t_clock t)"
    and due: "sm_period p \<le> t_now t - sm_last p"
    and sense: "Speedometer_sense (p\<lparr>sm_last := t_now t\<rparr>) a b t = Inr (p2, a2, b2)"
  shows "clock_inv (t_clock t) (Speedometer_fsm p2 (t_clock t))"
proof (rule fsm_clock_inv[OF inv, where g = "t_now t"])
  note fr = Speedometer_sense_frame[OF sense]
  have c: "sm_period p = 5" "m_spacing p = 127" using inv by (simp_all add: clock_inv_def)
  show "(m_detA p2 = m_detA p \<and> m_detB p2 = m_detB p \<and> m_triggered p2) \<or>
        (m_triggered p \<and> \<not> m_triggered p2)"
    using Speedometer_sense_dets[OF sense] by simp
  show "m_fsm_state p2 = m_fsm_state p" "m_sense_when p2 = m_sense_when p"
    "m_speed p2 = m_speed p" "sm_last p2 = t_now t"
    using fr by simp_all
  show "m_spacing p2 = 127" "sm_period p2 = 5" using fr c by simp_all
  show "5 \<le> unat (t_now t) - unat (sm_last p)" using due_tick_gap[OF inv o(1) due] .
qed (use o in simp_all)


lemma Sys_step_clock_inv:
  assumes inv: "clock_inv c (sys_speedo s)" and st: "Sys_step s e = Inr s'"
    and srt: "sorted (map unat (c # tick_readings [e]))"
  shows "clock_inv (last (c # tick_readings [e])) (sys_speedo s')"
proof (cases e)
  case (Tick t)
  have o: "unat c \<le> unat (t_now t)" "unat (t_now t) \<le> unat (t_clock t)" using tick_readings_Tick_sorted srt Tick by blast+
  from st Tick have "Sys_step s (Tick t) = Inr s'" by simp
  then have "clock_inv (t_clock t) (sys_speedo s')"
  proof (rule Sys_step_Tick_cases)
    assume "s' = s"
    then show ?thesis using clock_inv_mono[OF inv, of "t_clock t"] o by simp
  next
    fix p2 a2 b2
    assume "sm_period (sys_speedo s) \<le> t_now t - sm_last (sys_speedo s)"
      and "Speedometer_sense ((sys_speedo s)\<lparr>sm_last := t_now t\<rparr>) (sys_sensA s) (sys_sensB s) t =
           Inr (p2, a2, b2)"
      and "s' = \<lparr>sys_speedo = Speedometer_fsm p2 (t_clock t), sys_sensA = a2, sys_sensB = b2\<rparr>"
    then show ?thesis using clock_inv_tick[OF inv o] by simp
  qed
  then show ?thesis using Tick by simp
next
  case IsrA
  then show ?thesis using st inv by auto
next
  case IsrB
  then show ?thesis using st inv by auto
next
  case ReadUpdated
  then show ?thesis using st clock_inv_isUpdated[OF inv] by auto
next
  case ReadSpeed
  then show ?thesis using st clock_inv_getSpeed[OF inv] by auto
qed


lemma Sys_run_clock_inv:
  "Sys_run s es = Inr S \<Longrightarrow> clock_inv c (sys_speedo s) \<Longrightarrow> sorted (map unat (c # tick_readings es)) \<Longrightarrow>
   clock_inv (last (c # tick_readings es)) (sys_speedo S)"
proof (induction es arbitrary: s c)
  case Nil
  then show ?case by simp
next
  case (Cons e es)
  obtain s1 where st: "Sys_step s e = Inr s1" and run: "Sys_run s1 es = Inr S"
    using Cons.prems(1) by (auto split: sum.splits)
  have srt: "sorted (map unat (c # tick_readings [e] @ tick_readings es))"
    using Cons.prems(3) tick_readings_Cons[of e es] by simp
  then have "sorted (map unat (c # tick_readings [e]))"
    by (simp add: sorted_append)
  with Cons.prems(2) st have "clock_inv (last (c # tick_readings [e])) (sys_speedo s1)"
    by (rule Sys_step_clock_inv)
  note IH = Cons.IH[OF run this sorted_last_append[OF srt]]
  have "last (last (c # tick_readings [e]) # tick_readings es) = last (c # tick_readings (e # es))"
    by (subst tick_readings_Cons) (simp add: last_append del: tick_readings.simps)
  with IH show ?case by simp
qed

lemma Sys_init_clock_inv: "clock_inv 0 (sys_speedo (Sys_init sc w))"
  by (simp add: clock_inv_def Sys_init_def Speedometer_new_def Speedometer_setWindow_def)

lemma clock_forward_inv:
  "Sys_run (Sys_init sc w) es = Inr S \<Longrightarrow> clock_forward es \<Longrightarrow>
   clock_inv (last (0 # tick_readings es)) (sys_speedo S)"
  by (rule Sys_run_clock_inv[OF _ Sys_init_clock_inv]) (simp_all add: clock_forward_def)


lemma tick_readings_snoc: "tick_readings (es @ [Tick t]) = tick_readings es @ [t_now t, t_clock t]"
  by (induction es rule: tick_readings.induct) simp_all

lemma clock_forward_snoc:
  assumes "clock_forward (es @ [Tick t])"
  shows "clock_forward es" and "unat (last (0 # tick_readings es)) \<le> unat (t_now t)"
    and "unat (t_now t) \<le> unat (t_clock t)"
proof -
  have s: "sorted (map unat (tick_readings es @ [t_now t, t_clock t]))"
    using assms by (simp add: clock_forward_def tick_readings_snoc)
  then show "clock_forward es" by (simp add: clock_forward_def sorted_append)
  have "sorted (map unat (0 # tick_readings es @ [t_now t, t_clock t]))" using s by simp
  from sorted_last_append[OF this] show "unat (last (0 # tick_readings es)) \<le> unat (t_now t)"
    and "unat (t_now t) \<le> unat (t_clock t)" by simp_all
qed

lemma slow_run_eval:
  "\<exists>S S'. Sys_run (Sys_init eJP scenario_window) slow_run = Inr S \<and>
     Sys_step S (Tick slow_second) = Inr S' \<and>
     m_fsm_state (sys_speedo S) = eSenseA \<and> m_sense_when (sys_speedo S) = 104 \<and>
     m_fsm_state (sys_speedo S') = eUpdated"
  by (simp add: slow_run_def slow_second_def tick2_def scenario_window_def Sys_eval_simps)

lemma slow_run_forward: "clock_forward (slow_run @ [Tick slow_second])"
  by (simp add: clock_forward_def slow_run_def slow_second_def tick2_def)

subsection \<open>Properties under a forward clock\<close>

text \<open>C5: No division by zero in \<open>calcScaleSpeed\<close>: whenever a tick computes a speed (it
  takes the machine from SenseA or SenseB to Updated), the interval it divides by, from
  the first detection's mark to the branch's own reading of the clock, is at least one tick
  period (5 ms), however long the I2C transfers take, so the stored speed is that finite
  quotient. This holds on every run from the constructor and \<open>setWindow\<close> whose clock
  runs forward.\<close>

theorem clock_interval_positive:
  assumes run: "Sys_run (Sys_init sc w) es = Inr S" and cf: "clock_forward (es @ [Tick t])"
    and st: "Sys_step S (Tick t) = Inr S'"
    and pre: "m_fsm_state (sys_speedo S) \<in> {eSenseA, eSenseB}"
    and post: "m_fsm_state (sys_speedo S') = eUpdated"
  shows "5 \<le> unat (t_clock t - m_sense_when (sys_speedo S)) \<and>
    m_speed (sys_speedo S') =
      Speedometer_calcScaleSpeed (sys_speedo S) (t_clock t - m_sense_when (sys_speedo S)) \<and>
    m_speed (sys_speedo S') \<noteq> PosInf"
proof -
  let ?p = "sys_speedo S" and ?c = "last (0 # tick_readings es)"
  note o = clock_forward_snoc[OF cf]
  have inv: "clock_inv ?c ?p" using clock_forward_inv[OF run o(1)] .
  show ?thesis
    using st
  proof (rule Sys_step_Tick_cases)
    assume "S' = S"
    then show ?thesis using pre post by auto
  next
    fix p2 a2 b2
    assume due: "sm_period ?p \<le> t_now t - sm_last ?p"
      and sense: "Speedometer_sense (?p\<lparr>sm_last := t_now t\<rparr>) (sys_sensA S) (sys_sensB S) t = Inr (p2, a2, b2)"
      and S': "S' = \<lparr>sys_speedo = Speedometer_fsm p2 (t_clock t), sys_sensA = a2, sys_sensB = b2\<rparr>"
    note fr = Speedometer_sense_frame[OF sense]
    have upd: "(m_fsm_state ?p = eSenseA \<and> m_detB p2 \<or> m_fsm_state ?p = eSenseB \<and> m_detA p2) \<and>
        m_speed (Speedometer_fsm p2 (t_clock t)) = Speedometer_calcScaleSpeed p2 (t_clock t - m_sense_when p2)"
      using pre post S' fr by (auto simp: Speedometer_fsm_defs Let_def split: if_splits)
    have trig: "m_triggered ?p"
      using Speedometer_sense_dets[OF sense] upd inv by (auto simp: clock_inv_def)
    have sw: "unat (m_sense_when ?p) \<le> unat (sm_last ?p)" "unat (m_sense_when ?p) \<le> unat ?c"
      using inv pre trig by (auto simp: clock_inv_def)
    have "5 \<le> unat (t_now t) - unat (sm_last ?p)" using due_tick_gap[OF inv o(2) due] .
    then have five: "5 \<le> unat (t_clock t - m_sense_when ?p)"
      using sw o(2,3) by (simp add: unat_sub_le)
    have calc: "Speedometer_calcScaleSpeed p2 dt = Speedometer_calcScaleSpeed ?p dt" for dt
      using fr by (simp add: Speedometer_calcScaleSpeed_def)
    have "m_spacing ?p = 127" using inv by (simp add: clock_inv_def)
    then obtain r where "Speedometer_calcScaleSpeed ?p (t_clock t - m_sense_when ?p) = Num r"
      using Speedometer_calcScaleSpeed_bounded[OF five] by blast
    then show ?thesis using five upd calc fr S' by simp
  qed
qed

theorem clock_interval_positive_witness:
  "\<exists>S S'. Sys_run (Sys_init eJP scenario_window) slow_run = Inr S \<and>
     clock_forward (slow_run @ [Tick slow_second]) \<and> Sys_step S (Tick slow_second) = Inr S' \<and>
     m_fsm_state (sys_speedo S) \<in> {eSenseA, eSenseB} \<and> m_fsm_state (sys_speedo S') = eUpdated \<and>
     5 \<le> unat (t_clock slow_second - m_sense_when (sys_speedo S)) \<and> m_speed (sys_speedo S') \<noteq> PosInf"
proof -
  obtain S S' where run: "Sys_run (Sys_init eJP scenario_window) slow_run = Inr S"
    and st: "Sys_step S (Tick slow_second) = Inr S'" and pre: "m_fsm_state (sys_speedo S) = eSenseA"
    and post: "m_fsm_state (sys_speedo S') = eUpdated"
    using slow_run_eval by blast
  have pre': "m_fsm_state (sys_speedo S) \<in> {eSenseA, eSenseB}" using pre by simp
  show ?thesis
    using clock_interval_positive[OF run slow_run_forward st pre' post] run slow_run_forward st pre' post
    by blast
qed

text \<open>C7: On every run whose clock runs forward, the speed the reader gets is a number
  between 0 and the speed of a pass over the 127 mm spacing in one 5 ms tick at the largest
  scale (1:160), in km/h: never \<open>+inf\<close> and never negative.\<close>

theorem clock_speed_bounded:
  assumes "Sys_run (Sys_init sc w) es = Inr S" and "clock_forward es"
  shows "\<exists>r. m_speed (sys_speedo S) = Num r \<and> 0 \<le> r \<and> r \<le> 127 / 5 * 160 * 3.6"
  using clock_forward_inv[OF assms] by (simp add: clock_inv_def)

theorem clock_speed_bounded_witness:
  "\<exists>S. Sys_run (Sys_init eJP scenario_window) (slow_run @ [Tick slow_second]) = Inr S \<and>
     clock_forward (slow_run @ [Tick slow_second]) \<and> m_speed (sys_speedo S) \<noteq> Num 0 \<and>
     (\<exists>r. m_speed (sys_speedo S) = Num r \<and> 0 \<le> r \<and> r \<le> 127 / 5 * 160 * 3.6)"
proof -
  have "\<exists>S. Sys_run (Sys_init eJP scenario_window) (slow_run @ [Tick slow_second]) = Inr S \<and>
      m_speed (sys_speedo S) \<noteq> Num 0"
    by (simp add: slow_run_def slow_second_def tick2_def scenario_window_def Sys_eval_simps)
  then obtain S where run: "Sys_run (Sys_init eJP scenario_window) (slow_run @ [Tick slow_second]) = Inr S"
    and nz: "m_speed (sys_speedo S) \<noteq> Num 0" by blast
  show ?thesis using clock_speed_bounded[OF run slow_run_forward] run slow_run_forward nz by blast
qed

end
