(* ===== verification/Spec2Isabelle.thy ===== *)
theory Spec2Isabelle
  imports SampleFilter Hysteresis RangeSensor TransitTimer TransitSpec System Wiring Interleaving Api Clock
begin

text \<open>
  \<^bold>\<open>TrainSpeedometer: a verification development.\<close>

  The program (an Arduino sketch library, \<open>src/\<close>) measures the speed of a model train
  passing two VL6180X range sensors a fixed distance apart. Its parts, leaves first:
  \<^item> \<open>Filter<T>\<close> (\<open>src/Filter.h\<close>): a moving average over the last \<open>m_nsamps\<close>
    samples, kept in a buffer shifted by one slot per sample;
  \<^item> \<open>SchmittTrigger<T>\<close> (\<open>src/SchmittTrigger.h\<close>): a boolean with hysteresis around
    a reference value;
  \<^item> \<open>RangeWindow<T>\<close> (\<open>src/RangeWindow.h\<close>): two Schmitt triggers, true when the
    input is above the low one and not above the high one;
  \<^item> \<open>Sensor\<close> (\<open>src/Sensor.h\<close>, \<open>src/Sensor.cpp\<close>): one range sensor: a ready flag
    set by an interrupt routine, trigger / is-ready / get-distance, its own 10-sample
    \<open>Filter<uint32_t>\<close>, and the hardware initialisation \<open>begin\<close>;
  \<^item> \<open>Speedometer\<close> (\<open>src/Speedometer.h\<close>, \<open>src/Speedometer.cpp\<close>): a
    \<open>StateMachine\<close> subclass whose \<open>update\<close> runs every 5 ms: it triggers both
    sensors, reads them when both are ready, feeds both distances through the one installed
    \<open>RangeWindow<uint8_t>\<close>, and drives a six-state machine (Clear, SenseA, SenseB,
    Updated, Active, Clearing) that times the interval between the two detections and
    converts it to a scale speed.

  \<^bold>\<open>Library layout\<close> (each theory imports the ones it calls).
  \<^item> \<open>Prelude\<close>: machine types (\<open>u8\<close>, \<open>u32\<close> as \<open>8 word\<close>, \<open>32 word\<close>;
    \<open>long\<close> as \<open>int\<close> with the range lemma \<open>long_range_add_sub\<close>), the C cast
    \<open>to_long\<close> (\<open>(long) x\<close>, sign-extension through 32 bits), the rule collections
    \<open>model_simps\<close> and \<open>word_facts\<close>, and list and word facts shared by the
    components (\<open>last_n\<close>, the window of the last \<open>n\<close> elements; exact unsigned
    division of a sum; a non-wrapping sum of words; the mean of naturals between
    their least and greatest; time spans on a wrapping clock).
  \<^item> \<open>SampleFilter\<close> (\<open>src/Filter.h\<close>): the record \<open>'t Filter\<close>, the constructor
    as the code runs it (\<open>Filter_construct\<close>: the loop clearing an uninitialised
    allocation, \<open>Filter_clear_loop\<close>, kept as a \<open>while_option\<close> loop) and the object
    it builds, \<open>Filter_new\<close>; the pointer loop of \<open>filter\<close> as \<open>filter_loop\<close> (one recursive
    call per pass, the list index of \<open>dptr\<close> as an argument), the method
    \<open>Filter_filter\<close>, the reference \<open>window_mean\<close>. Lemmas: the loop computes the
    shift and the wrapping sum (\<open>Filter_filter_eq\<close>); the buffer keeps its length;
    after any sequence of samples the buffer is the last \<open>m_nsamps\<close> of them,
    zero-padded (read back exactly once \<open>m_nsamps\<close> samples are in), and the output is
    their mean in wrapping arithmetic, between their least and greatest while the sum does
    not wrap; the constructor's loop stops for every allocation and clears it.
  \<^item> \<open>Hysteresis\<close> (\<open>src/SchmittTrigger.h\<close>, \<open>src/RangeWindow.h\<close>): records
    \<open>SchmittTrigger\<close> and \<open>RangeWindow\<close>, the constructors (the window's edges
    \<open>center \<plusminus> hwidth\<close> computed in \<open>T\<close>, hence modulo \<open>2^LENGTH(T)\<close>), the
    methods \<open>SchmittTrigger_f\<close> and \<open>RangeWindow_within\<close> over any \<open>'a word\<close>, the
    comparisons in \<open>long\<close>. Lemmas: closed form of the trigger (\<open>schmitt_out\<close>),
    its three branches, that \<open>long\<close> never overflows for types narrower than 31 bits,
    the band in which the window detects, the wrapped edges of a window near 0, and the
    refinement of the abstract hysteresis relay (\<open>relay\<close>, \<open>window_spec\<close>) by any
    sequence of calls of \<open>f\<close> and of \<open>within\<close>; \<open>RangeWindow_wf\<close>, the stored
    \<open>long\<close> values are values of \<open>T\<close>, holds for every constructed window and is kept
    by \<open>within\<close>.
  \<^item> \<open>RangeSensor\<close> (\<open>src/Sensor.h\<close>, \<open>src/Sensor.cpp\<close>): the record \<open>Sensor\<close>
    (filter, ready flag, last distance), \<open>trigger\<close>, \<open>is_ready\<close>, \<open>get_distance\<close>,
    the interrupt routine, and \<open>begin\<close> as the sequence of driver calls (power-on,
    then the configuration calls with early return). Driver results are inputs (\<open>meas\<close>: a range or a failed read). Lemmas: the
    ready-flag handshake, that no measurement starts before an interrupt, that distances
    are the filtered readings, and the result of \<open>begin\<close>; \<open>Sensor_wf\<close> (10 filter
    slots) is kept by every operation.
  \<^item> \<open>TransitTimer\<close> (\<open>src/Speedometer.h\<close>, \<open>src/Speedometer.cpp\<close>): the record
    \<open>Speedometer\<close> extending the spec-modelled \<open>StateMachine\<close> (the tick gate of an
    external library, not under \<open>src/\<close>); \<open>update\<close> as in the code: the tick gate,
    then the sensing phase \<open>Speedometer_sense\<close> (trigger, read when both ready, both
    distances narrowed to \<open>uint8_t\<close> and fed through the one window), then the state
    machine \<open>Speedometer_fsm\<close>, a dispatch on \<open>m_state\<close> to one definition per branch
    of the code (\<open>Speedometer_onClear\<close>, \<open>Speedometer_onSenseA\<close>,
    \<open>Speedometer_onSenseB\<close>, \<open>Speedometer_onUpdated\<close>, \<open>Speedometer_onActive\<close>,
    \<open>Speedometer_onClearing\<close>), and the LED; the clock is read twice, by the tick
    gate (\<open>t_now\<close>) and by the branch after the sensing phase and its I2C transfers
    (\<open>t_clock\<close>); \<open>calcScaleSpeed\<close>, the setters,
    \<open>inWindow\<close>, \<open>isUpdated\<close>, \<open>getSpeed\<close>, \<open>begin\<close>. A dereference of the null
    window is the error \<open>Inl NullWindow\<close>. Lemmas: the frame of the machine, the spec's scenarios 1, 3, 4 and the second detection, recovery to Clear within three
    ticks spaced beyond the timeouts, the tick gate, the one-shot update flag, the bound on
    a computed speed, the inverted result of \<open>begin\<close>.
  \<^item> \<open>TransitSpec\<close>: the six-state contract of the spec as the inductive relation
    \<open>transit_spec\<close> (executable by \<open>code_pred\<close>), its determinism and totality, and
    the refinement theorem: the concrete machine makes exactly the contract's transition.
  \<^item> \<open>System\<close>: the program as a whole: state \<open>Sys\<close> (speedometer and the two global
    sensors), events (a tick of the loop with its clock and driver results, either
    interrupt routine, the reader's \<open>isUpdated\<close> and \<open>getSpeed\<close>), \<open>Sys_step\<close>,
    \<open>Sys_run\<close>, the inductive set \<open>reachable_under ok\<close> of states reached from the
    constructor followed by \<open>setWindow\<close> by events the environment \<open>ok\<close> admits
    (\<open>reachable\<close>: all events), and an induction rule over it. Invariants: no
    reachable step fails; \<open>Sys_wf\<close> (well-formed sensors, an installed window of
    \<open>uint8_t\<close> values, the constructor's period and spacing) holds at the start and is
    kept. Without an interrupt from sensor A no run ever measures or detects anything; when
    both sensors answer a due tick, the sensors are read at that tick or the next.
  \<^item> \<open>Clock\<close>: runs whose clock runs forward (\<open>clock_forward\<close>: the readings of
    the run, in order, never decrease and do not wrap) and the invariant \<open>clock_inv\<close>
    over them, relative to the last reading: no detection pending in Clear, none on the
    other channel in SenseA/SenseB, an open interval's mark not after the last tick once
    the sensors have been triggered since, the speed bounded. Properties: a tick that
    computes a speed divides by at least 5 ms, however long the I2C transfers take, and the
    stored speed stays in \<open>[0, 127/5 \<cdot> 160 \<cdot> 3.6]\<close> km/h.
  \<^item> \<open>Wiring\<close> (\<open>src/Speedometer.cpp\<close> lines 11--44 and 62--70, \<open>src/Sensor.cpp\<close>
    lines 6--29): the pin and address constants, the global ready flags \<open>readyA\<close>,
    \<open>readyB\<close> as an explicit store, the interrupt routines, the constant members of
    \<open>Sensor\<close> (address, pins, the flag it points to), \<open>setupInterruptHandler\<close>, and
    the constructor body that creates the sensors and attaches the routines
    (\<open>Speedometer_wiring\<close>, over the board's \<open>digitalPinToInterrupt\<close>). The theorem
    shows that the \<open>System\<close> events \<open>IsrA\<close>, \<open>IsrB\<close> are exactly the interrupts of the
    sensors' own pins as wired, and that the two sensors share no address, pin or flag.
  \<^item> \<open>Interleaving\<close>: the sensing phase of \<open>update\<close> as steps at the granularity of
    the ready-flag accesses (\<open>sense_micro\<close>), equal to \<open>Speedometer_sense\<close> without
    interrupts; an interrupt between any two steps has the effect of one just before or
    just after the call, which justifies placing interrupts between calls in \<open>System\<close>.
  \<^item> \<open>Api\<close> (\<open>src/Speedometer.h\<close> lines 48--59, \<open>src/Sensor.h\<close> lines 31--34):
    the public interfaces as datatypes of calls, \<open>sp_call\<close> and \<open>sn_call\<close>, with
    their dispatch functions \<open>Speedometer_call\<close> and \<open>Sensor_call\<close>; the program
    under an arbitrary client (\<open>Api_step\<close>, \<open>Api_run\<close>, the inductive set
    \<open>Api_reachable\<close> of states reached from the constructors by calls in any order and
    the interrupts). The sketch's program of \<open>System\<close> is one such client, so every
    \<open>reachable\<close> state is \<open>Api_reachable\<close>. Properties: the update flag is raised only
    in Updated under any client; a call fails exactly on the two dereferences of a null
    window; \<open>setScale\<close> and \<open>setMetric\<close> never change what the program does next
    (removing them leaves the outcome the same up to the speed and the units, via the
    control projection \<open>Sys_ctrl\<close>); a sensor's own interface cannot re-arm it after a
    trigger.
  \<^item> This theory: evaluated runs across the components, which document the findings:
    the spec's scenario 2 end to end through sensors, filters, window and state machine;
    the coupling of the two channels through the one window; the narrowing of distances to
    \<open>uint8_t\<close> (a distance of 300 mm is seen as 44).

  \<^bold>\<open>Bounds.\<close> The clock is \<open>u32\<close> and every time difference wraps, as in the code.
  The properties of theory \<open>Clock\<close> assume that the readings of a run never decrease
  and that the run lasts less than \<open>2^32\<close> ms (about 49.7 days) from the constructor:
  within that span every 32-bit difference is the elapsed time. Nothing bounds the time an
  I2C transfer takes, so the branch's reading may lie any time after the tick gate's. The comparisons of
  \<open>SchmittTrigger\<close> are exact in a 32-bit \<open>long\<close> for every \<open>T\<close> narrower than 31
  bits, which covers the \<open>uint8_t\<close> the program uses. No loop of the program is
  unbounded: the filter loop runs \<open>m_nsamps\<close> times and is structural recursion; the
  constructor's clearing loop is kept as \<open>while_option\<close> and proved to return after
  \<open>nsamps\<close> passes.

  \<^bold>\<open>Not modelled.\<close> The VL6180X driver and the I2C bus (their results are inputs), the
  serial \<open>TRACE\<close> output, and floating-point rounding
  (\<open>double\<close> is a real number or \<open>+inf\<close>). The LED output is modelled as the boolean
  \<open>Speedometer_led\<close> only. The Arduino core is a library the sources call: its
  functions appear by their effect (\<open>attachInterrupt\<close> on a table of routines,
  \<open>pinMode\<close> as the set of pulled-up pins, \<open>millis\<close> as the two clock readings of a tick, the board's
  \<open>digitalPinToInterrupt\<close> as a parameter). \<open>Speedometer::within\<close> is declared but defined nowhere, so there is nothing to
  model. A filter of 0 samples would divide by zero; the program builds only filters of
  10, and no theorem depends on that case. Interrupts are taken to run between two calls of the loop;
  \<open>Interleaving\<close> proves that an interrupt inside a call has the same effect as one
  before or after it.
\<close>

section \<open>Properties across components\<close>

text \<open>End-to-end scenario 2 of the spec: channel A detects at 100 ms, channel B at
  300 ms, spacing 127 mm, scale 1:150, metric units: the program computes
  \<open>(127 / 200) \<cdot> 150 \<cdot> 3.6 = 342.9\<close> km/h, raises the update flag and waits in Updated;
  once the reader has consumed the flag, the next tick moves it to Active, keeping the
  speed.\<close>

theorem scenario_speed_end_to_end:
  "\<exists>S S'. Sys_run (Sys_init eJP scenario_window) (scenario_A_first @ scenario_B_second) = Inr S \<and>
     m_fsm_state (sys_speedo S) = eUpdated \<and> m_updated (sys_speedo S) \<and>
     m_speed (sys_speedo S) = Num 342.9 \<and>
     Sys_run (Sys_init eJP scenario_window)
       (scenario_A_first @ scenario_B_second @ [ReadUpdated, tick 305 NoMeas NoMeas]) = Inr S' \<and>
     m_fsm_state (sys_speedo S') = eActive \<and> \<not> m_updated (sys_speedo S') \<and>
     m_speed (sys_speedo S') = Num 342.9"
  by (simp add: scenario_A_first_def scenario_B_second_def scenario_window_def tick_def Sys_eval_simps
      Speedometer_isUpdated_def)

text \<open>The two channels share one window: \<open>update\<close> evaluates the single installed
  \<open>RangeWindow\<close> on A's distance and then on B's, so B's detection depends on A's reading.
  Two runs that differ only in channel A's raw range (1000 against 0, a distance of 100 mm
  against 0 mm) leave channel B in the same state, with the same distance of 9 mm (below the
  window's low edge of 10 mm), yet B counts as detected in the first run and not in the
  second; in the first the machine even rejects the pass as a double detection.\<close>

theorem shared_window_couples_channels:
  "\<exists>S1 S2.
     Sys_run (Sys_init eJP scenario_window) [tick 95 NoMeas NoMeas, IsrA, IsrB, tick 100 (Meas 1000) (Meas 90)] = Inr S1 \<and>
     Sys_run (Sys_init eJP scenario_window) [tick 95 NoMeas NoMeas, IsrA, IsrB, tick 100 (Meas 0) (Meas 90)] = Inr S2 \<and>
     sys_sensB S1 = sys_sensB S2 \<and> m_dist (sys_sensB S1) = 9 \<and>
     m_detB (sys_speedo S1) \<and> \<not> m_detB (sys_speedo S2) \<and>
     m_fsm_state (sys_speedo S1) = eClearing"
  by (simp add: scenario_window_def tick_def Sys_eval_simps)

text \<open>Distances are narrowed to \<open>uint8_t\<close> before the window sees them: a failed read
  (\<open>NO_READING\<close>) becomes 255, and a filtered distance of 300 mm becomes 44, so a window
  around 44 mm reports channel A as detected and starts a timing interval although the object
  is 300 mm away.\<close>

theorem distance_narrowed_to_uint8:
  "(ucast NO_READING :: u8) = 255 \<and>
   (\<exists>S. Sys_run (Sys_init eJP (RangeWindow_new (44::u8) 10 2))
          [tick 95 NoMeas NoMeas, IsrA, IsrB, tick 100 (Meas 3000) NoMeas] = Inr S \<and>
        m_dist (sys_sensA S) = 300 \<and> m_detA (sys_speedo S) \<and> m_fsm_state (sys_speedo S) = eSenseA)"
  by (simp add: tick_def Sys_eval_simps)

end
